theory Spec2Isabelle
  imports Complex_Main
begin

section \<open>Python values and string operations used by the services\<close>

text \<open>
  A parsed JSON document, as \<open>json.loads\<close> returns it: \<open>None\<close>, a bool, a number,
  a string, a list or a dict. A dict is an association list read with \<open>map_of\<close>
  (the value of the first entry for a key).
\<close>

datatype json =
    JNull
  | JBool bool
  | JNum int
  | JStr string
  | JArr "json list"
  | JObj "(string \<times> json) list"

text \<open>
  Exceptions as values. \<open>Failed prefix e\<close> is the plain
  \<open>Exception(f"{prefix}: {str(e)}")\<close> that the services raise when they wrap an inner
  exception \<open>e\<close>; \<open>PyException msg\<close> is a plain \<open>Exception(msg)\<close>;
  \<open>UpstreamError\<close> is whatever an external capability (completion API, vector store,
  transcription) raised.
\<close>

datatype error =
    NotFoundError string
  | ForbiddenError string
  | PyException string
  | Failed string error
  | UpstreamError string
  | JSONDecodeError
  | ValueError string
  | TypeError
  | AttributeError
  | IndexError
  | ValidationError
  | InvalidId

text \<open>\<open>s.startswith(p)\<close>.\<close>

definition starts_with :: "string \<Rightarrow> string \<Rightarrow> bool" where
  "starts_with p s = (take (length p) s = p)"

text \<open>\<open>sub in s\<close> for strings.\<close>

fun contains :: "string \<Rightarrow> string \<Rightarrow> bool" where
  "contains sub [] = (sub = [])"
| "contains sub (c # cs) = (starts_with sub (c # cs) \<or> contains sub cs)"

text \<open>
  \<open>s.split(sep)\<close> for a non-empty separator: the pieces between the non-overlapping
  occurrences of \<open>sep\<close>, scanning from the left. The accumulator holds the current
  piece reversed. (Python raises ValueError for an empty separator; the services only
  split at the literal fence markers.)
\<close>

fun py_split_acc :: "string \<Rightarrow> string \<Rightarrow> string \<Rightarrow> string list" where
  "py_split_acc sep cur [] = [rev cur]"
| "py_split_acc sep cur (c # cs) =
     (if sep \<noteq> [] \<and> starts_with sep (c # cs)
      then rev cur # py_split_acc sep [] (drop (length sep - 1) cs)
      else py_split_acc sep (c # cur) cs)"

definition py_split :: "string \<Rightarrow> string \<Rightarrow> string list" where
  "py_split sep s = py_split_acc sep [] s"

text \<open>
  \<open>str.isspace\<close> on the code points below 256: tab to carriage return, the four
  separators 0x1c..0x1f, space, NEL and the no-break space.
\<close>

definition py_isspace :: "char \<Rightarrow> bool" where
  "py_isspace c =
     (let n = (of_char c :: nat)
      in (9 \<le> n \<and> n \<le> 13) \<or> (28 \<le> n \<and> n \<le> 32) \<or> n = 133 \<or> n = 160)"

text \<open>\<open>s.strip()\<close>.\<close>

definition py_strip :: "string \<Rightarrow> string" where
  "py_strip s = rev (dropWhile py_isspace (rev (dropWhile py_isspace s)))"

text \<open>
  \<open>s.replace(old, new)\<close> for a non-empty \<open>old\<close>: every non-overlapping occurrence,
  from the left.
\<close>

fun py_replace :: "string \<Rightarrow> string \<Rightarrow> string \<Rightarrow> string" where
  "py_replace old new [] = []"
| "py_replace old new (c # cs) =
     (if old \<noteq> [] \<and> starts_with old (c # cs)
      then new @ py_replace old new (drop (length old - 1) cs)
      else c # py_replace old new cs)"

text \<open>\<open>sep.join(parts)\<close>.\<close>

fun py_join :: "string \<Rightarrow> string list \<Rightarrow> string" where
  "py_join sep [] = []"
| "py_join sep [p] = p"
| "py_join sep (p # q # ps) = p @ sep @ py_join sep (q # ps)"

text \<open>
  \<open>s.split()\<close> with no argument: the maximal runs of non-whitespace characters.
  The accumulator holds the current word reversed.
\<close>

fun split_words_acc :: "string \<Rightarrow> string \<Rightarrow> string list" where
  "split_words_acc cur [] = (if cur = [] then [] else [rev cur])"
| "split_words_acc cur (c # cs) =
     (if py_isspace c
      then (if cur = [] then split_words_acc [] cs else rev cur # split_words_acc [] cs)
      else split_words_acc (c # cur) cs)"

definition split_words :: "string \<Rightarrow> string list" where
  "split_words s = split_words_acc [] s"

section \<open>Library retrieval (rag\_service.py)\<close>

text \<open>
  A langchain \<open>Document\<close>: the chunk text and its metadata dict (an association
  list; \<open>metadata.get(k)\<close> is \<open>map_of (metadata doc) k\<close>). The vector store keeps
  scalar metadata values; the services write strings and integers.
\<close>

datatype mval = MStr string | MInt int

record document =
  page_content :: string
  metadata :: "(string \<times> mval) list"

text \<open>
  A call issued to an external capability. The services are traced by the list of calls
  they issue, in order.
\<close>

datatype call =
    VectorSearch string int
  | StoryCompletion string string
  | QuestionCompletion string string
  | ImageRequest nat json
  | AddDocuments "document list"
  | FeedbackCompletion "json list" string

text \<open>
  The filtering loop of \<open>retrieve_from_user_library\<close> over the search results:
  \<open>filtered\<close> is the list built so far; the loop breaks as soon as it holds
  \<open>top_k\<close> documents (the test follows the append).
\<close>

fun filter_results ::
  "string \<Rightarrow> int \<Rightarrow> int \<Rightarrow> bool \<Rightarrow> bool \<Rightarrow> document list \<Rightarrow> document list \<Rightarrow> document list" where
  "filter_results user_id child_age top_k include_books include_stories filtered [] = filtered"
| "filter_results user_id child_age top_k include_books include_stories filtered (doc # results) =
     (if map_of (metadata doc) ''user_id'' \<noteq> Some (MStr user_id)
      then filter_results user_id child_age top_k include_books include_stories filtered results
      else if map_of (metadata doc) ''child_age'' \<noteq> Some (MInt child_age)
      then filter_results user_id child_age top_k include_books include_stories filtered results
      else if map_of (metadata doc) ''type'' = Some (MStr ''book'') \<and> \<not> include_books
      then filter_results user_id child_age top_k include_books include_stories filtered results
      else if map_of (metadata doc) ''type'' = Some (MStr ''story'') \<and> \<not> include_stories
      then filter_results user_id child_age top_k include_books include_stories filtered results
      else (let filtered' = filtered @ [doc]
            in if int (length filtered') \<ge> top_k then filtered'
               else filter_results user_id child_age top_k include_books include_stories
                      filtered' results))"

text \<open>
  \<open>RAGService.retrieve_from_user_library\<close>. \<open>similarity_search query k\<close> is the
  vector store's search (it embeds the query and returns the \<open>k\<close> nearest documents, or
  raises). Any exception is logged and an empty list returned. The result is paired with
  the calls issued.
\<close>

definition retrieve_from_user_library ::
  "(string \<Rightarrow> int \<Rightarrow> error + document list) \<Rightarrow> string \<Rightarrow> string \<Rightarrow> int \<Rightarrow> int \<Rightarrow> bool \<Rightarrow> bool
     \<Rightarrow> document list \<times> call list" where
  "retrieve_from_user_library similarity_search query user_id child_age top_k
       include_books include_stories =
     (case similarity_search query (top_k * 3) of
        Inl e \<Rightarrow> ([], [VectorSearch query (top_k * 3)])
      | Inr results \<Rightarrow>
          (filter_results user_id child_age top_k include_books include_stories [] results,
           [VectorSearch query (top_k * 3)]))"

section \<open>The story graph (story\_graph.py)\<close>

text \<open>
  \<open>StoryState\<close>, without the token-usage counters (they are only logged).
\<close>

record story_state =
  s_story_title :: string
  s_story_description :: string
  s_child_age :: int
  s_max_pages :: int
  s_user_id :: string
  s_use_books_context :: bool
  s_use_history_context :: bool
  library_context :: string

text \<open>\<open>str(n)\<close> for a natural number.\<close>

fun str_nat :: "nat \<Rightarrow> string" where
  "str_nat n =
     (if n < 10 then [char_of (48 + n)]
      else str_nat (n div 10) @ [char_of (48 + n mod 10)])"

declare str_nat.simps [simp del]

text \<open>
  The context block: one labelled entry per document, its text cut at 400 characters,
  joined by blank lines. \<open>i\<close> is the index of the first document of \<open>docs\<close>.
\<close>

fun context_entries :: "nat \<Rightarrow> document list \<Rightarrow> string list" where
  "context_entries i [] = []"
| "context_entries i (doc # docs) =
     (''From your reading history '' @ str_nat (i + 1) @ '':'' @ [CHR 0x0A]
        @ take 400 (page_content doc) @ ''...'')
     # context_entries (i + 1) docs"

text \<open>
  Node \<open>retrieve_context\<close>: when neither context flag is set it returns the empty
  context at once; otherwise it asks the library retriever for three documents.
  (\<open>retrieve_from_user_library\<close> catches its own exceptions, so the node's handler has
  nothing left to catch.)
\<close>

definition retrieve_context ::
  "(string \<Rightarrow> int \<Rightarrow> error + document list) \<Rightarrow> story_state \<Rightarrow> string \<times> call list" where
  "retrieve_context similarity_search state =
     (if \<not> (s_use_books_context state \<or> s_use_history_context state) then ([], [])
      else
        (let query = s_story_title state @ '' '' @ s_story_description state;
             (library_docs, calls) =
               retrieve_from_user_library similarity_search query (s_user_id state)
                 (s_child_age state) 3 (s_use_books_context state) (s_use_history_context state);
             context_str =
               (if library_docs \<noteq> []
                then py_join [CHR 0x0A, CHR 0x0A] (context_entries 0 library_docs)
                else [])
         in (context_str, calls)))"

text \<open>The markdown fence marker (three backquotes) and the marker with its \<open>json\<close> tag.\<close>

definition fence :: string where
  "fence = [CHR 0x60, CHR 0x60, CHR 0x60]"

definition fence_json :: string where
  "fence_json = fence @ ''json''"

text \<open>
  The fence cleaning shared by the three generators. When the text contains the opening
  marker, \<open>s.split(opening)[1].split(fence)[0].strip()\<close>: the piece after the first
  opening marker, cut at the next fence and stripped. The json-tagged marker is tried
  first, then the bare fence; a text with no fence is left as it is. An index out of
  range would raise IndexError.
\<close>

definition between_fences :: "string \<Rightarrow> string \<Rightarrow> error + string" where
  "between_fences opening s =
     (case py_split opening s of
        _ # inner # _ \<Rightarrow>
          (case py_split fence inner of
             body # _ \<Rightarrow> Inr (py_strip body)
           | [] \<Rightarrow> Inl IndexError)
      | _ \<Rightarrow> Inl IndexError)"

definition clean_markdown :: "string \<Rightarrow> error + string" where
  "clean_markdown s =
     (if contains fence_json s then between_fences fence_json s
      else if contains fence s then between_fences fence s
      else Inr s)"

text \<open>
  The structure check of \<open>generate_story_content\<close>:
  \<^verbatim>\<open>if "storyContent" not in story_json or not isinstance(story_json.get("storyContent"), list): raise ValueError(...)\<close>.
  On a dict this is the key test and the list test. On a list or a string \<open>not in\<close> is
  membership or substring search, and \<open>.get\<close> then raises AttributeError; on a
  number, a bool or \<open>None\<close> the \<open>in\<close> itself raises TypeError.
\<close>

definition validate_structure :: "json \<Rightarrow> error + json" where
  "validate_structure story_json =
     (case story_json of
        JObj kvs \<Rightarrow>
          (case map_of kvs ''storyContent'' of
             Some (JArr pages) \<Rightarrow> Inr story_json
           | _ \<Rightarrow> Inl (ValueError ''Invalid story structure: missing or invalid storyContent''))
      | JArr xs \<Rightarrow>
          (if JStr ''storyContent'' \<in> set xs then Inl AttributeError
           else Inl (ValueError ''Invalid story structure: missing or invalid storyContent''))
      | JStr s \<Rightarrow>
          (if contains ''storyContent'' s then Inl AttributeError
           else Inl (ValueError ''Invalid story structure: missing or invalid storyContent''))
      | _ \<Rightarrow> Inl TypeError)"

text \<open>
  The parsing block of \<open>generate_story_content\<close>: fence cleaning, \<open>json.loads\<close>, the
  structure check. A JSONDecodeError or ValueError is re-raised as the plain exception
  "Failed to parse story JSON from GPT: ..."; any other exception passes through.
  \<open>json_loads\<close> is the JSON parser (\<open>None\<close> for a JSONDecodeError).
\<close>

definition parse_story_json :: "(string \<Rightarrow> json option) \<Rightarrow> string \<Rightarrow> error + json" where
  "parse_story_json json_loads content_str =
     (case clean_markdown content_str of
        Inl e \<Rightarrow> Inl e
      | Inr cleaned \<Rightarrow>
          (case json_loads cleaned of
             None \<Rightarrow> Inl (Failed ''Failed to parse story JSON from GPT'' JSONDecodeError)
           | Some story_json \<Rightarrow>
               (case validate_structure story_json of
                  Inl (ValueError msg) \<Rightarrow>
                    Inl (Failed ''Failed to parse story JSON from GPT'' (ValueError msg))
                | r \<Rightarrow> r)))"

text \<open>
  Node \<open>generate_story_content\<close>. \<open>llm state\<close> is the completion for the prompts
  built from the state (title, description, age, page bound and library context): the
  response text, or the exception the API call raised, which passes through unchanged.
\<close>

definition generate_story_content ::
  "(string \<Rightarrow> json option) \<Rightarrow> (story_state \<Rightarrow> error + string) \<Rightarrow> story_state
     \<Rightarrow> (error + json) \<times> call list" where
  "generate_story_content json_loads llm state =
     (case llm state of
        Inl e \<Rightarrow> Inl e
      | Inr content_str \<Rightarrow> parse_story_json json_loads content_str,
      [StoryCompletion (s_story_title state) (library_context state)])"

text \<open>
  \<open>run_story_generation\<close>: the compiled graph runs \<open>retrieve_context\<close>, then
  \<open>generate_story_content\<close>, and returns the story JSON.
\<close>

definition run_story_generation ::
  "(string \<Rightarrow> json option) \<Rightarrow> (string \<Rightarrow> int \<Rightarrow> error + document list)
     \<Rightarrow> (story_state \<Rightarrow> error + string)
     \<Rightarrow> string \<Rightarrow> string \<Rightarrow> int \<Rightarrow> int \<Rightarrow> string \<Rightarrow> bool \<Rightarrow> bool
     \<Rightarrow> (error + json) \<times> call list" where
  "run_story_generation json_loads similarity_search llm
       story_title story_description child_age max_pages user_id
       use_books_context use_history_context =
     (let initial_state =
            \<lparr>s_story_title = story_title, s_story_description = story_description,
             s_child_age = child_age, s_max_pages = max_pages, s_user_id = user_id,
             s_use_books_context = use_books_context,
             s_use_history_context = use_history_context, library_context = []\<rparr>;
          (context_str, calls1) = retrieve_context similarity_search initial_state;
          (result, calls2) =
            generate_story_content json_loads llm (initial_state\<lparr>library_context := context_str\<rparr>)
      in (result, calls1 @ calls2))"

section \<open>Question generation (question\_generator.py)\<close>

text \<open>
  \<open>" ".join([page.get("pageText", "") for page in story_content])\<close>: a page that is
  not a dict raises AttributeError, a text that is not a string makes \<open>join\<close> raise
  TypeError.
\<close>

fun page_texts :: "json list \<Rightarrow> error + string list" where
  "page_texts [] = Inr []"
| "page_texts (JObj kvs # pages) =
     (case map_of kvs ''pageText'' of
        None \<Rightarrow> map_sum id (\<lambda>ts. [] # ts) (page_texts pages)
      | Some (JStr t) \<Rightarrow> map_sum id (\<lambda>ts. t # ts) (page_texts pages)
      | Some _ \<Rightarrow> (case page_texts pages of Inl AttributeError \<Rightarrow> Inl AttributeError
                   | _ \<Rightarrow> Inl TypeError))"
| "page_texts (_ # pages) = Inl AttributeError"

text \<open>
  \<open>generate_questions\<close>. \<open>chat title whole_story\<close> is the completion for the
  question prompt. The response is stripped, its line breaks removed, its fences cleaned
  and the rest parsed; the parsed JSON is returned as it is. Every exception leaves as
  "Failed to generate questions: ...".
\<close>

definition generate_questions ::
  "(string \<Rightarrow> json option) \<Rightarrow> (string \<Rightarrow> string \<Rightarrow> error + string) \<Rightarrow> json list \<Rightarrow> string
     \<Rightarrow> (error + json) \<times> call list" where
  "generate_questions json_loads chat story_content story_title =
     (case page_texts story_content of
        Inl e \<Rightarrow> (Inl (Failed ''Failed to generate questions'' e), [])
      | Inr texts \<Rightarrow>
          (let whole_story = py_join '' '' texts
           in (case chat story_title whole_story of
                 Inl e \<Rightarrow> Inl (Failed ''Failed to generate questions'' e)
               | Inr questions_text \<Rightarrow>
                   (let sanitized_text =
                          py_replace [CHR 0x0A] [] (py_replace [CHR 0x0D, CHR 0x0A] []
                            (py_strip questions_text))
                    in case clean_markdown sanitized_text of
                         Inl e \<Rightarrow> Inl (Failed ''Failed to generate questions'' e)
                       | Inr cleaned \<Rightarrow>
                           (case json_loads cleaned of
                              None \<Rightarrow>
                                Inl (Failed ''Failed to generate questions''
                                      (Failed ''Failed to parse questions'' JSONDecodeError))
                            | Some questions \<Rightarrow> Inr questions)),
               [QuestionCompletion story_title whole_story])))"

section \<open>Documents of the store (schemas)\<close>

text \<open>
  An ObjectId is kept as its 24 hexadecimal digits in lower case. \<open>ObjectId(s)\<close>
  raises InvalidId for any other string.
\<close>

type_synonym oid = string

definition is_hex :: "char \<Rightarrow> bool" where
  "is_hex c = (c \<in> set ''0123456789abcdefABCDEF'')"

definition hex_lower :: "char \<Rightarrow> char" where
  "hex_lower c = (if c \<in> set ''ABCDEF'' then char_of (of_char c + (32::nat)) else c)"

definition ObjectId :: "string \<Rightarrow> error + oid" where
  "ObjectId s = (if length s = 24 \<and> list_all is_hex s then Inr (map hex_lower s) else Inl InvalidId)"

record PageContent =
  page_text :: string
  page_image :: "string option"

record Story =
  story_id :: oid
  story_title :: string
  story_description :: string
  story_content :: "PageContent list"
  story_author :: string
  created_by :: oid
  max_pages :: int

record Question =
  question :: string
  answer :: string
  user_answer :: "string option"

record Assignment =
  assignment_id :: oid
  a_sid :: oid
  a_uid :: oid
  questions :: "Question list"

record FeedbackItem =
  fb_question :: string
  fb_answer :: string
  fb_user_answer :: string
  rating :: int
  feedback :: string
  positive_reinforcement :: "string option"

record Feedback =
  feedback_id :: oid
  f_sid :: oid
  f_uid :: oid
  feedbacks :: "FeedbackItem list"

record Audio =
  audio_id :: oid
  file_path :: string
  file_name :: string
  score :: "rat option"
  transcript :: "string option"
  whole_story :: string
  audio_sid :: "oid option"

text \<open>The collections of the document store, each in insertion order.\<close>

record database =
  stories :: "Story list"
  assignments :: "Assignment list"
  feedback_docs :: "Feedback list"
  audios :: "Audio list"

text \<open>
  Validation of one embedded \<open>Question\<close> from a dict: \<open>question\<close> and \<open>answer\<close>
  are required strings, \<open>user_answer\<close> an optional string (the field has no alias, so
  a \<open>userAnswer\<close> key is an ignored extra).
\<close>

definition validate_question :: "json \<Rightarrow> error + Question" where
  "validate_question item =
     (case item of
        JObj kvs \<Rightarrow>
          (case (map_of kvs ''question'', map_of kvs ''answer'') of
             (Some (JStr q), Some (JStr a)) \<Rightarrow>
               (case map_of kvs ''user_answer'' of
                  None \<Rightarrow> Inr \<lparr>question = q, answer = a, user_answer = None\<rparr>
                | Some JNull \<Rightarrow> Inr \<lparr>question = q, answer = a, user_answer = None\<rparr>
                | Some (JStr u) \<Rightarrow> Inr \<lparr>question = q, answer = a, user_answer = Some u\<rparr>
                | Some _ \<Rightarrow> Inl ValidationError)
           | _ \<Rightarrow> Inl ValidationError)
      | _ \<Rightarrow> Inl ValidationError)"

fun validate_question_list :: "json list \<Rightarrow> error + Question list" where
  "validate_question_list [] = Inr []"
| "validate_question_list (item # items) =
     (case validate_question item of
        Inl e \<Rightarrow> Inl e
      | Inr q \<Rightarrow> map_sum id (\<lambda>qs. q # qs) (validate_question_list items))"

text \<open>
  \<open>questions_data.get("questions", [])\<close> followed by the validation of the
  \<open>questions\<close> field: \<open>.get\<close> needs a dict, a missing key gives the empty list, and
  the value must be a list of valid questions.
\<close>

definition questions_field :: "json \<Rightarrow> error + Question list" where
  "questions_field questions_data =
     (case questions_data of
        JObj kvs \<Rightarrow>
          (case map_of kvs ''questions'' of
             None \<Rightarrow> Inr []
           | Some (JArr items) \<Rightarrow> validate_question_list items
           | Some _ \<Rightarrow> Inl ValidationError)
      | _ \<Rightarrow> Inl AttributeError)"

section \<open>Story indexing (rag\_service.py)\<close>

text \<open>
  The documents \<open>add_story_to_index\<close> builds from the chunks: chunk \<open>i\<close> carries
  the story's metadata, updated with the caller's extra metadata (whose keys win).
\<close>

fun story_documents ::
  "string \<Rightarrow> string \<Rightarrow> int \<Rightarrow> (string \<times> mval) list \<Rightarrow> nat \<Rightarrow> string list \<Rightarrow> document list" where
  "story_documents sid title child_age extra i [] = []"
| "story_documents sid title child_age extra i (chunk # chunks) =
     \<lparr>page_content = chunk,
      metadata = extra @ [(''story_id'', MStr sid), (''story_title'', MStr title),
                          (''child_age'', MInt child_age), (''chunk_index'', MInt (int i)),
                          (''type'', MStr ''story'')]\<rparr>
     # story_documents sid title child_age extra (i + 1) chunks"

text \<open>
  \<open>add_story_to_index\<close>: \<open>split_text\<close> is the text splitter, \<open>add_documents\<close>
  the vector store's write (which embeds the chunks and may raise).
\<close>

definition add_story_to_index ::
  "(string \<Rightarrow> string list) \<Rightarrow> (document list \<Rightarrow> error option)
     \<Rightarrow> string \<Rightarrow> string \<Rightarrow> string \<Rightarrow> string \<Rightarrow> int \<Rightarrow> (string \<times> mval) list
     \<Rightarrow> error option \<times> call list" where
  "add_story_to_index split_text add_documents sid title description content child_age extra =
     (let full_text = ''Title: '' @ title @ [CHR 0x0A, CHR 0x0A] @ ''Description: '' @ description
                        @ [CHR 0x0A, CHR 0x0A] @ ''Content: '' @ content;
          documents = story_documents sid title child_age extra 0 (split_text full_text)
      in (add_documents documents, [AddDocuments documents]))"

section \<open>The story service (story\_service.py)\<close>

record CreateStoryRequest =
  req_story_title :: string
  req_story_description :: string
  req_max_pages :: int
  include_image :: bool
  req_child_age :: int
  use_books_context :: bool
  use_history_context :: bool

text \<open>
  The external capabilities the story service reaches: the JSON parser, the vector
  store, the text splitter, the completion calls, the image generator and the image
  copy to object storage (download and upload: the stored URL, or \<open>None\<close> when either
  step fails). \<open>generate_image\<close> returns the image URL, or \<open>None\<close> when generation
  fails; it never raises. \<open>validate_int\<close> is the schema library's validation of an
  integer field.
\<close>

record capabilities =
  json_loads :: "string \<Rightarrow> json option"
  similarity_search :: "string \<Rightarrow> int \<Rightarrow> error + document list"
  split_text :: "string \<Rightarrow> string list"
  add_documents :: "document list \<Rightarrow> error option"
  story_llm :: "story_state \<Rightarrow> error + string"
  question_chat :: "string \<Rightarrow> string \<Rightarrow> error + string"
  feedback_chat :: "json list \<Rightarrow> string \<Rightarrow> error + string"
  generate_image :: "json \<Rightarrow> int \<Rightarrow> string \<Rightarrow> string option"
  copy_image :: "string \<Rightarrow> string option"
  validate_int :: "json \<Rightarrow> int option"

text \<open>\<open>page_data.get("pageText", "")\<close>: AttributeError unless the page is a dict.\<close>

definition get_page_text :: "json \<Rightarrow> error + json" where
  "get_page_text page_data =
     (case page_data of
        JObj kvs \<Rightarrow> (case map_of kvs ''pageText'' of None \<Rightarrow> Inr (JStr []) | Some v \<Rightarrow> Inr v)
      | _ \<Rightarrow> Inl AttributeError)"

text \<open>
  The first loop of \<open>create_story\<close>: the image tasks, one for each page position
  \<open>i\<close> with \<open>i % 3 == 0 or i % 3 == 2\<close>, each holding the page text to illustrate.
  \<open>i\<close> is the position of the first page of the list.
\<close>

fun image_tasks :: "nat \<Rightarrow> json list \<Rightarrow> error + (nat \<times> json) list" where
  "image_tasks i [] = Inr []"
| "image_tasks i (page_data # pages) =
     (case get_page_text page_data of
        Inl e \<Rightarrow> Inl e
      | Inr ptext \<Rightarrow>
          (case image_tasks (i + 1) pages of
             Inl e \<Rightarrow> Inl e
           | Inr tasks \<Rightarrow>
               Inr (if i mod 3 = 0 \<or> i mod 3 = 2 then (i, ptext) # tasks else tasks)))"

text \<open>
  The gathered results: position \<open>idx\<close> is kept with its URL when the task returned a
  non-empty URL.
\<close>

fun image_results ::
  "(json \<Rightarrow> int \<Rightarrow> string \<Rightarrow> string option) \<Rightarrow> int \<Rightarrow> string \<Rightarrow> (nat \<times> json) list
     \<Rightarrow> (nat \<times> string) list" where
  "image_results gen child_age title [] = []"
| "image_results gen child_age title ((idx, ptext) # tasks) =
     (case gen ptext child_age title of
        Some url \<Rightarrow>
          (if url \<noteq> [] then (idx, url) # image_results gen child_age title tasks
           else image_results gen child_age title tasks)
      | None \<Rightarrow> image_results gen child_age title tasks)"

text \<open>
  The second loop: one \<open>PageContent\<close> per generated page, in order. A page with an
  image result gets the stored copy of the image, or the original URL when the copy
  fails. \<open>PageContent\<close> validation needs a string page text.
\<close>

fun build_contents ::
  "(string \<Rightarrow> string option) \<Rightarrow> (nat \<times> string) list \<Rightarrow> nat \<Rightarrow> json list
     \<Rightarrow> error + PageContent list" where
  "build_contents copy results i [] = Inr []"
| "build_contents copy results i (page_data # pages) =
     (case get_page_text page_data of
        Inl e \<Rightarrow> Inl e
      | Inr ptext \<Rightarrow>
          (let page_image =
                 (case map_of results i of
                    None \<Rightarrow> None
                  | Some openai_image_url \<Rightarrow>
                      (case copy openai_image_url of
                         Some s3_url \<Rightarrow> Some s3_url
                       | None \<Rightarrow> Some openai_image_url))
           in case ptext of
                JStr t \<Rightarrow>
                  map_sum id (\<lambda>cs. \<lparr>page_text = t, page_image = page_image\<rparr> # cs)
                    (build_contents copy results (i + 1) pages)
              | _ \<Rightarrow> Inl ValidationError))"

text \<open>
  \<open>generated_story.get("storyContent", [])\<close>. After the structure check of the graph
  the value is a dict whose \<open>storyContent\<close> is a list; the other branches are what Python
  would raise otherwise.
\<close>

definition story_content_field :: "json \<Rightarrow> error + json list" where
  "story_content_field generated_story =
     (case generated_story of
        JObj kvs \<Rightarrow>
          (case map_of kvs ''storyContent'' of
             None \<Rightarrow> Inr []
           | Some (JArr pages) \<Rightarrow> Inr pages
           | Some _ \<Rightarrow> Inl TypeError)
      | _ \<Rightarrow> Inl AttributeError)"

text \<open>
  \<open>StoryService.create_story\<close>. \<open>new_id\<close> is the id the store gives the inserted
  story. The result is the story or the exception, the store afterwards and the calls
  issued. The image requests run concurrently; the trace lists them in page order. Every
  exception leaves as "Failed to create story: ..."; a failure of the final indexing is
  only logged.
\<close>

definition create_story ::
  "capabilities \<Rightarrow> oid \<Rightarrow> database \<Rightarrow> CreateStoryRequest \<Rightarrow> oid \<Rightarrow> string
     \<Rightarrow> (error + Story) \<times> database \<times> call list" where
  "create_story cap new_id db story_data user_id author_name =
     (let (generated, calls1) =
            run_story_generation (json_loads cap) (similarity_search cap) (story_llm cap)
              (req_story_title story_data) (req_story_description story_data)
              (req_child_age story_data) (req_max_pages story_data) user_id
              (use_books_context story_data) (use_history_context story_data)
      in case generated of
           Inl e \<Rightarrow> (Inl (Failed ''Failed to create story'' e), db, calls1)
         | Inr generated_story \<Rightarrow>
             (case story_content_field generated_story of
                Inl e \<Rightarrow> (Inl (Failed ''Failed to create story'' e), db, calls1)
              | Inr pages \<Rightarrow>
                  (case (if include_image story_data then image_tasks 0 pages else Inr []) of
                     Inl e \<Rightarrow> (Inl (Failed ''Failed to create story'' e), db, calls1)
                   | Inr tasks \<Rightarrow>
                       (let calls2 = map (\<lambda>(idx, ptext). ImageRequest idx ptext) tasks;
                            results = image_results (generate_image cap)
                                        (req_child_age story_data) (req_story_title story_data) tasks
                        in case build_contents (copy_image cap) results 0 pages of
                             Inl e \<Rightarrow> (Inl (Failed ''Failed to create story'' e), db, calls1 @ calls2)
                           | Inr story_contents \<Rightarrow>
                               (let story =
                                      \<lparr>story_id = new_id,
                                       story_title = req_story_title story_data,
                                       story_description = req_story_description story_data,
                                       story_content = story_contents,
                                       story_author = author_name,
                                       created_by = user_id,
                                       max_pages = req_max_pages story_data\<rparr>;
                                    (indexed, calls3) =
                                      add_story_to_index (split_text cap) (add_documents cap)
                                        new_id (story_title story) (story_description story)
                                        (py_join '' '' (map page_text story_contents))
                                        (req_child_age story_data)
                                        [(''user_id'', MStr user_id), (''author'', MStr author_name)]
                                in (Inr story, db\<lparr>stories := stories db @ [story]\<rparr>,
                                    calls1 @ calls2 @ calls3))))))"

text \<open>
  The image requests in a trace of calls: the page position and page text of each, in
  order.
\<close>

fun image_requests :: "call list \<Rightarrow> (nat \<times> json) list" where
  "image_requests [] = []"
| "image_requests (ImageRequest idx ptext # calls) = (idx, ptext) # image_requests calls"
| "image_requests (_ # calls) = image_requests calls"

text \<open>
  \<open>StoryService.get_story\<close>: not found, then the ownership check. An id that is not an
  ObjectId makes the lookup raise, which leaves as "Failed to get story: ...".
\<close>

definition get_story :: "database \<Rightarrow> string \<Rightarrow> oid \<Rightarrow> error + Story" where
  "get_story db sid user_id =
     (case ObjectId sid of
        Inl e \<Rightarrow> Inl (Failed ''Failed to get story'' e)
      | Inr key \<Rightarrow>
          (case find (\<lambda>s. story_id s = key) (stories db) of
             None \<Rightarrow> Inl (NotFoundError ''Story not found'')
           | Some story \<Rightarrow>
               (if created_by story \<noteq> user_id
                then Inl (ForbiddenError ''Unauthorized access to this story'')
                else Inr story)))"

text \<open>
  \<open>StoryService.create_assignment\<close>: the existing assignment of (story, user) when
  there is one; otherwise the story is loaded, questions are generated and a new
  assignment is inserted under \<open>new_id\<close>. NotFoundError passes; every other exception
  leaves as "Failed to create assignment: ...".
\<close>

definition create_assignment ::
  "capabilities \<Rightarrow> oid \<Rightarrow> database \<Rightarrow> string \<Rightarrow> oid
     \<Rightarrow> (error + Assignment) \<times> database \<times> call list" where
  "create_assignment cap new_id db sid user_id =
     (case ObjectId sid of
        Inl e \<Rightarrow> (Inl (Failed ''Failed to create assignment'' e), db, [])
      | Inr key \<Rightarrow>
          (case find (\<lambda>a. a_sid a = key \<and> a_uid a = user_id) (assignments db) of
             Some existing \<Rightarrow> (Inr existing, db, [])
           | None \<Rightarrow>
               (case find (\<lambda>s. story_id s = key) (stories db) of
                  None \<Rightarrow> (Inl (NotFoundError ''Story not found''), db, [])
                | Some story \<Rightarrow>
                    (let story_content_dict =
                           map (\<lambda>page. JObj [(''pageText'', JStr (page_text page))])
                             (story_content story);
                         (questions_data, calls) =
                           generate_questions (json_loads cap) (question_chat cap)
                             story_content_dict (story_title story)
                     in case questions_data of
                          Inl e \<Rightarrow> (Inl (Failed ''Failed to create assignment'' e), db, calls)
                        | Inr data \<Rightarrow>
                            (case questions_field data of
                               Inl e \<Rightarrow> (Inl (Failed ''Failed to create assignment'' e), db, calls)
                             | Inr qs \<Rightarrow>
                                 (let assignment =
                                        \<lparr>assignment_id = new_id, a_sid = key, a_uid = user_id,
                                         questions = qs\<rparr>
                                  in (Inr assignment,
                                      db\<lparr>assignments := assignments db @ [assignment]\<rparr>,
                                      calls)))))))"










section \<open>The audio service (audio\_service.py)\<close>

text \<open>
  Levenshtein distance between two word sequences: substitutions, insertions and
  deletions each cost one word.
\<close>

fun edit_distance :: "string list \<Rightarrow> string list \<Rightarrow> nat" where
  "edit_distance [] hyp = length hyp"
| "edit_distance (r # refs) [] = Suc (length refs)"
| "edit_distance (r # refs) (h # hyp) =
     min (edit_distance refs hyp + (if r = h then 0 else 1))
         (min (edit_distance refs (h # hyp) + 1) (edit_distance (r # refs) hyp + 1))"

text \<open>
  Floating point. A float is modelled by the rational number it denotes, and every
  arithmetic operation of the source by the exact operation followed by \<open>fl\<close>, the
  rounding of the float format. \<open>float_rounding fl\<close> states the facts used of it:
  rounding is monotone, and 0, 1 and 100 are floats, so rounding leaves them unchanged.
  Rounding to nearest in binary64 is such a rounding.
\<close>

definition float_rounding :: "(rat \<Rightarrow> rat) \<Rightarrow> bool" where
  "float_rounding fl =
     ((\<forall>x y. x \<le> y \<longrightarrow> fl x \<le> fl y) \<and> fl 0 = 0 \<and> fl 1 = 1 \<and> fl 100 = 100)"

text \<open>
  Modelled from the spec: \<open>wer\<close>, the word error rate of the speech-metrics library the
  service imports, which is not part of the repository. In the spec's words it is the
  edit distance between the two whitespace-tokenized word sequences divided by the
  reference length; the two counts are converted to floats and divided. With no
  reference word the quotient is undefined; the model reports that as \<open>None\<close>.
\<close>

definition wer :: "(rat \<Rightarrow> rat) \<Rightarrow> string \<Rightarrow> string \<Rightarrow> rat option" where
  "wer fl reference hypothesis =
     (let ref_words = split_words reference; hyp_words = split_words hypothesis
      in if ref_words = [] then None
         else Some (fl (fl (of_nat (edit_distance ref_words hyp_words))
                        / fl (of_nat (length ref_words)))))"

text \<open>
  \<open>transcribe_audio\<close>: the transcription capability; its failure leaves as "Failed to
  transcribe audio: ...". \<open>enhance_transcript\<close>: the correcting completion; on failure
  the raw transcript is returned.
\<close>

definition transcribe_audio :: "(string \<Rightarrow> error + string) \<Rightarrow> string \<Rightarrow> error + string" where
  "transcribe_audio transcriber audio_url =
     (case transcriber audio_url of
        Inl e \<Rightarrow> Inl (Failed ''Failed to transcribe audio'' e)
      | Inr t \<Rightarrow> Inr t)"

definition enhance_transcript ::
  "(string \<Rightarrow> string \<Rightarrow> error + string) \<Rightarrow> string \<Rightarrow> string \<Rightarrow> string" where
  "enhance_transcript chat raw story =
     (case chat raw story of Inl e \<Rightarrow> raw | Inr content \<Rightarrow> content)"

text \<open>\<open>audio.save()\<close>: the stored document with the same id is replaced.\<close>

definition save_audio :: "database \<Rightarrow> Audio \<Rightarrow> database" where
  "save_audio db audio =
     db\<lparr>audios := map (\<lambda>a. if audio_id a = audio_id audio then audio else a) (audios db)\<rparr>"

text \<open>
  The dictionary \<open>process_audio\<close> returns, without the two diagnostic fields
  (punctuation analysis and highlighted differences), which are computed from the raw
  transcript by helpers that catch their own exceptions.
\<close>

record audio_result =
  r_transcript :: string
  r_enhanced_transcript :: string
  r_score :: rat

text \<open>
  The score line, \<open>max(0, 100 - (100 * error_rate))\<close>, in float arithmetic: the
  product is rounded, then the difference.
\<close>

definition score_of :: "(rat \<Rightarrow> rat) \<Rightarrow> rat \<Rightarrow> rat" where
  "score_of fl error_rate = max 0 (fl (100 - fl (100 * error_rate)))"

text \<open>
  \<open>AudioService.process_audio\<close>: load the audio (not found), require a non-empty
  reference text, transcribe and save the transcript, enhance, compute the word error
  rate on the enhanced transcript, save the score. NotFoundError passes; every other
  exception leaves as "Failed to process audio: ...". \<open>fl\<close> is the rounding of the
  float arithmetic.
\<close>

definition process_audio ::
  "(rat \<Rightarrow> rat) \<Rightarrow> (string \<Rightarrow> error + string) \<Rightarrow> (string \<Rightarrow> string \<Rightarrow> error + string)
     \<Rightarrow> database \<Rightarrow> string \<Rightarrow> (error + audio_result) \<times> database" where
  "process_audio fl transcriber chat db aid =
     (case ObjectId aid of
        Inl e \<Rightarrow> (Inl (Failed ''Failed to process audio'' e), db)
      | Inr key \<Rightarrow>
          (case find (\<lambda>a. audio_id a = key) (audios db) of
             None \<Rightarrow> (Inl (NotFoundError ''Audio not found''), db)
           | Some audio \<Rightarrow>
               (if whole_story audio = []
                then (Inl (Failed ''Failed to process audio''
                             (PyException ''Story content not found for audio'')), db)
                else
                  (case transcribe_audio transcriber (file_path audio) of
                     Inl e \<Rightarrow> (Inl (Failed ''Failed to process audio'' e), db)
                   | Inr raw \<Rightarrow>
                       (let audio1 = audio\<lparr>transcript := Some raw\<rparr>;
                            db1 = save_audio db audio1;
                            enhanced = enhance_transcript chat raw (whole_story audio)
                        in case wer fl (whole_story audio) enhanced of
                             None \<Rightarrow>
                               (Inl (Failed ''Failed to process audio''
                                      (ValueError ''reference has no words'')), db1)
                           | Some error_rate \<Rightarrow>
                               (let sc = score_of fl error_rate;
                                    audio2 = audio1\<lparr>score := Some sc\<rparr>
                                in (Inr \<lparr>r_transcript = raw, r_enhanced_transcript = enhanced,
                                         r_score = sc\<rparr>,
                                    save_audio db1 audio2)))))))"

section \<open>Library retrieval: ownership and the retrieval gate\<close>

lemma filter_results_owner:
  "\<forall>d \<in> set filtered. map_of (metadata d) ''user_id'' = Some (MStr user_id) \<Longrightarrow>
   \<forall>d \<in> set (filter_results user_id child_age top_k ib is filtered results).
      map_of (metadata d) ''user_id'' = Some (MStr user_id)"
proof (induction results arbitrary: filtered)
  case Nil
  then show ?case by simp
next
  case (Cons doc results)
  have keep: "\<forall>d \<in> set (filter_results user_id child_age top_k ib is filtered results).
      map_of (metadata d) ''user_id'' = Some (MStr user_id)"
    using Cons.IH [OF Cons.prems] .
  show ?case
  proof (cases "map_of (metadata doc) ''user_id'' = Some (MStr user_id)")
    case False
    then show ?thesis using keep by simp
  next
    case True
    with Cons.prems
    have ext: "\<forall>d \<in> set (filtered @ [doc]). map_of (metadata d) ''user_id'' = Some (MStr user_id)"
      by simp
    from Cons.IH [OF ext] keep ext show ?thesis
      by (simp add: Let_def)
  qed
qed

lemma filter_results_types:
  "\<forall>d \<in> set filtered. map_of (metadata d) ''type'' \<noteq> Some (MStr ''book'')
       \<and> map_of (metadata d) ''type'' \<noteq> Some (MStr ''story'') \<Longrightarrow>
   \<forall>d \<in> set (filter_results user_id child_age top_k False False filtered results).
      map_of (metadata d) ''type'' \<noteq> Some (MStr ''book'')
       \<and> map_of (metadata d) ''type'' \<noteq> Some (MStr ''story'')"
proof (induction results arbitrary: filtered)
  case Nil
  then show ?case by simp
next
  case (Cons doc results)
  have keep: "\<forall>d \<in> set (filter_results user_id child_age top_k False False filtered results).
      map_of (metadata d) ''type'' \<noteq> Some (MStr ''book'')
       \<and> map_of (metadata d) ''type'' \<noteq> Some (MStr ''story'')"
    using Cons.IH [OF Cons.prems] .
  show ?case
  proof (cases "map_of (metadata doc) ''type'' = Some (MStr ''book'')
       \<or> map_of (metadata doc) ''type'' = Some (MStr ''story'')")
    case True
    then show ?thesis using keep by auto
  next
    case False
    with Cons.prems
    have ext: "\<forall>d \<in> set (filtered @ [doc]). map_of (metadata d) ''type'' \<noteq> Some (MStr ''book'')
       \<and> map_of (metadata d) ''type'' \<noteq> Some (MStr ''story'')"
      by simp
    from Cons.IH [OF ext] keep ext show ?thesis
      by (simp add: Let_def)
  qed
qed

text \<open>
  Claim C2. Whatever the vector store's search returns, and for every query, owner, age,
  \<open>top_k\<close> and combination of the two include flags, every document returned by
  \<open>retrieve_from_user_library\<close> carries the requesting owner's id as its \<open>user_id\<close>
  metadata.
\<close>

theorem retrieve_from_user_library_owner:
  "\<forall>doc \<in> set (fst (retrieve_from_user_library search query user_id child_age top_k
                        include_books include_stories)).
     map_of (metadata doc) ''user_id'' = Some (MStr user_id)"
proof (cases "search query (top_k * 3)")
  case (Inl e)
  then show ?thesis by (simp add: retrieve_from_user_library_def)
next
  case (Inr results)
  then show ?thesis
    using filter_results_owner [of "[]" user_id child_age top_k include_books include_stories results]
    by (simp add: retrieve_from_user_library_def)
qed

text \<open>
  The theorem at a search that returns another owner's book first and the requester's
  book second: only the requester's book comes back.
\<close>

theorem retrieve_from_user_library_owner_witness:
  "fst (retrieve_from_user_library
          (\<lambda>q k. Inr [\<lparr>page_content = ''Dragons of the north'',
                         metadata = [(''book_id'', MStr ''b2''), (''user_id'', MStr ''u2''),
                                     (''child_age'', MInt 7), (''type'', MStr ''book'')]\<rparr>,
                        \<lparr>page_content = ''A dragon learns to fly'',
                         metadata = [(''book_id'', MStr ''b1''), (''user_id'', MStr ''u1''),
                                     (''child_age'', MInt 7), (''type'', MStr ''book'')]\<rparr>])
          ''dragon'' ''u1'' 7 3 True True)
     = [\<lparr>page_content = ''A dragon learns to fly'',
         metadata = [(''book_id'', MStr ''b1''), (''user_id'', MStr ''u1''),
                     (''child_age'', MInt 7), (''type'', MStr ''book'')]\<rparr>]
   \<and> map_of (metadata \<lparr>page_content = ''A dragon learns to fly'',
         metadata = [(''book_id'', MStr ''b1''), (''user_id'', MStr ''u1''),
                     (''child_age'', MInt 7), (''type'', MStr ''book'')]\<rparr>) ''user_id''
       = Some (MStr ''u1'')"
proof -
  let ?other = "\<lparr>page_content = ''Dragons of the north'',
                         metadata = [(''book_id'', MStr ''b2''), (''user_id'', MStr ''u2''),
                                     (''child_age'', MInt 7), (''type'', MStr ''book'')]\<rparr>"
  let ?own = "\<lparr>page_content = ''A dragon learns to fly'',
                         metadata = [(''book_id'', MStr ''b1''), (''user_id'', MStr ''u1''),
                                     (''child_age'', MInt 7), (''type'', MStr ''book'')]\<rparr>"
  let ?search = "\<lambda>(q::string) (k::int). (Inr [?other, ?own] :: error + document list)"
  have res: "fst (retrieve_from_user_library ?search ''dragon'' ''u1'' 7 3 True True) = [?own]"
    by (simp add: retrieve_from_user_library_def)
  then have mem: "?own \<in> set (fst (retrieve_from_user_library ?search ''dragon'' ''u1'' 7 3 True True))"
    by simp
  from retrieve_from_user_library_owner [of ?search "''dragon''" "''u1''" 7 3 True True] mem
  have "map_of (metadata ?own) ''user_id'' = Some (MStr ''u1'')"
    by blast
  with res show ?thesis by blast
qed

text \<open>
  Claim C8, as stated, fails for \<open>retrieve_from_user_library\<close>: called with both include
  flags false it still issues the vector search (here for nine neighbours); the book it
  finds is then filtered out.
\<close>

theorem retrieve_from_user_library_no_skip:
  "retrieve_from_user_library
     (\<lambda>q k. Inr [\<lparr>page_content = ''A dragon learns to fly'',
                    metadata = [(''book_id'', MStr ''b1''), (''user_id'', MStr ''u1''),
                                (''child_age'', MInt 7), (''type'', MStr ''book'')]\<rparr>])
     ''dragon'' ''u1'' 7 3 False False
   = ([], [VectorSearch ''dragon'' 9])"
  by (simp add: retrieve_from_user_library_def)

text \<open>
  Claim C8, amended. The gate is in the graph node: with both context flags false
  \<open>retrieve_context\<close> returns the empty context and issues no call, so no embedding or
  vector search happens. \<open>retrieve_from_user_library\<close> itself always issues exactly one
  search for \<open>3 * top_k\<close> neighbours, and with both include flags false it returns no
  document of type book or story.
\<close>

theorem retrieve_context_skips_retrieval:
  "(\<not> s_use_books_context state \<and> \<not> s_use_history_context state
      \<longrightarrow> retrieve_context search state = ([], []))
   \<and> snd (retrieve_from_user_library search query user_id child_age top_k
             include_books include_stories) = [VectorSearch query (top_k * 3)]
   \<and> (\<forall>doc \<in> set (fst (retrieve_from_user_library search query user_id child_age top_k
                            False False)).
         map_of (metadata doc) ''type'' \<noteq> Some (MStr ''book'')
       \<and> map_of (metadata doc) ''type'' \<noteq> Some (MStr ''story''))"
proof (intro conjI)
  show "\<not> s_use_books_context state \<and> \<not> s_use_history_context state
      \<longrightarrow> retrieve_context search state = ([], [])"
    by (simp add: retrieve_context_def)
  show "snd (retrieve_from_user_library search query user_id child_age top_k
             include_books include_stories) = [VectorSearch query (top_k * 3)]"
    by (simp add: retrieve_from_user_library_def split: sum.splits)
  show "\<forall>doc \<in> set (fst (retrieve_from_user_library search query user_id child_age top_k
                            False False)).
         map_of (metadata doc) ''type'' \<noteq> Some (MStr ''book'')
       \<and> map_of (metadata doc) ''type'' \<noteq> Some (MStr ''story'')"
  proof (cases "search query (top_k * 3)")
    case (Inl e)
    then show ?thesis by (simp add: retrieve_from_user_library_def)
  next
    case (Inr results)
    then show ?thesis
      using filter_results_types [of "[]" user_id child_age top_k results]
      by (simp add: retrieve_from_user_library_def)
  qed
qed

text \<open>
  The theorem at a state with both flags false, and at a search that returns a document
  of another type (an indexed note) for the requester: the node issues no call, the
  retriever issues its one search and returns the note.
\<close>

theorem retrieve_context_skips_retrieval_witness:
  "retrieve_context
     (\<lambda>q k. Inr [\<lparr>page_content = ''Kites need wind'',
                    metadata = [(''user_id'', MStr ''u1''), (''child_age'', MInt 7),
                                (''type'', MStr ''note'')]\<rparr>])
     \<lparr>s_story_title = ''The kite'', s_story_description = ''A kite gets lost'',
      s_child_age = 7, s_max_pages = 2, s_user_id = ''u1'',
      s_use_books_context = False, s_use_history_context = False,
      library_context = []\<rparr> = ([], [])
   \<and> retrieve_from_user_library
        (\<lambda>q k. Inr [\<lparr>page_content = ''Kites need wind'',
                       metadata = [(''user_id'', MStr ''u1''), (''child_age'', MInt 7),
                                   (''type'', MStr ''note'')]\<rparr>])
        ''kite'' ''u1'' 7 3 False False
      = ([\<lparr>page_content = ''Kites need wind'',
           metadata = [(''user_id'', MStr ''u1''), (''child_age'', MInt 7),
                       (''type'', MStr ''note'')]\<rparr>], [VectorSearch ''kite'' 9])"
proof -
  let ?state = "\<lparr>s_story_title = ''The kite'', s_story_description = ''A kite gets lost'',
      s_child_age = 7, s_max_pages = 2, s_user_id = ''u1'',
      s_use_books_context = False, s_use_history_context = False,
      library_context = []\<rparr>"
  let ?note = "\<lparr>page_content = ''Kites need wind'',
                       metadata = [(''user_id'', MStr ''u1''), (''child_age'', MInt 7),
                                   (''type'', MStr ''note'')]\<rparr>"
  let ?search = "\<lambda>(q::string) (k::int). (Inr [?note] :: error + document list)"
  have flags: "\<not> s_use_books_context ?state \<and> \<not> s_use_history_context ?state"
    by simp
  note inst = retrieve_context_skips_retrieval
    [of ?state ?search "''kite''" "''u1''" 7 3 False False]
  from inst flags have a: "retrieve_context ?search ?state = ([], [])"
    by blast
  from inst have b: "snd (retrieve_from_user_library ?search ''kite'' ''u1'' 7 3 False False)
      = [VectorSearch ''kite'' (3 * 3)]"
    by blast
  have c: "fst (retrieve_from_user_library ?search ''kite'' ''u1'' 7 3 False False) = [?note]"
    by (simp add: retrieve_from_user_library_def)
  from b c have "retrieve_from_user_library ?search ''kite'' ''u1'' 7 3 False False
      = ([?note], [VectorSearch ''kite'' 9])"
    by (simp add: prod_eq_iff)
  with a show ?thesis by blast
qed

section \<open>Story generation: fences and parse errors\<close>






















section \<open>Assignments: ownership, idempotence and the question list\<close>

lemma find_append_new:
  "find P xs = None \<Longrightarrow> P a \<Longrightarrow> find P (xs @ [a]) = Some a"
  by (induction xs) (auto split: if_splits)

lemma page_texts_of_story:
  "page_texts (map (\<lambda>page. JObj [(''pageText'', JStr (page_text page))]) ps)
     = Inr (map page_text ps)"
  by (induction ps) auto

lemma generate_questions_trace:
  "snd (generate_questions loads chat
          (map (\<lambda>page. JObj [(''pageText'', JStr (page_text page))]) ps) title)
     = [QuestionCompletion title (py_join '' '' (map page_text ps))]"
  by (simp add: generate_questions_def page_texts_of_story Let_def)

lemma generate_questions_of_story:
  "chat title (py_join '' '' (map page_text ps)) = Inr response \<Longrightarrow>
   clean_markdown (py_replace [CHR 0x0A] [] (py_replace [CHR 0x0D, CHR 0x0A] []
       (py_strip response))) = Inr cleaned \<Longrightarrow>
   loads cleaned = Some j \<Longrightarrow>
   fst (generate_questions loads chat
          (map (\<lambda>page. JObj [(''pageText'', JStr (page_text page))]) ps) title) = Inr j"
  by (simp add: generate_questions_def page_texts_of_story Let_def)

lemma create_assignment_new:
  assumes "ObjectId sid = Inr key"
    and "find (\<lambda>a. a_sid a = key \<and> a_uid a = user_id) (assignments db) = None"
    and "find (\<lambda>s. story_id s = key) (stories db) = Some story"
  shows "create_assignment cap new_id db sid user_id
     = (case fst (generate_questions (json_loads cap) (question_chat cap)
                 (map (\<lambda>page. JObj [(''pageText'', JStr (page_text page))]) (story_content story))
                 (story_title story)) of
          Inl e \<Rightarrow> (Inl (Failed ''Failed to create assignment'' e), db,
                    [QuestionCompletion (story_title story)
                 (py_join '' '' (map page_text (story_content story)))])
        | Inr data \<Rightarrow>
            (case questions_field data of
               Inl e \<Rightarrow> (Inl (Failed ''Failed to create assignment'' e), db,
                    [QuestionCompletion (story_title story)
                 (py_join '' '' (map page_text (story_content story)))])
             | Inr qs \<Rightarrow>
                 (Inr \<lparr>assignment_id = new_id, a_sid = key, a_uid = user_id, questions = qs\<rparr>,
                  db\<lparr>assignments := assignments db @ [\<lparr>assignment_id = new_id, a_sid = key, a_uid = user_id, questions = qs\<rparr>]\<rparr>,
                  [QuestionCompletion (story_title story)
                 (py_join '' '' (map page_text (story_content story)))])))"
proof -
  obtain r calls where gq: "generate_questions (json_loads cap) (question_chat cap)
                 (map (\<lambda>page. JObj [(''pageText'', JStr (page_text page))]) (story_content story))
                 (story_title story) = (r, calls)"
    by (cases "generate_questions (json_loads cap) (question_chat cap)
                 (map (\<lambda>page. JObj [(''pageText'', JStr (page_text page))]) (story_content story))
                 (story_title story)")
  from generate_questions_trace [of "json_loads cap" "question_chat cap" "story_content story"
      "story_title story"] gq
  have calls: "calls = [QuestionCompletion (story_title story)
                 (py_join '' '' (map page_text (story_content story)))]"
    by simp
  from assms gq show ?thesis
    by (simp add: create_assignment_def Let_def calls split: sum.splits)
qed

text \<open>
  Claim C3, as stated, fails for \<open>create_assignment\<close>: a user who is not the creator
  of the story asks for its assignment and gets one. The story is loaded, the question
  completion is called and the new assignment is stored under the requesting user; no
  authorization error is raised.
\<close>

theorem create_assignment_not_owner_succeeds:
  "create_assignment
     \<lparr>json_loads = (\<lambda>s. if s = ''{\"questions\": [{\"question\": \"Who flew?\", \"answer\": \"The kite\", \"userAnswer\": \"\"}]}'' then Some (JObj [(''questions'', JArr [JObj [(''question'', JStr ''Who flew?''), (''answer'', JStr ''The kite''), (''userAnswer'', JStr [])]])]) else None),
      similarity_search = (\<lambda>q k. Inr []), split_text = (\<lambda>t. [t]),
      add_documents = (\<lambda>ds. None),
      story_llm = (\<lambda>st. Inl (UpstreamError ''no completion'')),
      question_chat = (\<lambda>t w. Inr ''{\"questions\": [{\"question\": \"Who flew?\", \"answer\": \"The kite\", \"userAnswer\": \"\"}]}''),
      feedback_chat = (\<lambda>qs w. Inl (UpstreamError ''no completion'')),
      generate_image = (\<lambda>t a s. None), copy_image = (\<lambda>u. None),
      validate_int = (\<lambda>j. case j of JNum n \<Rightarrow> Some n | _ \<Rightarrow> None)\<rparr>
     ''cccccccccccccccccccccccc''
     \<lparr>stories = [\<lparr>story_id = ''111111111111111111111111'', story_title = ''The kite'',
       story_description = ''A kite gets lost'', story_content = [\<lparr>page_text = ''A kite flew away.'', page_image = None\<rparr>],
       story_author = ''Ann'', created_by = ''aaaaaaaaaaaaaaaaaaaaaaaa'', max_pages = 2\<rparr>], assignments = [],
      feedback_docs = [], audios = []\<rparr>
     ''111111111111111111111111'' ''bbbbbbbbbbbbbbbbbbbbbbbb''
   = (Inr \<lparr>assignment_id = ''cccccccccccccccccccccccc'', a_sid = ''111111111111111111111111'', a_uid = ''bbbbbbbbbbbbbbbbbbbbbbbb'',
       questions = [\<lparr>question = ''Who flew?'', answer = ''The kite'', user_answer = None\<rparr>]\<rparr>,
      \<lparr>stories = [\<lparr>story_id = ''111111111111111111111111'', story_title = ''The kite'',
       story_description = ''A kite gets lost'', story_content = [\<lparr>page_text = ''A kite flew away.'', page_image = None\<rparr>],
       story_author = ''Ann'', created_by = ''aaaaaaaaaaaaaaaaaaaaaaaa'', max_pages = 2\<rparr>], assignments = [\<lparr>assignment_id = ''cccccccccccccccccccccccc'', a_sid = ''111111111111111111111111'', a_uid = ''bbbbbbbbbbbbbbbbbbbbbbbb'',
       questions = [\<lparr>question = ''Who flew?'', answer = ''The kite'', user_answer = None\<rparr>]\<rparr>],
      feedback_docs = [], audios = []\<rparr>,
      [QuestionCompletion ''The kite'' ''A kite flew away.''])"
  by (simp add: create_assignment_def ObjectId_def is_hex_def hex_lower_def
        generate_questions_def clean_markdown_def py_strip_def py_isspace_def
        fence_json_def fence_def starts_with_def questions_field_def validate_question_def Let_def)

text \<open>
  Claim C3, amended. For every story whose creator differs from the requesting user,
  \<open>get_story\<close> fails with the authorization error (it is a pure lookup: it changes
  nothing and calls no capability). \<open>create_assignment\<close> makes no ownership check.
  For a story that is found, whoever created it: when the requesting user already has an
  assignment for it, that assignment is returned and nothing else happens; otherwise the
  question completion is called once, on the story's title and page texts, and a failure
  of the generation or of the validation of the questions leaves as "Failed to create
  assignment: ...", while validated questions are stored in a new assignment under the
  requesting user, which is returned. In no case does \<open>create_assignment\<close> fail with
  an authorization error.
\<close>

theorem ownership_checks:
  "(ObjectId sid = Inr key \<and> find (\<lambda>s. story_id s = key) (stories db) = Some story
       \<and> created_by story \<noteq> user_id
     \<longrightarrow> get_story db sid user_id = Inl (ForbiddenError ''Unauthorized access to this story''))
   \<and> (ObjectId sid = Inr key \<and> find (\<lambda>s. story_id s = key) (stories db) = Some story
     \<longrightarrow> (\<forall>existing. find (\<lambda>a. a_sid a = key \<and> a_uid a = user_id) (assignments db)
                        = Some existing \<longrightarrow>
            create_assignment cap new_id db sid user_id = (Inr existing, db, []))
       \<and> (find (\<lambda>a. a_sid a = key \<and> a_uid a = user_id) (assignments db) = None \<longrightarrow>
            (\<forall>e. fst (generate_questions (json_loads cap) (question_chat cap)
                 (map (\<lambda>page. JObj [(''pageText'', JStr (page_text page))]) (story_content story))
                 (story_title story)) = Inl e \<longrightarrow>
               create_assignment cap new_id db sid user_id
                 = (Inl (Failed ''Failed to create assignment'' e), db,
                    [QuestionCompletion (story_title story)
                 (py_join '' '' (map page_text (story_content story)))]))
          \<and> (\<forall>data e. fst (generate_questions (json_loads cap) (question_chat cap)
                 (map (\<lambda>page. JObj [(''pageText'', JStr (page_text page))]) (story_content story))
                 (story_title story)) = Inr data
                  \<and> questions_field data = Inl e \<longrightarrow>
               create_assignment cap new_id db sid user_id
                 = (Inl (Failed ''Failed to create assignment'' e), db,
                    [QuestionCompletion (story_title story)
                 (py_join '' '' (map page_text (story_content story)))]))
          \<and> (\<forall>data qs. fst (generate_questions (json_loads cap) (question_chat cap)
                 (map (\<lambda>page. JObj [(''pageText'', JStr (page_text page))]) (story_content story))
                 (story_title story)) = Inr data
                  \<and> questions_field data = Inr qs \<longrightarrow>
               create_assignment cap new_id db sid user_id
                 = (Inr \<lparr>assignment_id = new_id, a_sid = key, a_uid = user_id, questions = qs\<rparr>,
                    db\<lparr>assignments := assignments db @ [\<lparr>assignment_id = new_id, a_sid = key, a_uid = user_id, questions = qs\<rparr>]\<rparr>,
                    [QuestionCompletion (story_title story)
                 (py_join '' '' (map page_text (story_content story)))]))))
   \<and> (\<forall>msg. fst (create_assignment cap new_id db sid user_id) \<noteq> Inl (ForbiddenError msg))"
proof (intro conjI impI allI)
  assume "ObjectId sid = Inr key \<and> find (\<lambda>s. story_id s = key) (stories db) = Some story
       \<and> created_by story \<noteq> user_id"
  then show "get_story db sid user_id = Inl (ForbiddenError ''Unauthorized access to this story'')"
    by (simp add: get_story_def)
next
  fix existing
  assume "ObjectId sid = Inr key \<and> find (\<lambda>s. story_id s = key) (stories db) = Some story"
    and "find (\<lambda>a. a_sid a = key \<and> a_uid a = user_id) (assignments db) = Some existing"
  then show "create_assignment cap new_id db sid user_id = (Inr existing, db, [])"
    by (simp add: create_assignment_def)
next
  fix e
  assume h: "ObjectId sid = Inr key \<and> find (\<lambda>s. story_id s = key) (stories db) = Some story"
    and n: "find (\<lambda>a. a_sid a = key \<and> a_uid a = user_id) (assignments db) = None"
    and g: "fst (generate_questions (json_loads cap) (question_chat cap)
                 (map (\<lambda>page. JObj [(''pageText'', JStr (page_text page))]) (story_content story))
                 (story_title story)) = Inl e"
  from h have k: "ObjectId sid = Inr key"
    and s: "find (\<lambda>s. story_id s = key) (stories db) = Some story" by simp_all
  show "create_assignment cap new_id db sid user_id
                 = (Inl (Failed ''Failed to create assignment'' e), db,
                    [QuestionCompletion (story_title story)
                 (py_join '' '' (map page_text (story_content story)))])"
    by (simp add: create_assignment_new [OF k n s] g)
next
  fix data e
  assume h: "ObjectId sid = Inr key \<and> find (\<lambda>s. story_id s = key) (stories db) = Some story"
    and n: "find (\<lambda>a. a_sid a = key \<and> a_uid a = user_id) (assignments db) = None"
    and g: "fst (generate_questions (json_loads cap) (question_chat cap)
                 (map (\<lambda>page. JObj [(''pageText'', JStr (page_text page))]) (story_content story))
                 (story_title story)) = Inr data
                  \<and> questions_field data = Inl e"
  from h have k: "ObjectId sid = Inr key"
    and s: "find (\<lambda>s. story_id s = key) (stories db) = Some story" by simp_all
  show "create_assignment cap new_id db sid user_id
                 = (Inl (Failed ''Failed to create assignment'' e), db,
                    [QuestionCompletion (story_title story)
                 (py_join '' '' (map page_text (story_content story)))])"
    by (simp add: create_assignment_new [OF k n s] g)
next
  fix data qs
  assume h: "ObjectId sid = Inr key \<and> find (\<lambda>s. story_id s = key) (stories db) = Some story"
    and n: "find (\<lambda>a. a_sid a = key \<and> a_uid a = user_id) (assignments db) = None"
    and g: "fst (generate_questions (json_loads cap) (question_chat cap)
                 (map (\<lambda>page. JObj [(''pageText'', JStr (page_text page))]) (story_content story))
                 (story_title story)) = Inr data
                  \<and> questions_field data = Inr qs"
  from h have k: "ObjectId sid = Inr key"
    and s: "find (\<lambda>s. story_id s = key) (stories db) = Some story" by simp_all
  show "create_assignment cap new_id db sid user_id
                 = (Inr \<lparr>assignment_id = new_id, a_sid = key, a_uid = user_id, questions = qs\<rparr>,
                    db\<lparr>assignments := assignments db @ [\<lparr>assignment_id = new_id, a_sid = key, a_uid = user_id, questions = qs\<rparr>]\<rparr>,
                    [QuestionCompletion (story_title story)
                 (py_join '' '' (map page_text (story_content story)))])"
    by (simp add: create_assignment_new [OF k n s] g)
next
  fix msg
  show "fst (create_assignment cap new_id db sid user_id) \<noteq> Inl (ForbiddenError msg)"
    by (auto simp: create_assignment_def Let_def
          split: option.splits sum.splits prod.splits)
qed

text \<open>
  The theorem at a story of two pages created by one user and requested by another.
  Reading it is refused. Asking for its assignment calls the question completion on
  the two page texts and stores the two generated questions under the requesting user.
  With an assignment of that user already stored, it is returned with no call, though
  every completion offered would fail.
\<close>

theorem ownership_checks_witness:
  "get_story
     \<lparr>stories = [\<lparr>story_id = ''111111111111111111111111'', story_title = ''The kite'',
       story_description = ''A kite gets lost'', story_content = [\<lparr>page_text = ''A kite flew away.'', page_image = None\<rparr>, \<lparr>page_text = ''It came back.'', page_image = None\<rparr>],
       story_author = ''Ann'', created_by = ''aaaaaaaaaaaaaaaaaaaaaaaa'', max_pages = 2\<rparr>], assignments = [],
      feedback_docs = [], audios = []\<rparr>
     ''111111111111111111111111'' ''bbbbbbbbbbbbbbbbbbbbbbbb''
   = Inl (ForbiddenError ''Unauthorized access to this story'')
   \<and> create_assignment
        \<lparr>json_loads = (\<lambda>s. if s = ''{\"questions\": [{\"question\": \"Who flew?\", \"answer\": \"The kite\", \"userAnswer\": \"\"}, {\"question\": \"Did it come back?\", \"answer\": \"Yes\", \"userAnswer\": \"\"}]}'' then Some (JObj [(''questions'', JArr [JObj [(''question'', JStr ''Who flew?''), (''answer'', JStr ''The kite''), (''userAnswer'', JStr [])], JObj [(''question'', JStr ''Did it come back?''), (''answer'', JStr ''Yes''), (''userAnswer'', JStr [])]])]) else None),
      similarity_search = (\<lambda>q k. Inr []), split_text = (\<lambda>t. [t]),
      add_documents = (\<lambda>ds. None),
      story_llm = (\<lambda>st. Inl (UpstreamError ''no completion'')),
      question_chat = (\<lambda>t w. Inr ''{\"questions\": [{\"question\": \"Who flew?\", \"answer\": \"The kite\", \"userAnswer\": \"\"}, {\"question\": \"Did it come back?\", \"answer\": \"Yes\", \"userAnswer\": \"\"}]}''),
      feedback_chat = (\<lambda>qs w. Inl (UpstreamError ''no completion'')),
      generate_image = (\<lambda>t a s. None), copy_image = (\<lambda>u. None),
      validate_int = (\<lambda>j. case j of JNum n \<Rightarrow> Some n | _ \<Rightarrow> None)\<rparr>
        ''cccccccccccccccccccccccc''
        \<lparr>stories = [\<lparr>story_id = ''111111111111111111111111'', story_title = ''The kite'',
       story_description = ''A kite gets lost'', story_content = [\<lparr>page_text = ''A kite flew away.'', page_image = None\<rparr>, \<lparr>page_text = ''It came back.'', page_image = None\<rparr>],
       story_author = ''Ann'', created_by = ''aaaaaaaaaaaaaaaaaaaaaaaa'', max_pages = 2\<rparr>], assignments = [],
      feedback_docs = [], audios = []\<rparr>
        ''111111111111111111111111'' ''bbbbbbbbbbbbbbbbbbbbbbbb''
     = (Inr \<lparr>assignment_id = ''cccccccccccccccccccccccc'', a_sid = ''111111111111111111111111'', a_uid = ''bbbbbbbbbbbbbbbbbbbbbbbb'',
       questions = [\<lparr>question = ''Who flew?'', answer = ''The kite'', user_answer = None\<rparr>, \<lparr>question = ''Did it come back?'', answer = ''Yes'', user_answer = None\<rparr>]\<rparr>,
        \<lparr>stories = [\<lparr>story_id = ''111111111111111111111111'', story_title = ''The kite'',
       story_description = ''A kite gets lost'', story_content = [\<lparr>page_text = ''A kite flew away.'', page_image = None\<rparr>, \<lparr>page_text = ''It came back.'', page_image = None\<rparr>],
       story_author = ''Ann'', created_by = ''aaaaaaaaaaaaaaaaaaaaaaaa'', max_pages = 2\<rparr>], assignments = [\<lparr>assignment_id = ''cccccccccccccccccccccccc'', a_sid = ''111111111111111111111111'', a_uid = ''bbbbbbbbbbbbbbbbbbbbbbbb'',
       questions = [\<lparr>question = ''Who flew?'', answer = ''The kite'', user_answer = None\<rparr>, \<lparr>question = ''Did it come back?'', answer = ''Yes'', user_answer = None\<rparr>]\<rparr>],
      feedback_docs = [], audios = []\<rparr>,
        [QuestionCompletion ''The kite'' ''A kite flew away. It came back.''])
   \<and> create_assignment
        \<lparr>json_loads = (\<lambda>s. None),
      similarity_search = (\<lambda>q k. Inr []), split_text = (\<lambda>t. [t]),
      add_documents = (\<lambda>ds. None),
      story_llm = (\<lambda>st. Inl (UpstreamError ''no completion'')),
      question_chat = (\<lambda>t w. Inl (UpstreamError ''no completion'')),
      feedback_chat = (\<lambda>qs w. Inl (UpstreamError ''no completion'')),
      generate_image = (\<lambda>t a s. None), copy_image = (\<lambda>u. None),
      validate_int = (\<lambda>j. case j of JNum n \<Rightarrow> Some n | _ \<Rightarrow> None)\<rparr>
        ''dddddddddddddddddddddddd''
        \<lparr>stories = [\<lparr>story_id = ''111111111111111111111111'', story_title = ''The kite'',
       story_description = ''A kite gets lost'', story_content = [\<lparr>page_text = ''A kite flew away.'', page_image = None\<rparr>, \<lparr>page_text = ''It came back.'', page_image = None\<rparr>],
       story_author = ''Ann'', created_by = ''aaaaaaaaaaaaaaaaaaaaaaaa'', max_pages = 2\<rparr>], assignments = [\<lparr>assignment_id = ''cccccccccccccccccccccccc'', a_sid = ''111111111111111111111111'', a_uid = ''bbbbbbbbbbbbbbbbbbbbbbbb'',
       questions = [\<lparr>question = ''Who flew?'', answer = ''The kite'', user_answer = None\<rparr>, \<lparr>question = ''Did it come back?'', answer = ''Yes'', user_answer = None\<rparr>]\<rparr>],
      feedback_docs = [], audios = []\<rparr>
        ''111111111111111111111111'' ''bbbbbbbbbbbbbbbbbbbbbbbb''
     = (Inr \<lparr>assignment_id = ''cccccccccccccccccccccccc'', a_sid = ''111111111111111111111111'', a_uid = ''bbbbbbbbbbbbbbbbbbbbbbbb'',
       questions = [\<lparr>question = ''Who flew?'', answer = ''The kite'', user_answer = None\<rparr>, \<lparr>question = ''Did it come back?'', answer = ''Yes'', user_answer = None\<rparr>]\<rparr>,
        \<lparr>stories = [\<lparr>story_id = ''111111111111111111111111'', story_title = ''The kite'',
       story_description = ''A kite gets lost'', story_content = [\<lparr>page_text = ''A kite flew away.'', page_image = None\<rparr>, \<lparr>page_text = ''It came back.'', page_image = None\<rparr>],
       story_author = ''Ann'', created_by = ''aaaaaaaaaaaaaaaaaaaaaaaa'', max_pages = 2\<rparr>], assignments = [\<lparr>assignment_id = ''cccccccccccccccccccccccc'', a_sid = ''111111111111111111111111'', a_uid = ''bbbbbbbbbbbbbbbbbbbbbbbb'',
       questions = [\<lparr>question = ''Who flew?'', answer = ''The kite'', user_answer = None\<rparr>, \<lparr>question = ''Did it come back?'', answer = ''Yes'', user_answer = None\<rparr>]\<rparr>],
      feedback_docs = [], audios = []\<rparr>,
        [])
   \<and> create_assignment
        \<lparr>json_loads = (\<lambda>s. None),
      similarity_search = (\<lambda>q k. Inr []), split_text = (\<lambda>t. [t]),
      add_documents = (\<lambda>ds. None),
      story_llm = (\<lambda>st. Inl (UpstreamError ''no completion'')),
      question_chat = (\<lambda>t w. Inl (UpstreamError ''no completion'')),
      feedback_chat = (\<lambda>qs w. Inl (UpstreamError ''no completion'')),
      generate_image = (\<lambda>t a s. None), copy_image = (\<lambda>u. None),
      validate_int = (\<lambda>j. case j of JNum n \<Rightarrow> Some n | _ \<Rightarrow> None)\<rparr>
        ''cccccccccccccccccccccccc''
        \<lparr>stories = [\<lparr>story_id = ''111111111111111111111111'', story_title = ''The kite'',
       story_description = ''A kite gets lost'', story_content = [\<lparr>page_text = ''A kite flew away.'', page_image = None\<rparr>, \<lparr>page_text = ''It came back.'', page_image = None\<rparr>],
       story_author = ''Ann'', created_by = ''aaaaaaaaaaaaaaaaaaaaaaaa'', max_pages = 2\<rparr>], assignments = [],
      feedback_docs = [], audios = []\<rparr>
        ''111111111111111111111111'' ''bbbbbbbbbbbbbbbbbbbbbbbb''
     = (Inl (Failed ''Failed to create assignment''
              (Failed ''Failed to generate questions'' (UpstreamError ''no completion''))),
        \<lparr>stories = [\<lparr>story_id = ''111111111111111111111111'', story_title = ''The kite'',
       story_description = ''A kite gets lost'', story_content = [\<lparr>page_text = ''A kite flew away.'', page_image = None\<rparr>, \<lparr>page_text = ''It came back.'', page_image = None\<rparr>],
       story_author = ''Ann'', created_by = ''aaaaaaaaaaaaaaaaaaaaaaaa'', max_pages = 2\<rparr>], assignments = [],
      feedback_docs = [], audios = []\<rparr>,
        [QuestionCompletion ''The kite'' ''A kite flew away. It came back.''])"
proof -
  let ?story = "\<lparr>story_id = ''111111111111111111111111'', story_title = ''The kite'',
       story_description = ''A kite gets lost'', story_content = [\<lparr>page_text = ''A kite flew away.'', page_image = None\<rparr>, \<lparr>page_text = ''It came back.'', page_image = None\<rparr>],
       story_author = ''Ann'', created_by = ''aaaaaaaaaaaaaaaaaaaaaaaa'', max_pages = 2\<rparr>"
  let ?db = "\<lparr>stories = [\<lparr>story_id = ''111111111111111111111111'', story_title = ''The kite'',
       story_description = ''A kite gets lost'', story_content = [\<lparr>page_text = ''A kite flew away.'', page_image = None\<rparr>, \<lparr>page_text = ''It came back.'', page_image = None\<rparr>],
       story_author = ''Ann'', created_by = ''aaaaaaaaaaaaaaaaaaaaaaaa'', max_pages = 2\<rparr>], assignments = [],
      feedback_docs = [], audios = []\<rparr>"
  let ?a = "\<lparr>assignment_id = ''cccccccccccccccccccccccc'', a_sid = ''111111111111111111111111'', a_uid = ''bbbbbbbbbbbbbbbbbbbbbbbb'',
       questions = [\<lparr>question = ''Who flew?'', answer = ''The kite'', user_answer = None\<rparr>, \<lparr>question = ''Did it come back?'', answer = ''Yes'', user_answer = None\<rparr>]\<rparr>"
  let ?dba = "\<lparr>stories = [\<lparr>story_id = ''111111111111111111111111'', story_title = ''The kite'',
       story_description = ''A kite gets lost'', story_content = [\<lparr>page_text = ''A kite flew away.'', page_image = None\<rparr>, \<lparr>page_text = ''It came back.'', page_image = None\<rparr>],
       story_author = ''Ann'', created_by = ''aaaaaaaaaaaaaaaaaaaaaaaa'', max_pages = 2\<rparr>], assignments = [\<lparr>assignment_id = ''cccccccccccccccccccccccc'', a_sid = ''111111111111111111111111'', a_uid = ''bbbbbbbbbbbbbbbbbbbbbbbb'',
       questions = [\<lparr>question = ''Who flew?'', answer = ''The kite'', user_answer = None\<rparr>, \<lparr>question = ''Did it come back?'', answer = ''Yes'', user_answer = None\<rparr>]\<rparr>],
      feedback_docs = [], audios = []\<rparr>"
  let ?cap = "\<lparr>json_loads = (\<lambda>s. if s = ''{\"questions\": [{\"question\": \"Who flew?\", \"answer\": \"The kite\", \"userAnswer\": \"\"}, {\"question\": \"Did it come back?\", \"answer\": \"Yes\", \"userAnswer\": \"\"}]}'' then Some (JObj [(''questions'', JArr [JObj [(''question'', JStr ''Who flew?''), (''answer'', JStr ''The kite''), (''userAnswer'', JStr [])], JObj [(''question'', JStr ''Did it come back?''), (''answer'', JStr ''Yes''), (''userAnswer'', JStr [])]])]) else None),
      similarity_search = (\<lambda>q k. Inr []), split_text = (\<lambda>t. [t]),
      add_documents = (\<lambda>ds. None),
      story_llm = (\<lambda>st. Inl (UpstreamError ''no completion'')),
      question_chat = (\<lambda>t w. Inr ''{\"questions\": [{\"question\": \"Who flew?\", \"answer\": \"The kite\", \"userAnswer\": \"\"}, {\"question\": \"Did it come back?\", \"answer\": \"Yes\", \"userAnswer\": \"\"}]}''),
      feedback_chat = (\<lambda>qs w. Inl (UpstreamError ''no completion'')),
      generate_image = (\<lambda>t a s. None), copy_image = (\<lambda>u. None),
      validate_int = (\<lambda>j. case j of JNum n \<Rightarrow> Some n | _ \<Rightarrow> None)\<rparr>"
  let ?capfail = "\<lparr>json_loads = (\<lambda>s. None),
      similarity_search = (\<lambda>q k. Inr []), split_text = (\<lambda>t. [t]),
      add_documents = (\<lambda>ds. None),
      story_llm = (\<lambda>st. Inl (UpstreamError ''no completion'')),
      question_chat = (\<lambda>t w. Inl (UpstreamError ''no completion'')),
      feedback_chat = (\<lambda>qs w. Inl (UpstreamError ''no completion'')),
      generate_image = (\<lambda>t a s. None), copy_image = (\<lambda>u. None),
      validate_int = (\<lambda>j. case j of JNum n \<Rightarrow> Some n | _ \<Rightarrow> None)\<rparr>"
  let ?qs = "[\<lparr>question = ''Who flew?'', answer = ''The kite'', user_answer = None\<rparr>, \<lparr>question = ''Did it come back?'', answer = ''Yes'', user_answer = None\<rparr>]"
  have k: "ObjectId ''111111111111111111111111'' = Inr ''111111111111111111111111''"
    by (simp add: ObjectId_def is_hex_def hex_lower_def)
  have s: "find (\<lambda>s. story_id s = ''111111111111111111111111'') (stories ?db) = Some ?story"
    and sa: "find (\<lambda>s. story_id s = ''111111111111111111111111'') (stories ?dba) = Some ?story"
    and o: "created_by ?story \<noteq> ''bbbbbbbbbbbbbbbbbbbbbbbb''"
    and n: "find (\<lambda>a. a_sid a = ''111111111111111111111111'' \<and> a_uid a = ''bbbbbbbbbbbbbbbbbbbbbbbb'') (assignments ?db) = None"
    and ex: "find (\<lambda>a. a_sid a = ''111111111111111111111111'' \<and> a_uid a = ''bbbbbbbbbbbbbbbbbbbbbbbb'') (assignments ?dba) = Some ?a"
    by simp_all
  have clean: "clean_markdown (py_replace [CHR 0x0A] [] (py_replace [CHR 0x0D, CHR 0x0A] []
            (py_strip ''{\"questions\": [{\"question\": \"Who flew?\", \"answer\": \"The kite\", \"userAnswer\": \"\"}, {\"question\": \"Did it come back?\", \"answer\": \"Yes\", \"userAnswer\": \"\"}]}''))) = Inr ''{\"questions\": [{\"question\": \"Who flew?\", \"answer\": \"The kite\", \"userAnswer\": \"\"}, {\"question\": \"Did it come back?\", \"answer\": \"Yes\", \"userAnswer\": \"\"}]}''"
    by (simp add: clean_markdown_def py_strip_def py_isspace_def
          fence_json_def fence_def starts_with_def)
  have g: "fst (generate_questions (json_loads ?cap) (question_chat ?cap)
                 (map (\<lambda>page. JObj [(''pageText'', JStr (page_text page))]) (story_content ?story))
                 (story_title ?story)) = Inr (JObj [(''questions'', JArr [JObj [(''question'', JStr ''Who flew?''), (''answer'', JStr ''The kite''), (''userAnswer'', JStr [])], JObj [(''question'', JStr ''Did it come back?''), (''answer'', JStr ''Yes''), (''userAnswer'', JStr [])]])])"
    by (rule generate_questions_of_story [where response = "''{\"questions\": [{\"question\": \"Who flew?\", \"answer\": \"The kite\", \"userAnswer\": \"\"}, {\"question\": \"Did it come back?\", \"answer\": \"Yes\", \"userAnswer\": \"\"}]}''" and cleaned = "''{\"questions\": [{\"question\": \"Who flew?\", \"answer\": \"The kite\", \"userAnswer\": \"\"}, {\"question\": \"Did it come back?\", \"answer\": \"Yes\", \"userAnswer\": \"\"}]}''"])
       (simp_all add: clean)
  have q: "questions_field (JObj [(''questions'', JArr [JObj [(''question'', JStr ''Who flew?''), (''answer'', JStr ''The kite''), (''userAnswer'', JStr [])], JObj [(''question'', JStr ''Did it come back?''), (''answer'', JStr ''Yes''), (''userAnswer'', JStr [])]])]) = Inr ?qs"
    by (simp add: questions_field_def validate_question_def)
  have gf: "fst (generate_questions (json_loads ?capfail) (question_chat ?capfail)
                 (map (\<lambda>page. JObj [(''pageText'', JStr (page_text page))]) (story_content ?story))
                 (story_title ?story))
      = Inl (Failed ''Failed to generate questions'' (UpstreamError ''no completion''))"
    by (simp add: generate_questions_def Let_def)
  note inst1 = ownership_checks [where sid = "''111111111111111111111111''" and key = "''111111111111111111111111''" and db = ?db
      and story = ?story and user_id = "''bbbbbbbbbbbbbbbbbbbbbbbb''" and cap = ?cap and new_id = "''cccccccccccccccccccccccc''"]
  note inst2 = ownership_checks [where sid = "''111111111111111111111111''" and key = "''111111111111111111111111''" and db = ?dba
      and story = ?story and user_id = "''bbbbbbbbbbbbbbbbbbbbbbbb''" and cap = ?capfail and new_id = "''dddddddddddddddddddddddd''"]
  note inst3 = ownership_checks [where sid = "''111111111111111111111111''" and key = "''111111111111111111111111''" and db = ?db
      and story = ?story and user_id = "''bbbbbbbbbbbbbbbbbbbbbbbb''" and cap = ?capfail and new_id = "''cccccccccccccccccccccccc''"]
  from inst1 [THEN conjunct1, THEN mp, OF conjI [OF k conjI [OF s o]]]
  have a: "get_story ?db ''111111111111111111111111'' ''bbbbbbbbbbbbbbbbbbbbbbbb''
      = Inl (ForbiddenError ''Unauthorized access to this story'')" .
  from inst1 [THEN conjunct2, THEN conjunct1, THEN mp, OF conjI [OF k s], THEN conjunct2,
      THEN mp, OF n, THEN conjunct2, THEN conjunct2, THEN spec, THEN spec, THEN mp,
      OF conjI [OF g q]]
  have b: "create_assignment ?cap ''cccccccccccccccccccccccc'' ?db ''111111111111111111111111'' ''bbbbbbbbbbbbbbbbbbbbbbbb''
      = (Inr ?a, ?dba, [QuestionCompletion ''The kite'' ''A kite flew away. It came back.''])"
    by simp
  from inst2 [THEN conjunct2, THEN conjunct1, THEN mp, OF conjI [OF k sa], THEN conjunct1,
      THEN spec, THEN mp, OF ex]
  have c: "create_assignment ?capfail ''dddddddddddddddddddddddd'' ?dba ''111111111111111111111111'' ''bbbbbbbbbbbbbbbbbbbbbbbb'' = (Inr ?a, ?dba, [])" .
  from inst3 [THEN conjunct2, THEN conjunct1, THEN mp, OF conjI [OF k s], THEN conjunct2,
      THEN mp, OF n, THEN conjunct1, THEN spec, THEN mp, OF gf]
  have d: "create_assignment ?capfail ''cccccccccccccccccccccccc'' ?db ''111111111111111111111111'' ''bbbbbbbbbbbbbbbbbbbbbbbb''
      = (Inl (Failed ''Failed to create assignment''
              (Failed ''Failed to generate questions'' (UpstreamError ''no completion''))),
         ?db, [QuestionCompletion ''The kite'' ''A kite flew away. It came back.''])"
    by simp
  from a b c d show ?thesis by blast
qed

text \<open>
  Claim C4. \<open>create_assignment\<close> is idempotent per (story, user): once a call has
  returned an assignment, a second call on the resulting store with the same story id
  and user returns the very same assignment (so the same id and the same questions),
  issues no capability call (in particular no question generation) and leaves the store,
  and with it the stored questions, unchanged. This holds whatever the capabilities and
  the fresh id offered to the second call are.
\<close>

theorem create_assignment_idempotent:
  assumes "create_assignment cap new_id db sid user_id = (Inr a, db', calls)"
  shows "create_assignment cap' new_id' db' sid user_id = (Inr a, db', [])"
proof -
  from assms obtain key where key: "ObjectId sid = Inr key"
    by (cases "ObjectId sid") (auto simp: create_assignment_def)
  show ?thesis
  proof (cases "find (\<lambda>a. a_sid a = key \<and> a_uid a = user_id) (assignments db)")
    case (Some existing)
    with assms key have "a = existing" and "db' = db"
      by (auto simp: create_assignment_def)
    with Some key show ?thesis
      by (simp add: create_assignment_def)
  next
    case None
    with assms key
    have "\<exists>qs. a = \<lparr>assignment_id = new_id, a_sid = key, a_uid = user_id, questions = qs\<rparr>
               \<and> db' = db\<lparr>assignments := assignments db @ [a]\<rparr>"
      by (auto simp: create_assignment_def Let_def
            split: option.splits sum.splits prod.splits)
    then obtain qs where a: "a = \<lparr>assignment_id = new_id, a_sid = key, a_uid = user_id, questions = qs\<rparr>"
      and db': "db' = db\<lparr>assignments := assignments db @ [a]\<rparr>"
      by blast
    have "find (\<lambda>a. a_sid a = key \<and> a_uid a = user_id) (assignments db') = Some a"
      using find_append_new [OF None, of a] a db' by simp
    with key show ?thesis
      by (simp add: create_assignment_def)
  qed
qed

text \<open>
  The theorem after a first call by the story's creator that generated one question:
  the second call, offered capabilities whose completions all fail and another fresh id,
  returns the stored assignment and issues no call.
\<close>

theorem create_assignment_idempotent_witness:
  "create_assignment
     \<lparr>json_loads = (\<lambda>s. None),
      similarity_search = (\<lambda>q k. Inr []), split_text = (\<lambda>t. [t]),
      add_documents = (\<lambda>ds. None),
      story_llm = (\<lambda>st. Inl (UpstreamError ''no completion'')),
      question_chat = (\<lambda>t w. Inl (UpstreamError ''no completion'')),
      feedback_chat = (\<lambda>qs w. Inl (UpstreamError ''no completion'')),
      generate_image = (\<lambda>t a s. None), copy_image = (\<lambda>u. None),
      validate_int = (\<lambda>j. case j of JNum n \<Rightarrow> Some n | _ \<Rightarrow> None)\<rparr>
     ''dddddddddddddddddddddddd''
     \<lparr>stories = [\<lparr>story_id = ''111111111111111111111111'', story_title = ''The kite'',
       story_description = ''A kite gets lost'', story_content = [\<lparr>page_text = ''A kite flew away.'', page_image = None\<rparr>],
       story_author = ''Ann'', created_by = ''aaaaaaaaaaaaaaaaaaaaaaaa'', max_pages = 2\<rparr>], assignments = [\<lparr>assignment_id = ''cccccccccccccccccccccccc'', a_sid = ''111111111111111111111111'', a_uid = ''aaaaaaaaaaaaaaaaaaaaaaaa'',
       questions = [\<lparr>question = ''Who flew?'', answer = ''The kite'', user_answer = None\<rparr>]\<rparr>],
      feedback_docs = [], audios = []\<rparr>
     ''111111111111111111111111'' ''aaaaaaaaaaaaaaaaaaaaaaaa''
   = (Inr \<lparr>assignment_id = ''cccccccccccccccccccccccc'', a_sid = ''111111111111111111111111'', a_uid = ''aaaaaaaaaaaaaaaaaaaaaaaa'',
       questions = [\<lparr>question = ''Who flew?'', answer = ''The kite'', user_answer = None\<rparr>]\<rparr>,
      \<lparr>stories = [\<lparr>story_id = ''111111111111111111111111'', story_title = ''The kite'',
       story_description = ''A kite gets lost'', story_content = [\<lparr>page_text = ''A kite flew away.'', page_image = None\<rparr>],
       story_author = ''Ann'', created_by = ''aaaaaaaaaaaaaaaaaaaaaaaa'', max_pages = 2\<rparr>], assignments = [\<lparr>assignment_id = ''cccccccccccccccccccccccc'', a_sid = ''111111111111111111111111'', a_uid = ''aaaaaaaaaaaaaaaaaaaaaaaa'',
       questions = [\<lparr>question = ''Who flew?'', answer = ''The kite'', user_answer = None\<rparr>]\<rparr>],
      feedback_docs = [], audios = []\<rparr>,
      [])"
proof -
  have first: "create_assignment
     \<lparr>json_loads = (\<lambda>s. if s = ''{\"questions\": [{\"question\": \"Who flew?\", \"answer\": \"The kite\", \"userAnswer\": \"\"}]}'' then Some (JObj [(''questions'', JArr [JObj [(''question'', JStr ''Who flew?''), (''answer'', JStr ''The kite''), (''userAnswer'', JStr [])]])]) else None),
      similarity_search = (\<lambda>q k. Inr []), split_text = (\<lambda>t. [t]),
      add_documents = (\<lambda>ds. None),
      story_llm = (\<lambda>st. Inl (UpstreamError ''no completion'')),
      question_chat = (\<lambda>t w. Inr ''{\"questions\": [{\"question\": \"Who flew?\", \"answer\": \"The kite\", \"userAnswer\": \"\"}]}''),
      feedback_chat = (\<lambda>qs w. Inl (UpstreamError ''no completion'')),
      generate_image = (\<lambda>t a s. None), copy_image = (\<lambda>u. None),
      validate_int = (\<lambda>j. case j of JNum n \<Rightarrow> Some n | _ \<Rightarrow> None)\<rparr>
     ''cccccccccccccccccccccccc''
     \<lparr>stories = [\<lparr>story_id = ''111111111111111111111111'', story_title = ''The kite'',
       story_description = ''A kite gets lost'', story_content = [\<lparr>page_text = ''A kite flew away.'', page_image = None\<rparr>],
       story_author = ''Ann'', created_by = ''aaaaaaaaaaaaaaaaaaaaaaaa'', max_pages = 2\<rparr>], assignments = [],
      feedback_docs = [], audios = []\<rparr>
     ''111111111111111111111111'' ''aaaaaaaaaaaaaaaaaaaaaaaa''
   = (Inr \<lparr>assignment_id = ''cccccccccccccccccccccccc'', a_sid = ''111111111111111111111111'', a_uid = ''aaaaaaaaaaaaaaaaaaaaaaaa'',
       questions = [\<lparr>question = ''Who flew?'', answer = ''The kite'', user_answer = None\<rparr>]\<rparr>,
      \<lparr>stories = [\<lparr>story_id = ''111111111111111111111111'', story_title = ''The kite'',
       story_description = ''A kite gets lost'', story_content = [\<lparr>page_text = ''A kite flew away.'', page_image = None\<rparr>],
       story_author = ''Ann'', created_by = ''aaaaaaaaaaaaaaaaaaaaaaaa'', max_pages = 2\<rparr>], assignments = [\<lparr>assignment_id = ''cccccccccccccccccccccccc'', a_sid = ''111111111111111111111111'', a_uid = ''aaaaaaaaaaaaaaaaaaaaaaaa'',
       questions = [\<lparr>question = ''Who flew?'', answer = ''The kite'', user_answer = None\<rparr>]\<rparr>],
      feedback_docs = [], audios = []\<rparr>,
      [QuestionCompletion ''The kite'' ''A kite flew away.''])"
    by (simp add: create_assignment_def ObjectId_def is_hex_def hex_lower_def
        generate_questions_def clean_markdown_def py_strip_def py_isspace_def
        fence_json_def fence_def starts_with_def questions_field_def validate_question_def Let_def)
  show ?thesis
    by (rule create_assignment_idempotent [OF first])
qed

lemma validate_question_list_length:
  "validate_question_list items = Inr qs \<Longrightarrow>
     length qs = length items \<and> (\<forall>i < length items. validate_question (items ! i) = Inr (qs ! i))"
proof (induction items arbitrary: qs)
  case Nil
  then show ?case by simp
next
  case (Cons item items)
  from Cons.prems obtain q qs' where q: "validate_question item = Inr q"
    and rest: "validate_question_list items = Inr qs'" and qs: "qs = q # qs'"
    by (cases "validate_question item"; cases "validate_question_list items") auto
  from Cons.IH [OF rest] q qs show ?case
    by (auto simp: nth_Cons split: nat.splits)
qed

lemma validate_question_list_error:
  "item \<in> set items \<Longrightarrow> validate_question item = Inl e \<Longrightarrow>
     \<exists>e'. validate_question_list items = Inl e'"
proof (induction items)
  case Nil
  then show ?case by simp
next
  case (Cons x items)
  show ?case
  proof (cases "validate_question x")
    case (Inl a)
    then show ?thesis by simp
  next
    case (Inr q)
    with Cons.prems have "item \<in> set items" by auto
    from Cons.IH [OF this Cons.prems(2)] Inr show ?thesis by auto
  qed
qed

lemma validate_question_fields:
  "validate_question item = Inr q \<Longrightarrow>
     \<exists>kvs. item = JObj kvs \<and> map_of kvs ''question'' = Some (JStr (question q))
        \<and> map_of kvs ''answer'' = Some (JStr (answer q))"
  by (auto simp: validate_question_def split: json.splits option.splits)

text \<open>
  Claim C6, as stated, fails: a completion response that parses to a single question is
  returned by \<open>generate_questions\<close> as it is, with no error.
\<close>

theorem generate_questions_returns_fewer_than_five:
  "fst (generate_questions
          (\<lambda>s. if s = ''{\"questions\": [{\"question\": \"What was lost?\", \"answer\": \"A kite\", \"userAnswer\": \"\"}]}'' then Some (JObj [(''questions'', JArr [JObj [(''question'', JStr ''What was lost?''), (''answer'', JStr ''A kite''), (''userAnswer'', JStr [])]])]) else None)
          (\<lambda>t w. Inr ''{\"questions\": [{\"question\": \"What was lost?\", \"answer\": \"A kite\", \"userAnswer\": \"\"}]}'')
          [JObj [(''pageText'', JStr ''A kite flew away.'')]] ''The kite'')
   = Inr (JObj [(''questions'', JArr [JObj [(''question'', JStr ''What was lost?''), (''answer'', JStr ''A kite''), (''userAnswer'', JStr [])]])])"
  by (simp add: generate_questions_def clean_markdown_def py_strip_def py_isspace_def
        fence_json_def fence_def starts_with_def)

lemma validate_question_list_all:
  "\<forall>item \<in> set items. \<exists>q. validate_question item = Inr q \<Longrightarrow>
     \<exists>qs. validate_question_list items = Inr qs"
  by (induction items) auto

text \<open>
  Claim C6, amended. \<open>generate_questions\<close> returns the JSON document the completion
  response parses to, unchanged: it does not count or check the questions (five are only
  asked for in the prompt), so it never pads or truncates them. A response that does not
  parse as JSON is a hard error. The \<open>questions\<close> field of such a document validates
  to the entries, one for one and in order, each holding the entry's string
  \<open>question\<close> and string \<open>answer\<close>; an entry that fails validation makes the
  whole list an error. So does \<open>create_assignment\<close>: when it has to generate and the
  response parses to an object with a \<open>questions\<close> list, then, if every entry
  validates, the assignment it returns and stores holds exactly the validated entries,
  as many as the list has and in its order, and if some entry does not validate, it
  fails with "Failed to create assignment: ..." and stores nothing.
\<close>

theorem generate_questions_passes_parsed_json:
  "(page_texts pages = Inr texts \<and> chat title (py_join '' '' texts) = Inr response
      \<and> clean_markdown (py_replace [CHR 0x0A] [] (py_replace [CHR 0x0D, CHR 0x0A] []
            (py_strip response))) = Inr cleaned \<longrightarrow>
      (loads cleaned = None \<longrightarrow>
         fst (generate_questions loads chat pages title)
           = Inl (Failed ''Failed to generate questions''
                   (Failed ''Failed to parse questions'' JSONDecodeError)))
    \<and> (\<forall>j. loads cleaned = Some j \<longrightarrow>
           fst (generate_questions loads chat pages title) = Inr j))
   \<and> (\<forall>items qs. map_of kvs ''questions'' = Some (JArr items)
          \<and> questions_field (JObj kvs) = Inr qs \<longrightarrow>
        length qs = length items
        \<and> (\<forall>i < length items. validate_question (items ! i) = Inr (qs ! i)))
   \<and> (\<forall>items. map_of kvs ''questions'' = Some (JArr items)
          \<and> (\<exists>item \<in> set items. \<exists>e. validate_question item = Inl e) \<longrightarrow>
        (\<exists>e. questions_field (JObj kvs) = Inl e))
   \<and> (\<forall>item q. validate_question item = Inr q \<longrightarrow>
        (\<exists>fields. item = JObj fields \<and> map_of fields ''question'' = Some (JStr (question q))
           \<and> map_of fields ''answer'' = Some (JStr (answer q))))
   \<and> (ObjectId sid = Inr key
        \<and> find (\<lambda>a. a_sid a = key \<and> a_uid a = user_id) (assignments db) = None
        \<and> find (\<lambda>s. story_id s = key) (stories db) = Some story
        \<and> question_chat cap (story_title story)
              (py_join '' '' (map page_text (story_content story))) = Inr reply
        \<and> clean_markdown (py_replace [CHR 0x0A] [] (py_replace [CHR 0x0D, CHR 0x0A] []
              (py_strip reply))) = Inr body
        \<and> json_loads cap body = Some (JObj dict)
        \<and> map_of dict ''questions'' = Some (JArr entries) \<longrightarrow>
        ((\<forall>item \<in> set entries. \<exists>q. validate_question item = Inr q) \<longrightarrow>
           (\<exists>qs. create_assignment cap new_id db sid user_id
                  = (Inr \<lparr>assignment_id = new_id, a_sid = key, a_uid = user_id,
                           questions = qs\<rparr>,
                     db\<lparr>assignments := assignments db
                          @ [\<lparr>assignment_id = new_id, a_sid = key, a_uid = user_id,
                               questions = qs\<rparr>]\<rparr>,
                     [QuestionCompletion (story_title story)
                        (py_join '' '' (map page_text (story_content story)))])
                \<and> length qs = length entries
                \<and> (\<forall>i < length entries. validate_question (entries ! i) = Inr (qs ! i))))
      \<and> ((\<exists>item \<in> set entries. \<exists>e. validate_question item = Inl e) \<longrightarrow>
           (\<exists>e. create_assignment cap new_id db sid user_id
                  = (Inl (Failed ''Failed to create assignment'' e), db,
                     [QuestionCompletion (story_title story)
                        (py_join '' '' (map page_text (story_content story)))]))))"
proof (intro conjI impI allI)
  assume h: "page_texts pages = Inr texts \<and> chat title (py_join '' '' texts) = Inr response
      \<and> clean_markdown (py_replace [CHR 0x0A] [] (py_replace [CHR 0x0D, CHR 0x0A] []
            (py_strip response))) = Inr cleaned"
    and n: "loads cleaned = None"
  then show "fst (generate_questions loads chat pages title)
           = Inl (Failed ''Failed to generate questions''
                   (Failed ''Failed to parse questions'' JSONDecodeError))"
    by (simp add: generate_questions_def Let_def)
next
  fix j
  assume h: "page_texts pages = Inr texts \<and> chat title (py_join '' '' texts) = Inr response
      \<and> clean_markdown (py_replace [CHR 0x0A] [] (py_replace [CHR 0x0D, CHR 0x0A] []
            (py_strip response))) = Inr cleaned"
    and n: "loads cleaned = Some j"
  then show "fst (generate_questions loads chat pages title) = Inr j"
    by (simp add: generate_questions_def Let_def)
next
  fix items qs
  assume h: "map_of kvs ''questions'' = Some (JArr items) \<and> questions_field (JObj kvs) = Inr qs"
  then have v: "validate_question_list items = Inr qs"
    by (auto simp: questions_field_def)
  from validate_question_list_length [OF v] show "length qs = length items" by simp
  fix i
  assume "i < length items"
  with validate_question_list_length [OF v] show "validate_question (items ! i) = Inr (qs ! i)"
    by simp
next
  fix items
  assume h: "map_of kvs ''questions'' = Some (JArr items)
          \<and> (\<exists>item \<in> set items. \<exists>e. validate_question item = Inl e)"
  then obtain e' where "validate_question_list items = Inl e'"
    using validate_question_list_error by blast
  with h show "\<exists>e. questions_field (JObj kvs) = Inl e"
    by (auto simp: questions_field_def)
next
  fix item q
  assume "validate_question item = Inr q"
  then show "\<exists>fields. item = JObj fields \<and> map_of fields ''question'' = Some (JStr (question q))
           \<and> map_of fields ''answer'' = Some (JStr (answer q))"
    by (rule validate_question_fields)
next
  assume h: "ObjectId sid = Inr key
        \<and> find (\<lambda>a. a_sid a = key \<and> a_uid a = user_id) (assignments db) = None
        \<and> find (\<lambda>s. story_id s = key) (stories db) = Some story
        \<and> question_chat cap (story_title story)
              (py_join '' '' (map page_text (story_content story))) = Inr reply
        \<and> clean_markdown (py_replace [CHR 0x0A] [] (py_replace [CHR 0x0D, CHR 0x0A] []
              (py_strip reply))) = Inr body
        \<and> json_loads cap body = Some (JObj dict)
        \<and> map_of dict ''questions'' = Some (JArr entries)"
    and ok: "\<forall>item \<in> set entries. \<exists>q. validate_question item = Inr q"
  from h have k: "ObjectId sid = Inr key"
    and n: "find (\<lambda>a. a_sid a = key \<and> a_uid a = user_id) (assignments db) = None"
    and s: "find (\<lambda>s. story_id s = key) (stories db) = Some story"
    and c: "question_chat cap (story_title story)
              (py_join '' '' (map page_text (story_content story))) = Inr reply"
    and m: "clean_markdown (py_replace [CHR 0x0A] [] (py_replace [CHR 0x0D, CHR 0x0A] []
              (py_strip reply))) = Inr body"
    and l: "json_loads cap body = Some (JObj dict)"
    and f: "map_of dict ''questions'' = Some (JArr entries)" by simp_all
  from validate_question_list_all [OF ok] obtain qs where v: "validate_question_list entries = Inr qs"
    by blast
  from f v have q: "questions_field (JObj dict) = Inr qs"
    by (simp add: questions_field_def)
  have "create_assignment cap new_id db sid user_id
                  = (Inr \<lparr>assignment_id = new_id, a_sid = key, a_uid = user_id,
                           questions = qs\<rparr>,
                     db\<lparr>assignments := assignments db
                          @ [\<lparr>assignment_id = new_id, a_sid = key, a_uid = user_id,
                               questions = qs\<rparr>]\<rparr>,
                     [QuestionCompletion (story_title story)
                        (py_join '' '' (map page_text (story_content story)))])"
    by (simp add: create_assignment_new [OF k n s] generate_questions_of_story
          [where chat = "question_chat cap" and loads = "json_loads cap", OF c m l] q)
  with validate_question_list_length [OF v]
  show "\<exists>qs. create_assignment cap new_id db sid user_id
                  = (Inr \<lparr>assignment_id = new_id, a_sid = key, a_uid = user_id,
                           questions = qs\<rparr>,
                     db\<lparr>assignments := assignments db
                          @ [\<lparr>assignment_id = new_id, a_sid = key, a_uid = user_id,
                               questions = qs\<rparr>]\<rparr>,
                     [QuestionCompletion (story_title story)
                        (py_join '' '' (map page_text (story_content story)))])
                \<and> length qs = length entries
                \<and> (\<forall>i < length entries. validate_question (entries ! i) = Inr (qs ! i))"
    by blast
next
  assume h: "ObjectId sid = Inr key
        \<and> find (\<lambda>a. a_sid a = key \<and> a_uid a = user_id) (assignments db) = None
        \<and> find (\<lambda>s. story_id s = key) (stories db) = Some story
        \<and> question_chat cap (story_title story)
              (py_join '' '' (map page_text (story_content story))) = Inr reply
        \<and> clean_markdown (py_replace [CHR 0x0A] [] (py_replace [CHR 0x0D, CHR 0x0A] []
              (py_strip reply))) = Inr body
        \<and> json_loads cap body = Some (JObj dict)
        \<and> map_of dict ''questions'' = Some (JArr entries)"
    and bad: "\<exists>item \<in> set entries. \<exists>e. validate_question item = Inl e"
  from h have k: "ObjectId sid = Inr key"
    and n: "find (\<lambda>a. a_sid a = key \<and> a_uid a = user_id) (assignments db) = None"
    and s: "find (\<lambda>s. story_id s = key) (stories db) = Some story"
    and c: "question_chat cap (story_title story)
              (py_join '' '' (map page_text (story_content story))) = Inr reply"
    and m: "clean_markdown (py_replace [CHR 0x0A] [] (py_replace [CHR 0x0D, CHR 0x0A] []
              (py_strip reply))) = Inr body"
    and l: "json_loads cap body = Some (JObj dict)"
    and f: "map_of dict ''questions'' = Some (JArr entries)" by simp_all
  from bad obtain e where v: "validate_question_list entries = Inl e"
    using validate_question_list_error by blast
  from f v have q: "questions_field (JObj dict) = Inl e"
    by (simp add: questions_field_def)
  have "create_assignment cap new_id db sid user_id
                  = (Inl (Failed ''Failed to create assignment'' e), db,
                     [QuestionCompletion (story_title story)
                        (py_join '' '' (map page_text (story_content story)))])"
    by (simp add: create_assignment_new [OF k n s] generate_questions_of_story
          [where chat = "question_chat cap" and loads = "json_loads cap", OF c m l] q)
  then show "\<exists>e. create_assignment cap new_id db sid user_id
                  = (Inl (Failed ''Failed to create assignment'' e), db,
                     [QuestionCompletion (story_title story)
                        (py_join '' '' (map page_text (story_content story)))])"
    by blast
qed

text \<open>
  The theorem at a response holding two questions: \<open>generate_questions\<close> returns the
  parsed document, its two entries validate to two questions, and \<open>create_assignment\<close>
  stores exactly these two, in order. At a response whose second entry has no answer,
  \<open>create_assignment\<close> fails and stores nothing.
\<close>

theorem generate_questions_passes_parsed_json_witness:
  "fst (generate_questions
          (\<lambda>s. if s = ''{\"questions\": [{\"question\": \"Where did it land?\", \"answer\": \"In a tree\", \"userAnswer\": \"\"}, {\"question\": \"Who found it?\", \"answer\": \"Ben\", \"userAnswer\": \"\"}]}'' then Some (JObj [(''questions'', JArr [JObj [(''question'', JStr ''Where did it land?''), (''answer'', JStr ''In a tree''), (''userAnswer'', JStr [])], JObj [(''question'', JStr ''Who found it?''), (''answer'', JStr ''Ben''), (''userAnswer'', JStr [])]])]) else None)
          (\<lambda>t w. Inr ''{\"questions\": [{\"question\": \"Where did it land?\", \"answer\": \"In a tree\", \"userAnswer\": \"\"}, {\"question\": \"Who found it?\", \"answer\": \"Ben\", \"userAnswer\": \"\"}]}'')
          [JObj [(''pageText'', JStr ''A kite flew away.'')]] ''The kite'')
     = Inr (JObj [(''questions'', JArr [JObj [(''question'', JStr ''Where did it land?''), (''answer'', JStr ''In a tree''), (''userAnswer'', JStr [])], JObj [(''question'', JStr ''Who found it?''), (''answer'', JStr ''Ben''), (''userAnswer'', JStr [])]])])
   \<and> questions_field (JObj [(''questions'', JArr [JObj [(''question'', JStr ''Where did it land?''), (''answer'', JStr ''In a tree''), (''userAnswer'', JStr [])], JObj [(''question'', JStr ''Who found it?''), (''answer'', JStr ''Ben''), (''userAnswer'', JStr [])]])])
     = Inr [\<lparr>question = ''Where did it land?'', answer = ''In a tree'', user_answer = None\<rparr>, \<lparr>question = ''Who found it?'', answer = ''Ben'', user_answer = None\<rparr>]
   \<and> create_assignment
        \<lparr>json_loads = (\<lambda>s. if s = ''{\"questions\": [{\"question\": \"Where did it land?\", \"answer\": \"In a tree\", \"userAnswer\": \"\"}, {\"question\": \"Who found it?\", \"answer\": \"Ben\", \"userAnswer\": \"\"}]}'' then Some (JObj [(''questions'', JArr [JObj [(''question'', JStr ''Where did it land?''), (''answer'', JStr ''In a tree''), (''userAnswer'', JStr [])], JObj [(''question'', JStr ''Who found it?''), (''answer'', JStr ''Ben''), (''userAnswer'', JStr [])]])]) else None),
      similarity_search = (\<lambda>q k. Inr []), split_text = (\<lambda>t. [t]),
      add_documents = (\<lambda>ds. None),
      story_llm = (\<lambda>st. Inl (UpstreamError ''no completion'')),
      question_chat = (\<lambda>t w. Inr ''{\"questions\": [{\"question\": \"Where did it land?\", \"answer\": \"In a tree\", \"userAnswer\": \"\"}, {\"question\": \"Who found it?\", \"answer\": \"Ben\", \"userAnswer\": \"\"}]}''),
      feedback_chat = (\<lambda>qs w. Inl (UpstreamError ''no completion'')),
      generate_image = (\<lambda>t a s. None), copy_image = (\<lambda>u. None),
      validate_int = (\<lambda>j. case j of JNum n \<Rightarrow> Some n | _ \<Rightarrow> None)\<rparr>
        ''cccccccccccccccccccccccc''
        \<lparr>stories = [\<lparr>story_id = ''111111111111111111111111'', story_title = ''The kite'',
       story_description = ''A kite gets lost'', story_content = [\<lparr>page_text = ''A kite flew away.'', page_image = None\<rparr>],
       story_author = ''Ann'', created_by = ''aaaaaaaaaaaaaaaaaaaaaaaa'', max_pages = 2\<rparr>], assignments = [],
      feedback_docs = [], audios = []\<rparr>
        ''111111111111111111111111'' ''aaaaaaaaaaaaaaaaaaaaaaaa''
     = (Inr \<lparr>assignment_id = ''cccccccccccccccccccccccc'', a_sid = ''111111111111111111111111'', a_uid = ''aaaaaaaaaaaaaaaaaaaaaaaa'',
       questions = [\<lparr>question = ''Where did it land?'', answer = ''In a tree'', user_answer = None\<rparr>, \<lparr>question = ''Who found it?'', answer = ''Ben'', user_answer = None\<rparr>]\<rparr>,
        \<lparr>stories = [\<lparr>story_id = ''111111111111111111111111'', story_title = ''The kite'',
       story_description = ''A kite gets lost'', story_content = [\<lparr>page_text = ''A kite flew away.'', page_image = None\<rparr>],
       story_author = ''Ann'', created_by = ''aaaaaaaaaaaaaaaaaaaaaaaa'', max_pages = 2\<rparr>], assignments = [\<lparr>assignment_id = ''cccccccccccccccccccccccc'', a_sid = ''111111111111111111111111'', a_uid = ''aaaaaaaaaaaaaaaaaaaaaaaa'',
       questions = [\<lparr>question = ''Where did it land?'', answer = ''In a tree'', user_answer = None\<rparr>, \<lparr>question = ''Who found it?'', answer = ''Ben'', user_answer = None\<rparr>]\<rparr>],
      feedback_docs = [], audios = []\<rparr>,
        [QuestionCompletion ''The kite'' ''A kite flew away.''])
   \<and> create_assignment
        \<lparr>json_loads = (\<lambda>s. if s = ''{\"questions\": [{\"question\": \"Where did it land?\", \"answer\": \"In a tree\", \"userAnswer\": \"\"}, {\"question\": \"Who found it?\"}]}'' then Some (JObj [(''questions'', JArr [JObj [(''question'', JStr ''Where did it land?''), (''answer'', JStr ''In a tree''), (''userAnswer'', JStr [])], JObj [(''question'', JStr ''Who found it?'')]])]) else None),
      similarity_search = (\<lambda>q k. Inr []), split_text = (\<lambda>t. [t]),
      add_documents = (\<lambda>ds. None),
      story_llm = (\<lambda>st. Inl (UpstreamError ''no completion'')),
      question_chat = (\<lambda>t w. Inr ''{\"questions\": [{\"question\": \"Where did it land?\", \"answer\": \"In a tree\", \"userAnswer\": \"\"}, {\"question\": \"Who found it?\"}]}''),
      feedback_chat = (\<lambda>qs w. Inl (UpstreamError ''no completion'')),
      generate_image = (\<lambda>t a s. None), copy_image = (\<lambda>u. None),
      validate_int = (\<lambda>j. case j of JNum n \<Rightarrow> Some n | _ \<Rightarrow> None)\<rparr>
        ''cccccccccccccccccccccccc''
        \<lparr>stories = [\<lparr>story_id = ''111111111111111111111111'', story_title = ''The kite'',
       story_description = ''A kite gets lost'', story_content = [\<lparr>page_text = ''A kite flew away.'', page_image = None\<rparr>],
       story_author = ''Ann'', created_by = ''aaaaaaaaaaaaaaaaaaaaaaaa'', max_pages = 2\<rparr>], assignments = [],
      feedback_docs = [], audios = []\<rparr>
        ''111111111111111111111111'' ''aaaaaaaaaaaaaaaaaaaaaaaa''
     = (Inl (Failed ''Failed to create assignment'' ValidationError),
        \<lparr>stories = [\<lparr>story_id = ''111111111111111111111111'', story_title = ''The kite'',
       story_description = ''A kite gets lost'', story_content = [\<lparr>page_text = ''A kite flew away.'', page_image = None\<rparr>],
       story_author = ''Ann'', created_by = ''aaaaaaaaaaaaaaaaaaaaaaaa'', max_pages = 2\<rparr>], assignments = [],
      feedback_docs = [], audios = []\<rparr>,
        [QuestionCompletion ''The kite'' ''A kite flew away.''])"
proof -
  let ?resp = "''{\"questions\": [{\"question\": \"Where did it land?\", \"answer\": \"In a tree\", \"userAnswer\": \"\"}, {\"question\": \"Who found it?\", \"answer\": \"Ben\", \"userAnswer\": \"\"}]}''"
  let ?loads = "(\<lambda>s. if s = ''{\"questions\": [{\"question\": \"Where did it land?\", \"answer\": \"In a tree\", \"userAnswer\": \"\"}, {\"question\": \"Who found it?\", \"answer\": \"Ben\", \"userAnswer\": \"\"}]}'' then Some (JObj [(''questions'', JArr [JObj [(''question'', JStr ''Where did it land?''), (''answer'', JStr ''In a tree''), (''userAnswer'', JStr [])], JObj [(''question'', JStr ''Who found it?''), (''answer'', JStr ''Ben''), (''userAnswer'', JStr [])]])]) else None)"
  let ?chat = "(\<lambda>t w. Inr ''{\"questions\": [{\"question\": \"Where did it land?\", \"answer\": \"In a tree\", \"userAnswer\": \"\"}, {\"question\": \"Who found it?\", \"answer\": \"Ben\", \"userAnswer\": \"\"}]}'') :: string \<Rightarrow> string \<Rightarrow> error + string"
  let ?pages = "[JObj [(''pageText'', JStr ''A kite flew away.'')]]"
  let ?items = "[JObj [(''question'', JStr ''Where did it land?''), (''answer'', JStr ''In a tree''), (''userAnswer'', JStr [])], JObj [(''question'', JStr ''Who found it?''), (''answer'', JStr ''Ben''), (''userAnswer'', JStr [])]]"
  let ?kvs = "[(''questions'', JArr ?items)]"
  let ?qs = "[\<lparr>question = ''Where did it land?'', answer = ''In a tree'', user_answer = None\<rparr>, \<lparr>question = ''Who found it?'', answer = ''Ben'', user_answer = None\<rparr>]"
  let ?story = "\<lparr>story_id = ''111111111111111111111111'', story_title = ''The kite'',
       story_description = ''A kite gets lost'', story_content = [\<lparr>page_text = ''A kite flew away.'', page_image = None\<rparr>],
       story_author = ''Ann'', created_by = ''aaaaaaaaaaaaaaaaaaaaaaaa'', max_pages = 2\<rparr>"
  let ?db = "\<lparr>stories = [\<lparr>story_id = ''111111111111111111111111'', story_title = ''The kite'',
       story_description = ''A kite gets lost'', story_content = [\<lparr>page_text = ''A kite flew away.'', page_image = None\<rparr>],
       story_author = ''Ann'', created_by = ''aaaaaaaaaaaaaaaaaaaaaaaa'', max_pages = 2\<rparr>], assignments = [],
      feedback_docs = [], audios = []\<rparr>"
  let ?cap = "\<lparr>json_loads = (\<lambda>s. if s = ''{\"questions\": [{\"question\": \"Where did it land?\", \"answer\": \"In a tree\", \"userAnswer\": \"\"}, {\"question\": \"Who found it?\", \"answer\": \"Ben\", \"userAnswer\": \"\"}]}'' then Some (JObj [(''questions'', JArr [JObj [(''question'', JStr ''Where did it land?''), (''answer'', JStr ''In a tree''), (''userAnswer'', JStr [])], JObj [(''question'', JStr ''Who found it?''), (''answer'', JStr ''Ben''), (''userAnswer'', JStr [])]])]) else None),
      similarity_search = (\<lambda>q k. Inr []), split_text = (\<lambda>t. [t]),
      add_documents = (\<lambda>ds. None),
      story_llm = (\<lambda>st. Inl (UpstreamError ''no completion'')),
      question_chat = (\<lambda>t w. Inr ''{\"questions\": [{\"question\": \"Where did it land?\", \"answer\": \"In a tree\", \"userAnswer\": \"\"}, {\"question\": \"Who found it?\", \"answer\": \"Ben\", \"userAnswer\": \"\"}]}''),
      feedback_chat = (\<lambda>qs w. Inl (UpstreamError ''no completion'')),
      generate_image = (\<lambda>t a s. None), copy_image = (\<lambda>u. None),
      validate_int = (\<lambda>j. case j of JNum n \<Rightarrow> Some n | _ \<Rightarrow> None)\<rparr>"
  let ?bad = "''{\"questions\": [{\"question\": \"Where did it land?\", \"answer\": \"In a tree\", \"userAnswer\": \"\"}, {\"question\": \"Who found it?\"}]}''"
  let ?baditems = "[JObj [(''question'', JStr ''Where did it land?''), (''answer'', JStr ''In a tree''), (''userAnswer'', JStr [])], JObj [(''question'', JStr ''Who found it?'')]]"
  let ?badkvs = "[(''questions'', JArr ?baditems)]"
  let ?capbad = "\<lparr>json_loads = (\<lambda>s. if s = ''{\"questions\": [{\"question\": \"Where did it land?\", \"answer\": \"In a tree\", \"userAnswer\": \"\"}, {\"question\": \"Who found it?\"}]}'' then Some (JObj [(''questions'', JArr [JObj [(''question'', JStr ''Where did it land?''), (''answer'', JStr ''In a tree''), (''userAnswer'', JStr [])], JObj [(''question'', JStr ''Who found it?'')]])]) else None),
      similarity_search = (\<lambda>q k. Inr []), split_text = (\<lambda>t. [t]),
      add_documents = (\<lambda>ds. None),
      story_llm = (\<lambda>st. Inl (UpstreamError ''no completion'')),
      question_chat = (\<lambda>t w. Inr ''{\"questions\": [{\"question\": \"Where did it land?\", \"answer\": \"In a tree\", \"userAnswer\": \"\"}, {\"question\": \"Who found it?\"}]}''),
      feedback_chat = (\<lambda>qs w. Inl (UpstreamError ''no completion'')),
      generate_image = (\<lambda>t a s. None), copy_image = (\<lambda>u. None),
      validate_int = (\<lambda>j. case j of JNum n \<Rightarrow> Some n | _ \<Rightarrow> None)\<rparr>"
  have clean: "clean_markdown (py_replace [CHR 0x0A] [] (py_replace [CHR 0x0D, CHR 0x0A] []
            (py_strip ?resp))) = Inr ?resp"
    by (simp add: clean_markdown_def py_strip_def py_isspace_def
          fence_json_def fence_def starts_with_def)
  have cleanbad: "clean_markdown (py_replace [CHR 0x0A] [] (py_replace [CHR 0x0D, CHR 0x0A] []
            (py_strip ?bad))) = Inr ?bad"
    by (simp add: clean_markdown_def py_strip_def py_isspace_def
          fence_json_def fence_def starts_with_def)
  have hyp: "page_texts ?pages = Inr [''A kite flew away.'']
      \<and> ?chat ''The kite'' (py_join '' '' [''A kite flew away.'']) = Inr ?resp
      \<and> clean_markdown (py_replace [CHR 0x0A] [] (py_replace [CHR 0x0D, CHR 0x0A] []
            (py_strip ?resp))) = Inr ?resp"
    by (simp add: clean)
  have ld: "?loads ?resp = Some (JObj ?kvs)"
    by simp
  have v1: "validate_question (?items ! 0) = Inr (?qs ! 0)"
    and v2: "validate_question (?items ! 1) = Inr (?qs ! 1)"
    and b2: "validate_question (?baditems ! 1) = Inl ValidationError"
    by (simp_all add: validate_question_def)
  have qf: "map_of ?kvs ''questions'' = Some (JArr ?items) \<and> questions_field (JObj ?kvs) = Inr ?qs"
    by (simp add: questions_field_def validate_question_def)
  have k: "ObjectId ''111111111111111111111111'' = Inr ''111111111111111111111111''"
    by (simp add: ObjectId_def is_hex_def hex_lower_def)
  have h5: "ObjectId ''111111111111111111111111'' = Inr ''111111111111111111111111''
        \<and> find (\<lambda>a. a_sid a = ''111111111111111111111111'' \<and> a_uid a = ''aaaaaaaaaaaaaaaaaaaaaaaa'') (assignments ?db) = None
        \<and> find (\<lambda>s. story_id s = ''111111111111111111111111'') (stories ?db) = Some ?story
        \<and> question_chat ?cap (story_title ?story)
              (py_join '' '' (map page_text (story_content ?story))) = Inr ?resp
        \<and> clean_markdown (py_replace [CHR 0x0A] [] (py_replace [CHR 0x0D, CHR 0x0A] []
              (py_strip ?resp))) = Inr ?resp
        \<and> json_loads ?cap ?resp = Some (JObj ?kvs)
        \<and> map_of ?kvs ''questions'' = Some (JArr ?items)"
    by (simp add: k clean)
  have h5bad: "ObjectId ''111111111111111111111111'' = Inr ''111111111111111111111111''
        \<and> find (\<lambda>a. a_sid a = ''111111111111111111111111'' \<and> a_uid a = ''aaaaaaaaaaaaaaaaaaaaaaaa'') (assignments ?db) = None
        \<and> find (\<lambda>s. story_id s = ''111111111111111111111111'') (stories ?db) = Some ?story
        \<and> question_chat ?capbad (story_title ?story)
              (py_join '' '' (map page_text (story_content ?story))) = Inr ?bad
        \<and> clean_markdown (py_replace [CHR 0x0A] [] (py_replace [CHR 0x0D, CHR 0x0A] []
              (py_strip ?bad))) = Inr ?bad
        \<and> json_loads ?capbad ?bad = Some (JObj ?badkvs)
        \<and> map_of ?badkvs ''questions'' = Some (JArr ?baditems)"
    by (simp add: k cleanbad)
  have allok: "\<forall>item \<in> set ?items. \<exists>q. validate_question item = Inr q"
    by (simp add: validate_question_def)
  have somebad: "\<exists>item \<in> set ?baditems. \<exists>e. validate_question item = Inl e"
    by (simp add: validate_question_def)
  note inst = generate_questions_passes_parsed_json
    [where pages = ?pages and texts = "[''A kite flew away.'']" and chat = ?chat
       and title = "''The kite''" and response = ?resp and cleaned = ?resp
       and loads = ?loads and kvs = ?kvs
       and sid = "''111111111111111111111111''" and key = "''111111111111111111111111''" and user_id = "''aaaaaaaaaaaaaaaaaaaaaaaa''" and db = ?db
       and story = ?story and cap = ?cap and reply = ?resp and body = ?resp
       and dict = ?kvs and entries = ?items and new_id = "''cccccccccccccccccccccccc''"]
  note instbad = generate_questions_passes_parsed_json
    [where sid = "''111111111111111111111111''" and key = "''111111111111111111111111''" and user_id = "''aaaaaaaaaaaaaaaaaaaaaaaa''" and db = ?db
       and story = ?story and cap = ?capbad and reply = ?bad and body = ?bad
       and dict = ?badkvs and entries = ?baditems and new_id = "''cccccccccccccccccccccccc''"]
  from inst [THEN conjunct1, THEN mp, OF hyp, THEN conjunct2, THEN spec, THEN mp, OF ld]
  have a: "fst (generate_questions ?loads ?chat ?pages ''The kite'') = Inr (JObj ?kvs)" .
  from inst [THEN conjunct2, THEN conjunct2, THEN conjunct2, THEN conjunct2, THEN mp, OF h5,
      THEN conjunct1, THEN mp, OF allok]
  obtain qs where run: "create_assignment ?cap ''cccccccccccccccccccccccc'' ?db ''111111111111111111111111'' ''aaaaaaaaaaaaaaaaaaaaaaaa''
                  = (Inr \<lparr>assignment_id = ''cccccccccccccccccccccccc'', a_sid = ''111111111111111111111111'', a_uid = ''aaaaaaaaaaaaaaaaaaaaaaaa'',
                           questions = qs\<rparr>,
                     ?db\<lparr>assignments := assignments ?db
                          @ [\<lparr>assignment_id = ''cccccccccccccccccccccccc'', a_sid = ''111111111111111111111111'', a_uid = ''aaaaaaaaaaaaaaaaaaaaaaaa'',
                               questions = qs\<rparr>]\<rparr>,
                     [QuestionCompletion (story_title ?story)
                        (py_join '' '' (map page_text (story_content ?story)))])"
    and len: "length qs = length ?items"
    and each: "\<forall>i < length ?items. validate_question (?items ! i) = Inr (qs ! i)"
    by blast
  from each [THEN spec, of 0] each [THEN spec, of 1]
  have "validate_question (?items ! 0) = Inr (qs ! 0)"
    and "validate_question (?items ! 1) = Inr (qs ! 1)"
    by simp_all
  with v1 v2 have "qs ! 0 = ?qs ! 0" and "qs ! 1 = ?qs ! 1"
    by simp_all
  with len have qs: "qs = ?qs"
    by (auto simp: list_eq_iff_nth_eq less_Suc_eq)
  have c: "create_assignment ?cap ''cccccccccccccccccccccccc'' ?db ''111111111111111111111111'' ''aaaaaaaaaaaaaaaaaaaaaaaa''
     = (Inr \<lparr>assignment_id = ''cccccccccccccccccccccccc'', a_sid = ''111111111111111111111111'', a_uid = ''aaaaaaaaaaaaaaaaaaaaaaaa'',
       questions = [\<lparr>question = ''Where did it land?'', answer = ''In a tree'', user_answer = None\<rparr>, \<lparr>question = ''Who found it?'', answer = ''Ben'', user_answer = None\<rparr>]\<rparr>,
        \<lparr>stories = [\<lparr>story_id = ''111111111111111111111111'', story_title = ''The kite'',
       story_description = ''A kite gets lost'', story_content = [\<lparr>page_text = ''A kite flew away.'', page_image = None\<rparr>],
       story_author = ''Ann'', created_by = ''aaaaaaaaaaaaaaaaaaaaaaaa'', max_pages = 2\<rparr>], assignments = [\<lparr>assignment_id = ''cccccccccccccccccccccccc'', a_sid = ''111111111111111111111111'', a_uid = ''aaaaaaaaaaaaaaaaaaaaaaaa'',
       questions = [\<lparr>question = ''Where did it land?'', answer = ''In a tree'', user_answer = None\<rparr>, \<lparr>question = ''Who found it?'', answer = ''Ben'', user_answer = None\<rparr>]\<rparr>],
      feedback_docs = [], audios = []\<rparr>,
        [QuestionCompletion ''The kite'' ''A kite flew away.''])"
    unfolding run qs by simp
  from instbad [THEN conjunct2, THEN conjunct2, THEN conjunct2, THEN conjunct2, THEN mp,
      OF h5bad, THEN conjunct2, THEN mp, OF somebad]
  obtain e where runbad: "create_assignment ?capbad ''cccccccccccccccccccccccc'' ?db ''111111111111111111111111'' ''aaaaaaaaaaaaaaaaaaaaaaaa''
                  = (Inl (Failed ''Failed to create assignment'' e), ?db,
                     [QuestionCompletion (story_title ?story)
                        (py_join '' '' (map page_text (story_content ?story)))])"
    by blast
  have n: "find (\<lambda>a. a_sid a = ''111111111111111111111111'' \<and> a_uid a = ''aaaaaaaaaaaaaaaaaaaaaaaa'') (assignments ?db) = None"
    and s: "find (\<lambda>s. story_id s = ''111111111111111111111111'') (stories ?db) = Some ?story"
    by simp_all
  have gbad: "fst (generate_questions (json_loads ?capbad) (question_chat ?capbad)
                 (map (\<lambda>page. JObj [(''pageText'', JStr (page_text page))]) (story_content ?story))
                 (story_title ?story)) = Inr (JObj ?badkvs)"
    by (rule generate_questions_of_story [where response = ?bad and cleaned = ?bad])
       (simp_all add: cleanbad)
  have qbad: "questions_field (JObj ?badkvs) = Inl ValidationError"
    by (simp add: questions_field_def validate_question_def)
  have direct: "fst (create_assignment ?capbad ''cccccccccccccccccccccccc'' ?db ''111111111111111111111111'' ''aaaaaaaaaaaaaaaaaaaaaaaa'')
      = Inl (Failed ''Failed to create assignment'' ValidationError)"
    by (simp only: create_assignment_new [OF k n s] gbad qbad sum.case fst_conv)
  with runbad have e: "e = ValidationError"
    by simp
  have d: "create_assignment ?capbad ''cccccccccccccccccccccccc'' ?db ''111111111111111111111111'' ''aaaaaaaaaaaaaaaaaaaaaaaa''
     = (Inl (Failed ''Failed to create assignment'' ValidationError),
        \<lparr>stories = [\<lparr>story_id = ''111111111111111111111111'', story_title = ''The kite'',
       story_description = ''A kite gets lost'', story_content = [\<lparr>page_text = ''A kite flew away.'', page_image = None\<rparr>],
       story_author = ''Ann'', created_by = ''aaaaaaaaaaaaaaaaaaaaaaaa'', max_pages = 2\<rparr>], assignments = [],
      feedback_docs = [], audios = []\<rparr>,
        [QuestionCompletion ''The kite'' ''A kite flew away.''])"
    unfolding runbad e by simp
  from a qf c d show ?thesis by blast
qed

section \<open>Story creation: pages and image requests\<close>

lemma image_requests_append:
  "image_requests (xs @ ys) = image_requests xs @ image_requests ys"
  by (induction xs rule: image_requests.induct) simp_all

lemma image_requests_tasks:
  "image_requests (map (\<lambda>(idx, ptext). ImageRequest idx ptext) tasks) = tasks"
  by (induction tasks) auto

lemma image_requests_generation:
  "image_requests (snd (run_story_generation loads search llm title description age pages_max
      uid books history)) = []"
  by (simp add: run_story_generation_def retrieve_context_def retrieve_from_user_library_def
        generate_story_content_def Let_def split: prod.splits sum.splits)

lemma image_requests_index:
  "image_requests (snd (add_story_to_index splitter add sid title description content age extra)) = []"
  by (simp add: add_story_to_index_def Let_def)

lemma image_tasks_positions:
  "\<forall>p \<in> set pages. \<exists>kvs. p = JObj kvs \<Longrightarrow>
   image_tasks i pages
     = Inr (map (\<lambda>j. (j, projr (get_page_text (pages ! (j - i)))))
              (filter (\<lambda>j. j mod 3 \<noteq> 1) [i..<i + length pages]))"
proof (induction pages arbitrary: i)
  case Nil
  then show ?case by simp
next
  case (Cons p pages)
  then obtain kvs where p: "p = JObj kvs" by auto
  then obtain t where t: "get_page_text p = Inr t"
    by (cases "map_of kvs ''pageText''") (auto simp: get_page_text_def)
  from Cons.prems have rest: "\<forall>p \<in> set pages. \<exists>kvs. p = JObj kvs" by simp
  have ih: "image_tasks (i + 1) pages
     = Inr (map (\<lambda>j. (j, projr (get_page_text (pages ! (j - (i + 1))))))
              (filter (\<lambda>j. j mod 3 \<noteq> 1) [i + 1..<i + 1 + length pages]))"
    using Cons.IH [OF rest] .
  have shift: "map (\<lambda>j. (j, projr (get_page_text (pages ! (j - (i + 1))))))
              (filter (\<lambda>j. j mod 3 \<noteq> 1) [i + 1..<i + 1 + length pages])
      = map (\<lambda>j. (j, projr (get_page_text ((p # pages) ! (j - i)))))
              (filter (\<lambda>j. j mod 3 \<noteq> 1) [i + 1..<i + 1 + length pages])"
    by (rule map_cong) (auto simp: nth_Cons')
  have range: "[i..<i + length (p # pages)] = i # [i + 1..<i + 1 + length pages]"
    using upt_conv_Cons [of i "i + 1 + length pages"] by simp
  have m: "(i mod 3 = 0 \<or> i mod 3 = 2) = (i mod 3 \<noteq> 1)"
    by presburger
  show ?case
    unfolding range using t ih shift m by simp
qed

lemma build_contents_pages:
  "build_contents copy results i pages = Inr cs \<Longrightarrow>
     length cs = length pages
     \<and> (\<forall>j < length pages. get_page_text (pages ! j) = Inr (JStr (page_text (cs ! j))))"
proof (induction pages arbitrary: i cs)
  case Nil
  then show ?case by simp
next
  case (Cons p pages)
  from Cons.prems obtain t cs' where t: "get_page_text p = Inr (JStr t)"
    and rest: "build_contents copy results (i + 1) pages = Inr cs'"
    and cs: "page_text (hd cs) = t \<and> tl cs = cs' \<and> cs \<noteq> []"
    by (cases "get_page_text p"; cases "build_contents copy results (i + 1) pages")
       (auto simp: Let_def split: json.splits)
  from Cons.IH [OF rest] t cs show ?case
    by (cases cs) (auto simp: nth_Cons split: nat.splits)
qed

lemma image_tasks_non_object:
  "\<exists>p \<in> set pages. \<forall>kvs. p \<noteq> JObj kvs \<Longrightarrow> image_tasks i pages = Inl AttributeError"
proof (induction pages arbitrary: i)
  case Nil
  then show ?case by simp
next
  case (Cons p pages)
  show ?case
  proof (cases "\<exists>kvs. p = JObj kvs")
    case True
    then obtain kvs where p: "p = JObj kvs" by blast
    then obtain t where t: "get_page_text p = Inr t"
      by (cases "map_of kvs ''pageText''") (auto simp: get_page_text_def)
    from Cons.prems p have "\<exists>q \<in> set pages. \<forall>kvs. q \<noteq> JObj kvs" by auto
    from Cons.IH [OF this] t show ?thesis by simp
  next
    case False
    then have "get_page_text p = Inl AttributeError"
      by (cases p) (auto simp: get_page_text_def)
    then show ?thesis by simp
  qed
qed

text \<open>
  Claim C5, as stated, fails: the request asks for at most one page, the completion
  returns two, and the story is stored with both pages and \<open>max_pages = 1\<close>.
\<close>

theorem create_story_exceeds_max_pages:
  "fst (create_story
          \<lparr>json_loads = (\<lambda>s. if s = ''{\"storyContent\": [{\"pageText\": \"A kite flew away.\"}, {\"pageText\": \"It landed in a tree.\"}]}'' then Some (JObj [(''storyContent'', JArr [JObj [(''pageText'', JStr ''A kite flew away.'')], JObj [(''pageText'', JStr ''It landed in a tree.'')]])]) else None),
      similarity_search = (\<lambda>q k. Inr []), split_text = (\<lambda>t. [t]),
      add_documents = (\<lambda>ds. None),
      story_llm = (\<lambda>st. Inr ''{\"storyContent\": [{\"pageText\": \"A kite flew away.\"}, {\"pageText\": \"It landed in a tree.\"}]}''),
      question_chat = (\<lambda>t w. Inl (UpstreamError ''no completion'')),
      feedback_chat = (\<lambda>qs w. Inl (UpstreamError ''no completion'')),
      generate_image = (\<lambda>t a s. None), copy_image = (\<lambda>u. None),
      validate_int = (\<lambda>j. case j of JNum n \<Rightarrow> Some n | _ \<Rightarrow> None)\<rparr>
          ''cccccccccccccccccccccccc''
          \<lparr>stories = [], assignments = [],
      feedback_docs = [], audios = []\<rparr>
          \<lparr>req_story_title = ''The kite'', req_story_description = ''A kite gets lost'',
      req_max_pages = 1, include_image = False, req_child_age = 7,
      use_books_context = False, use_history_context = False\<rparr>
          ''aaaaaaaaaaaaaaaaaaaaaaaa'' ''Ann'')
     = Inr \<lparr>story_id = ''cccccccccccccccccccccccc'', story_title = ''The kite'',
       story_description = ''A kite gets lost'', story_content = [\<lparr>page_text = ''A kite flew away.'', page_image = None\<rparr>, \<lparr>page_text = ''It landed in a tree.'', page_image = None\<rparr>],
       story_author = ''Ann'', created_by = ''aaaaaaaaaaaaaaaaaaaaaaaa'', max_pages = 1\<rparr>
   \<and> fst (snd (create_story
          \<lparr>json_loads = (\<lambda>s. if s = ''{\"storyContent\": [{\"pageText\": \"A kite flew away.\"}, {\"pageText\": \"It landed in a tree.\"}]}'' then Some (JObj [(''storyContent'', JArr [JObj [(''pageText'', JStr ''A kite flew away.'')], JObj [(''pageText'', JStr ''It landed in a tree.'')]])]) else None),
      similarity_search = (\<lambda>q k. Inr []), split_text = (\<lambda>t. [t]),
      add_documents = (\<lambda>ds. None),
      story_llm = (\<lambda>st. Inr ''{\"storyContent\": [{\"pageText\": \"A kite flew away.\"}, {\"pageText\": \"It landed in a tree.\"}]}''),
      question_chat = (\<lambda>t w. Inl (UpstreamError ''no completion'')),
      feedback_chat = (\<lambda>qs w. Inl (UpstreamError ''no completion'')),
      generate_image = (\<lambda>t a s. None), copy_image = (\<lambda>u. None),
      validate_int = (\<lambda>j. case j of JNum n \<Rightarrow> Some n | _ \<Rightarrow> None)\<rparr>
          ''cccccccccccccccccccccccc''
          \<lparr>stories = [], assignments = [],
      feedback_docs = [], audios = []\<rparr>
          \<lparr>req_story_title = ''The kite'', req_story_description = ''A kite gets lost'',
      req_max_pages = 1, include_image = False, req_child_age = 7,
      use_books_context = False, use_history_context = False\<rparr>
          ''aaaaaaaaaaaaaaaaaaaaaaaa'' ''Ann''))
     = \<lparr>stories = [\<lparr>story_id = ''cccccccccccccccccccccccc'', story_title = ''The kite'',
       story_description = ''A kite gets lost'', story_content = [\<lparr>page_text = ''A kite flew away.'', page_image = None\<rparr>, \<lparr>page_text = ''It landed in a tree.'', page_image = None\<rparr>],
       story_author = ''Ann'', created_by = ''aaaaaaaaaaaaaaaaaaaaaaaa'', max_pages = 1\<rparr>], assignments = [],
      feedback_docs = [], audios = []\<rparr>"
  by (simp add: create_story_def run_story_generation_def retrieve_context_def
        generate_story_content_def parse_story_json_def clean_markdown_def fence_json_def
        fence_def starts_with_def validate_structure_def story_content_field_def
        get_page_text_def add_story_to_index_def Let_def)

text \<open>
  Claim C5, amended. A story that \<open>create_story\<close> persists has exactly one page per
  entry of the \<open>storyContent\<close> list the generation returned, in the same order and with
  the entry's text; the list is not cut to the request's \<open>max_pages\<close>, which only goes
  into the prompt and onto the stored story. The story is appended to the store.
\<close>

theorem persisted_pages_follow_generation:
  assumes "create_story cap new_id db story_data user_id author_name = (Inr story, db', calls)"
  shows "\<exists>generated_story pages.
           fst (run_story_generation (json_loads cap) (similarity_search cap) (story_llm cap)
              (req_story_title story_data) (req_story_description story_data)
              (req_child_age story_data) (req_max_pages story_data) user_id
              (use_books_context story_data) (use_history_context story_data))
             = Inr generated_story
         \<and> story_content_field generated_story = Inr pages
         \<and> length (story_content story) = length pages
         \<and> (\<forall>i < length pages.
               get_page_text (pages ! i) = Inr (JStr (page_text (story_content story ! i))))
         \<and> max_pages story = req_max_pages story_data
         \<and> stories db' = stories db @ [story]"
proof -
  let ?gen = "run_story_generation (json_loads cap) (similarity_search cap) (story_llm cap)
              (req_story_title story_data) (req_story_description story_data)
              (req_child_age story_data) (req_max_pages story_data) user_id
              (use_books_context story_data) (use_history_context story_data)"
  from assms obtain generated_story where g: "fst ?gen = Inr generated_story"
    by (cases "fst ?gen") (auto simp: create_story_def case_prod_beta Let_def)
  from assms g obtain pages where p: "story_content_field generated_story = Inr pages"
    by (cases "story_content_field generated_story")
       (auto simp: create_story_def case_prod_beta Let_def)
  let ?tasks = "if include_image story_data then image_tasks 0 pages else Inr []"
  from assms g p obtain tasks where t: "?tasks = Inr tasks"
    by (cases ?tasks) (auto simp: create_story_def case_prod_beta Let_def)
  let ?results = "image_results (generate_image cap) (req_child_age story_data)
                    (req_story_title story_data) tasks"
  from assms g p t obtain cs where b: "build_contents (copy_image cap) ?results 0 pages = Inr cs"
    by (cases "build_contents (copy_image cap) ?results 0 pages")
       (auto simp: create_story_def case_prod_beta Let_def)
  from assms g p t b have story: "story_content story = cs"
      "max_pages story = req_max_pages story_data" "stories db' = stories db @ [story]"
    by (auto simp: create_story_def case_prod_beta Let_def)
  from build_contents_pages [OF b] story g p show ?thesis
    by auto
qed

text \<open>
  The theorem at a request for three illustrated pages answered with three pages: the
  stored story has the three generated pages in order, each with its text, and is
  appended to the store.
\<close>

theorem persisted_pages_follow_generation_witness:
  "fst (create_story
          \<lparr>json_loads = (\<lambda>s. if s = ''{\"storyContent\": [{\"pageText\": \"The wind rose.\"}, {\"pageText\": \"The kite came back.\"}, {\"pageText\": \"Ben cheered.\"}]}'' then Some (JObj [(''storyContent'', JArr [JObj [(''pageText'', JStr ''The wind rose.'')], JObj [(''pageText'', JStr ''The kite came back.'')], JObj [(''pageText'', JStr ''Ben cheered.'')]])]) else None),
      similarity_search = (\<lambda>q k. Inr []), split_text = (\<lambda>t. [t]),
      add_documents = (\<lambda>ds. None),
      story_llm = (\<lambda>st. Inr ''{\"storyContent\": [{\"pageText\": \"The wind rose.\"}, {\"pageText\": \"The kite came back.\"}, {\"pageText\": \"Ben cheered.\"}]}''),
      question_chat = (\<lambda>t w. Inl (UpstreamError ''no completion'')),
      feedback_chat = (\<lambda>qs w. Inl (UpstreamError ''no completion'')),
      generate_image = (\<lambda>t a s. Some ''https://images.example/picture.png''), copy_image = (\<lambda>u. None),
      validate_int = (\<lambda>j. case j of JNum n \<Rightarrow> Some n | _ \<Rightarrow> None)\<rparr>
          ''cccccccccccccccccccccccc''
          \<lparr>stories = [], assignments = [],
      feedback_docs = [], audios = []\<rparr>
          \<lparr>req_story_title = ''The kite'', req_story_description = ''A kite gets lost'',
      req_max_pages = 3, include_image = True, req_child_age = 7,
      use_books_context = False, use_history_context = False\<rparr>
          ''aaaaaaaaaaaaaaaaaaaaaaaa'' ''Ann'')
     = Inr \<lparr>story_id = ''cccccccccccccccccccccccc'', story_title = ''The kite'',
       story_description = ''A kite gets lost'',
       story_content =
         [\<lparr>page_text = ''The wind rose.'', page_image = Some ''https://images.example/picture.png''\<rparr>,
          \<lparr>page_text = ''The kite came back.'', page_image = None\<rparr>,
          \<lparr>page_text = ''Ben cheered.'', page_image = Some ''https://images.example/picture.png''\<rparr>],
       story_author = ''Ann'', created_by = ''aaaaaaaaaaaaaaaaaaaaaaaa'', max_pages = 3\<rparr>
   \<and> fst (run_story_generation
          (\<lambda>s. if s = ''{\"storyContent\": [{\"pageText\": \"The wind rose.\"}, {\"pageText\": \"The kite came back.\"}, {\"pageText\": \"Ben cheered.\"}]}'' then Some (JObj [(''storyContent'', JArr [JObj [(''pageText'', JStr ''The wind rose.'')], JObj [(''pageText'', JStr ''The kite came back.'')], JObj [(''pageText'', JStr ''Ben cheered.'')]])]) else None)
          (\<lambda>q k. Inr [])
          (\<lambda>st. Inr ''{\"storyContent\": [{\"pageText\": \"The wind rose.\"}, {\"pageText\": \"The kite came back.\"}, {\"pageText\": \"Ben cheered.\"}]}'')
          ''The kite'' ''A kite gets lost'' 7 3 ''aaaaaaaaaaaaaaaaaaaaaaaa'' False False)
     = Inr (JObj [(''storyContent'', JArr [JObj [(''pageText'', JStr ''The wind rose.'')], JObj [(''pageText'', JStr ''The kite came back.'')], JObj [(''pageText'', JStr ''Ben cheered.'')]])])
   \<and> story_content_field (JObj [(''storyContent'', JArr [JObj [(''pageText'', JStr ''The wind rose.'')], JObj [(''pageText'', JStr ''The kite came back.'')], JObj [(''pageText'', JStr ''Ben cheered.'')]])])
     = Inr [JObj [(''pageText'', JStr ''The wind rose.'')], JObj [(''pageText'', JStr ''The kite came back.'')], JObj [(''pageText'', JStr ''Ben cheered.'')]]
   \<and> length (story_content (projr (fst (create_story
          \<lparr>json_loads = (\<lambda>s. if s = ''{\"storyContent\": [{\"pageText\": \"The wind rose.\"}, {\"pageText\": \"The kite came back.\"}, {\"pageText\": \"Ben cheered.\"}]}'' then Some (JObj [(''storyContent'', JArr [JObj [(''pageText'', JStr ''The wind rose.'')], JObj [(''pageText'', JStr ''The kite came back.'')], JObj [(''pageText'', JStr ''Ben cheered.'')]])]) else None),
      similarity_search = (\<lambda>q k. Inr []), split_text = (\<lambda>t. [t]),
      add_documents = (\<lambda>ds. None),
      story_llm = (\<lambda>st. Inr ''{\"storyContent\": [{\"pageText\": \"The wind rose.\"}, {\"pageText\": \"The kite came back.\"}, {\"pageText\": \"Ben cheered.\"}]}''),
      question_chat = (\<lambda>t w. Inl (UpstreamError ''no completion'')),
      feedback_chat = (\<lambda>qs w. Inl (UpstreamError ''no completion'')),
      generate_image = (\<lambda>t a s. Some ''https://images.example/picture.png''), copy_image = (\<lambda>u. None),
      validate_int = (\<lambda>j. case j of JNum n \<Rightarrow> Some n | _ \<Rightarrow> None)\<rparr>
          ''cccccccccccccccccccccccc''
          \<lparr>stories = [], assignments = [],
      feedback_docs = [], audios = []\<rparr>
          \<lparr>req_story_title = ''The kite'', req_story_description = ''A kite gets lost'',
      req_max_pages = 3, include_image = True, req_child_age = 7,
      use_books_context = False, use_history_context = False\<rparr>
          ''aaaaaaaaaaaaaaaaaaaaaaaa'' ''Ann'')))) = 3
   \<and> map get_page_text [JObj [(''pageText'', JStr ''The wind rose.'')], JObj [(''pageText'', JStr ''The kite came back.'')], JObj [(''pageText'', JStr ''Ben cheered.'')]]
     = map (\<lambda>page. Inr (JStr (page_text page)))
         (story_content (projr (fst (create_story
          \<lparr>json_loads = (\<lambda>s. if s = ''{\"storyContent\": [{\"pageText\": \"The wind rose.\"}, {\"pageText\": \"The kite came back.\"}, {\"pageText\": \"Ben cheered.\"}]}'' then Some (JObj [(''storyContent'', JArr [JObj [(''pageText'', JStr ''The wind rose.'')], JObj [(''pageText'', JStr ''The kite came back.'')], JObj [(''pageText'', JStr ''Ben cheered.'')]])]) else None),
      similarity_search = (\<lambda>q k. Inr []), split_text = (\<lambda>t. [t]),
      add_documents = (\<lambda>ds. None),
      story_llm = (\<lambda>st. Inr ''{\"storyContent\": [{\"pageText\": \"The wind rose.\"}, {\"pageText\": \"The kite came back.\"}, {\"pageText\": \"Ben cheered.\"}]}''),
      question_chat = (\<lambda>t w. Inl (UpstreamError ''no completion'')),
      feedback_chat = (\<lambda>qs w. Inl (UpstreamError ''no completion'')),
      generate_image = (\<lambda>t a s. Some ''https://images.example/picture.png''), copy_image = (\<lambda>u. None),
      validate_int = (\<lambda>j. case j of JNum n \<Rightarrow> Some n | _ \<Rightarrow> None)\<rparr>
          ''cccccccccccccccccccccccc''
          \<lparr>stories = [], assignments = [],
      feedback_docs = [], audios = []\<rparr>
          \<lparr>req_story_title = ''The kite'', req_story_description = ''A kite gets lost'',
      req_max_pages = 3, include_image = True, req_child_age = 7,
      use_books_context = False, use_history_context = False\<rparr>
          ''aaaaaaaaaaaaaaaaaaaaaaaa'' ''Ann''))))
   \<and> stories (fst (snd (create_story
          \<lparr>json_loads = (\<lambda>s. if s = ''{\"storyContent\": [{\"pageText\": \"The wind rose.\"}, {\"pageText\": \"The kite came back.\"}, {\"pageText\": \"Ben cheered.\"}]}'' then Some (JObj [(''storyContent'', JArr [JObj [(''pageText'', JStr ''The wind rose.'')], JObj [(''pageText'', JStr ''The kite came back.'')], JObj [(''pageText'', JStr ''Ben cheered.'')]])]) else None),
      similarity_search = (\<lambda>q k. Inr []), split_text = (\<lambda>t. [t]),
      add_documents = (\<lambda>ds. None),
      story_llm = (\<lambda>st. Inr ''{\"storyContent\": [{\"pageText\": \"The wind rose.\"}, {\"pageText\": \"The kite came back.\"}, {\"pageText\": \"Ben cheered.\"}]}''),
      question_chat = (\<lambda>t w. Inl (UpstreamError ''no completion'')),
      feedback_chat = (\<lambda>qs w. Inl (UpstreamError ''no completion'')),
      generate_image = (\<lambda>t a s. Some ''https://images.example/picture.png''), copy_image = (\<lambda>u. None),
      validate_int = (\<lambda>j. case j of JNum n \<Rightarrow> Some n | _ \<Rightarrow> None)\<rparr>
          ''cccccccccccccccccccccccc''
          \<lparr>stories = [], assignments = [],
      feedback_docs = [], audios = []\<rparr>
          \<lparr>req_story_title = ''The kite'', req_story_description = ''A kite gets lost'',
      req_max_pages = 3, include_image = True, req_child_age = 7,
      use_books_context = False, use_history_context = False\<rparr>
          ''aaaaaaaaaaaaaaaaaaaaaaaa'' ''Ann'')))
     = [\<lparr>story_id = ''cccccccccccccccccccccccc'', story_title = ''The kite'',
       story_description = ''A kite gets lost'',
       story_content =
         [\<lparr>page_text = ''The wind rose.'', page_image = Some ''https://images.example/picture.png''\<rparr>,
          \<lparr>page_text = ''The kite came back.'', page_image = None\<rparr>,
          \<lparr>page_text = ''Ben cheered.'', page_image = Some ''https://images.example/picture.png''\<rparr>],
       story_author = ''Ann'', created_by = ''aaaaaaaaaaaaaaaaaaaaaaaa'', max_pages = 3\<rparr>]"
proof -
  let ?cap = "\<lparr>json_loads = (\<lambda>s. if s = ''{\"storyContent\": [{\"pageText\": \"The wind rose.\"}, {\"pageText\": \"The kite came back.\"}, {\"pageText\": \"Ben cheered.\"}]}'' then Some (JObj [(''storyContent'', JArr [JObj [(''pageText'', JStr ''The wind rose.'')], JObj [(''pageText'', JStr ''The kite came back.'')], JObj [(''pageText'', JStr ''Ben cheered.'')]])]) else None),
      similarity_search = (\<lambda>q k. Inr []), split_text = (\<lambda>t. [t]),
      add_documents = (\<lambda>ds. None),
      story_llm = (\<lambda>st. Inr ''{\"storyContent\": [{\"pageText\": \"The wind rose.\"}, {\"pageText\": \"The kite came back.\"}, {\"pageText\": \"Ben cheered.\"}]}''),
      question_chat = (\<lambda>t w. Inl (UpstreamError ''no completion'')),
      feedback_chat = (\<lambda>qs w. Inl (UpstreamError ''no completion'')),
      generate_image = (\<lambda>t a s. Some ''https://images.example/picture.png''), copy_image = (\<lambda>u. None),
      validate_int = (\<lambda>j. case j of JNum n \<Rightarrow> Some n | _ \<Rightarrow> None)\<rparr>"
  let ?req = "\<lparr>req_story_title = ''The kite'', req_story_description = ''A kite gets lost'',
      req_max_pages = 3, include_image = True, req_child_age = 7,
      use_books_context = False, use_history_context = False\<rparr>"
  let ?db = "\<lparr>stories = [], assignments = [],
      feedback_docs = [], audios = []\<rparr>"
  let ?story = "\<lparr>story_id = ''cccccccccccccccccccccccc'', story_title = ''The kite'',
       story_description = ''A kite gets lost'',
       story_content =
         [\<lparr>page_text = ''The wind rose.'', page_image = Some ''https://images.example/picture.png''\<rparr>,
          \<lparr>page_text = ''The kite came back.'', page_image = None\<rparr>,
          \<lparr>page_text = ''Ben cheered.'', page_image = Some ''https://images.example/picture.png''\<rparr>],
       story_author = ''Ann'', created_by = ''aaaaaaaaaaaaaaaaaaaaaaaa'', max_pages = 3\<rparr>"
  let ?db' = "\<lparr>stories = [\<lparr>story_id = ''cccccccccccccccccccccccc'', story_title = ''The kite'',
       story_description = ''A kite gets lost'',
       story_content =
         [\<lparr>page_text = ''The wind rose.'', page_image = Some ''https://images.example/picture.png''\<rparr>,
          \<lparr>page_text = ''The kite came back.'', page_image = None\<rparr>,
          \<lparr>page_text = ''Ben cheered.'', page_image = Some ''https://images.example/picture.png''\<rparr>],
       story_author = ''Ann'', created_by = ''aaaaaaaaaaaaaaaaaaaaaaaa'', max_pages = 3\<rparr>], assignments = [],
      feedback_docs = [], audios = []\<rparr>"
  let ?gen = "JObj [(''storyContent'', JArr [JObj [(''pageText'', JStr ''The wind rose.'')], JObj [(''pageText'', JStr ''The kite came back.'')], JObj [(''pageText'', JStr ''Ben cheered.'')]])]"
  let ?pages = "[JObj [(''pageText'', JStr ''The wind rose.'')], JObj [(''pageText'', JStr ''The kite came back.'')], JObj [(''pageText'', JStr ''Ben cheered.'')]]"
  let ?run = "create_story ?cap ''cccccccccccccccccccccccc'' ?db ?req ''aaaaaaaaaaaaaaaaaaaaaaaa'' ''Ann''"
  have res: "fst ?run = Inr ?story"
    by (simp add: create_story_def run_story_generation_def retrieve_context_def
        generate_story_content_def parse_story_json_def clean_markdown_def fence_json_def
        fence_def starts_with_def validate_structure_def story_content_field_def
        get_page_text_def add_story_to_index_def Let_def)
  have gen: "fst (run_story_generation (json_loads ?cap) (similarity_search ?cap) (story_llm ?cap)
              (req_story_title ?req) (req_story_description ?req)
              (req_child_age ?req) (req_max_pages ?req) ''aaaaaaaaaaaaaaaaaaaaaaaa''
              (use_books_context ?req) (use_history_context ?req))
      = Inr ?gen"
    by (simp add: run_story_generation_def retrieve_context_def
        generate_story_content_def parse_story_json_def clean_markdown_def fence_json_def
        fence_def starts_with_def validate_structure_def Let_def)
  have field: "story_content_field ?gen = Inr ?pages"
    by (simp add: story_content_field_def)
  have run: "?run = (Inr ?story, fst (snd ?run), snd (snd ?run))"
    using res by (simp add: prod_eq_iff)
  from persisted_pages_follow_generation [OF run]
  obtain generated_story pages where
    g: "fst (run_story_generation (json_loads ?cap) (similarity_search ?cap) (story_llm ?cap)
              (req_story_title ?req) (req_story_description ?req)
              (req_child_age ?req) (req_max_pages ?req) ''aaaaaaaaaaaaaaaaaaaaaaaa''
              (use_books_context ?req) (use_history_context ?req))
          = Inr generated_story"
    and p: "story_content_field generated_story = Inr pages"
    and len: "length (story_content ?story) = length pages"
    and ptx: "\<forall>i < length pages.
               get_page_text (pages ! i) = Inr (JStr (page_text (story_content ?story ! i)))"
    and st: "stories (fst (snd ?run)) = stories ?db @ [?story]"
    by blast
  from g gen have "generated_story = ?gen" by simp
  with p field have pages: "pages = ?pages" by simp
  from len have l3: "length (story_content (projr (fst ?run))) = 3"
    unfolding res pages by simp
  from ptx [THEN spec, of 0] ptx [THEN spec, of 1] ptx [THEN spec, of 2]
  have texts: "map get_page_text ?pages
      = map (\<lambda>page. Inr (JStr (page_text page))) (story_content (projr (fst ?run)))"
    unfolding res pages by simp
  from st have stored: "stories (fst (snd ?run)) = [?story]"
    by simp
  have gen': "fst (run_story_generation
          (\<lambda>s. if s = ''{\"storyContent\": [{\"pageText\": \"The wind rose.\"}, {\"pageText\": \"The kite came back.\"}, {\"pageText\": \"Ben cheered.\"}]}'' then Some (JObj [(''storyContent'', JArr [JObj [(''pageText'', JStr ''The wind rose.'')], JObj [(''pageText'', JStr ''The kite came back.'')], JObj [(''pageText'', JStr ''Ben cheered.'')]])]) else None)
          (\<lambda>q k. Inr [])
          (\<lambda>st. Inr ''{\"storyContent\": [{\"pageText\": \"The wind rose.\"}, {\"pageText\": \"The kite came back.\"}, {\"pageText\": \"Ben cheered.\"}]}'')
          ''The kite'' ''A kite gets lost'' 7 3 ''aaaaaaaaaaaaaaaaaaaaaaaa'' False False)
     = Inr ?gen"
    using gen by simp
  show ?thesis
    by (intro conjI) (rule res, rule gen', rule field, rule l3, rule texts, rule stored)
qed

text \<open>
  Claim C9, as stated, fails: images are asked for and the completion returns three
  entries of which the second is the number 5, which the structure check lets through.
  Reading its text raises AttributeError while the tasks are being collected, before any
  of them is run: no illustration request is issued for positions 0 and 2, and the
  creation fails.
\<close>

theorem create_story_malformed_page_no_image_request:
  "image_requests (snd (snd (create_story
          \<lparr>json_loads = (\<lambda>s. if s = ''{\"storyContent\": [{\"pageText\": \"One.\"}, 5, {\"pageText\": \"Three.\"}]}'' then Some (JObj [(''storyContent'', JArr [JObj [(''pageText'', JStr ''One.'')], JNum 5, JObj [(''pageText'', JStr ''Three.'')]])]) else None),
      similarity_search = (\<lambda>q k. Inr []), split_text = (\<lambda>t. [t]),
      add_documents = (\<lambda>ds. None),
      story_llm = (\<lambda>st. Inr ''{\"storyContent\": [{\"pageText\": \"One.\"}, 5, {\"pageText\": \"Three.\"}]}''),
      question_chat = (\<lambda>t w. Inl (UpstreamError ''no completion'')),
      feedback_chat = (\<lambda>qs w. Inl (UpstreamError ''no completion'')),
      generate_image = (\<lambda>t a s. Some ''https://images.example/picture.png''), copy_image = (\<lambda>u. None),
      validate_int = (\<lambda>j. case j of JNum n \<Rightarrow> Some n | _ \<Rightarrow> None)\<rparr>
          ''cccccccccccccccccccccccc''
          \<lparr>stories = [], assignments = [],
      feedback_docs = [], audios = []\<rparr>
          \<lparr>req_story_title = ''The kite'', req_story_description = ''A kite gets lost'',
      req_max_pages = 3, include_image = True, req_child_age = 7,
      use_books_context = False, use_history_context = False\<rparr>
          ''aaaaaaaaaaaaaaaaaaaaaaaa'' ''Ann'')))
     = []
   \<and> fst (create_story
          \<lparr>json_loads = (\<lambda>s. if s = ''{\"storyContent\": [{\"pageText\": \"One.\"}, 5, {\"pageText\": \"Three.\"}]}'' then Some (JObj [(''storyContent'', JArr [JObj [(''pageText'', JStr ''One.'')], JNum 5, JObj [(''pageText'', JStr ''Three.'')]])]) else None),
      similarity_search = (\<lambda>q k. Inr []), split_text = (\<lambda>t. [t]),
      add_documents = (\<lambda>ds. None),
      story_llm = (\<lambda>st. Inr ''{\"storyContent\": [{\"pageText\": \"One.\"}, 5, {\"pageText\": \"Three.\"}]}''),
      question_chat = (\<lambda>t w. Inl (UpstreamError ''no completion'')),
      feedback_chat = (\<lambda>qs w. Inl (UpstreamError ''no completion'')),
      generate_image = (\<lambda>t a s. Some ''https://images.example/picture.png''), copy_image = (\<lambda>u. None),
      validate_int = (\<lambda>j. case j of JNum n \<Rightarrow> Some n | _ \<Rightarrow> None)\<rparr>
          ''cccccccccccccccccccccccc''
          \<lparr>stories = [], assignments = [],
      feedback_docs = [], audios = []\<rparr>
          \<lparr>req_story_title = ''The kite'', req_story_description = ''A kite gets lost'',
      req_max_pages = 3, include_image = True, req_child_age = 7,
      use_books_context = False, use_history_context = False\<rparr>
          ''aaaaaaaaaaaaaaaaaaaaaaaa'' ''Ann'')
     = Inl (Failed ''Failed to create story'' AttributeError)"
  by (simp add: create_story_def run_story_generation_def retrieve_context_def
        generate_story_content_def parse_story_json_def clean_markdown_def fence_json_def
        fence_def starts_with_def validate_structure_def story_content_field_def
        get_page_text_def add_story_to_index_def Let_def)

text \<open>
  Claim C9, amended. When \<open>include_image\<close> is true and the generation returned a page
  list whose entries are all objects, the image requests issued by \<open>create_story\<close> are
  exactly those for the page positions \<open>i\<close> with \<open>i mod 3 \<noteq> 1\<close>, each for that
  page's text, whatever happens afterwards. When \<open>include_image\<close> is true and some
  entry of the page list is not an object, no image request is issued at all: the
  creation fails with "Failed to create story: ..." on the AttributeError and nothing
  is stored. When \<open>include_image\<close> is false no image request is issued, whatever the
  generation returns.
\<close>

theorem image_requests_every_selected_page:
  "(include_image story_data
      \<and> fst (run_story_generation (json_loads cap) (similarity_search cap) (story_llm cap)
              (req_story_title story_data) (req_story_description story_data)
              (req_child_age story_data) (req_max_pages story_data) user_id
              (use_books_context story_data) (use_history_context story_data))
          = Inr generated_story
      \<and> story_content_field generated_story = Inr pages
      \<and> (\<forall>p \<in> set pages. \<exists>kvs. p = JObj kvs)
     \<longrightarrow> image_requests (snd (snd (create_story cap new_id db story_data user_id author_name)))
          = map (\<lambda>i. (i, projr (get_page_text (pages ! i))))
              (filter (\<lambda>i. i mod 3 \<noteq> 1) [0..<length pages]))
   \<and> (include_image story_data
      \<and> fst (run_story_generation (json_loads cap) (similarity_search cap) (story_llm cap)
              (req_story_title story_data) (req_story_description story_data)
              (req_child_age story_data) (req_max_pages story_data) user_id
              (use_books_context story_data) (use_history_context story_data))
          = Inr generated_story
      \<and> story_content_field generated_story = Inr pages
      \<and> (\<exists>p \<in> set pages. \<forall>kvs. p \<noteq> JObj kvs)
     \<longrightarrow> image_requests (snd (snd (create_story cap new_id db story_data user_id author_name))) = []
       \<and> fst (create_story cap new_id db story_data user_id author_name)
           = Inl (Failed ''Failed to create story'' AttributeError)
       \<and> fst (snd (create_story cap new_id db story_data user_id author_name)) = db)
   \<and> (\<not> include_image story_data
     \<longrightarrow> image_requests (snd (snd (create_story cap new_id db story_data user_id author_name)))
          = [])"
proof (intro conjI impI)
  assume h: "include_image story_data
      \<and> fst (run_story_generation (json_loads cap) (similarity_search cap) (story_llm cap)
              (req_story_title story_data) (req_story_description story_data)
              (req_child_age story_data) (req_max_pages story_data) user_id
              (use_books_context story_data) (use_history_context story_data))
          = Inr generated_story
      \<and> story_content_field generated_story = Inr pages
      \<and> (\<forall>p \<in> set pages. \<exists>kvs. p = JObj kvs)"
  define selected where
    "selected = map (\<lambda>j. (j, projr (get_page_text (pages ! j))))
                  (filter (\<lambda>j. j mod 3 \<noteq> 1) [0..<length pages])"
  from h have tasks: "image_tasks 0 pages = Inr selected"
    unfolding selected_def using image_tasks_positions [of pages 0] by simp
  from h tasks
  have "image_requests (snd (snd (create_story cap new_id db story_data user_id author_name)))
          = selected"
    by (simp add: create_story_def case_prod_beta Let_def image_requests_append
          image_requests_tasks image_requests_generation image_requests_index
          split: sum.splits)
  then show "image_requests (snd (snd (create_story cap new_id db story_data user_id author_name)))
          = map (\<lambda>i. (i, projr (get_page_text (pages ! i))))
              (filter (\<lambda>i. i mod 3 \<noteq> 1) [0..<length pages])"
    by (simp only: selected_def)
next
  assume h: "include_image story_data
      \<and> fst (run_story_generation (json_loads cap) (similarity_search cap) (story_llm cap)
              (req_story_title story_data) (req_story_description story_data)
              (req_child_age story_data) (req_max_pages story_data) user_id
              (use_books_context story_data) (use_history_context story_data))
          = Inr generated_story
      \<and> story_content_field generated_story = Inr pages
      \<and> (\<exists>p \<in> set pages. \<forall>kvs. p \<noteq> JObj kvs)"
  then have tasks: "image_tasks 0 pages = Inl AttributeError"
    using image_tasks_non_object [of pages 0] by blast
  from h tasks
  show "image_requests (snd (snd (create_story cap new_id db story_data user_id author_name))) = []"
    by (simp add: create_story_def case_prod_beta Let_def image_requests_generation)
  from h tasks
  show "fst (create_story cap new_id db story_data user_id author_name)
           = Inl (Failed ''Failed to create story'' AttributeError)"
    by (simp add: create_story_def case_prod_beta Let_def)
  from h tasks
  show "fst (snd (create_story cap new_id db story_data user_id author_name)) = db"
    by (simp add: create_story_def case_prod_beta Let_def)
next
  assume "\<not> include_image story_data"
  then show "image_requests (snd (snd (create_story cap new_id db story_data user_id author_name)))
          = []"
    by (simp add: create_story_def case_prod_beta Let_def image_requests_append
          image_requests_generation image_requests_index
          split: sum.splits)
qed

text \<open>
  The theorem at a generated story of four pages: with images requested, the requests go
  out for positions 0, 2 and 3; with images not requested, none goes out. At a generated
  list whose second entry is a string instead of an object, with images requested: no
  request goes out, the creation fails and the store is unchanged.
\<close>

theorem image_requests_every_selected_page_witness:
  "image_requests (snd (snd (create_story
          \<lparr>json_loads = (\<lambda>s. if s = ''{\"storyContent\": [{\"pageText\": \"One.\"}, {\"pageText\": \"Two.\"}, {\"pageText\": \"Three.\"}, {\"pageText\": \"Four.\"}]}'' then Some (JObj [(''storyContent'', JArr [JObj [(''pageText'', JStr ''One.'')], JObj [(''pageText'', JStr ''Two.'')], JObj [(''pageText'', JStr ''Three.'')], JObj [(''pageText'', JStr ''Four.'')]])]) else None),
      similarity_search = (\<lambda>q k. Inr []), split_text = (\<lambda>t. [t]),
      add_documents = (\<lambda>ds. None),
      story_llm = (\<lambda>st. Inr ''{\"storyContent\": [{\"pageText\": \"One.\"}, {\"pageText\": \"Two.\"}, {\"pageText\": \"Three.\"}, {\"pageText\": \"Four.\"}]}''),
      question_chat = (\<lambda>t w. Inl (UpstreamError ''no completion'')),
      feedback_chat = (\<lambda>qs w. Inl (UpstreamError ''no completion'')),
      generate_image = (\<lambda>t a s. Some ''https://images.example/picture.png''), copy_image = (\<lambda>u. None),
      validate_int = (\<lambda>j. case j of JNum n \<Rightarrow> Some n | _ \<Rightarrow> None)\<rparr>
          ''cccccccccccccccccccccccc''
          \<lparr>stories = [], assignments = [],
      feedback_docs = [], audios = []\<rparr>
          \<lparr>req_story_title = ''The kite'', req_story_description = ''A kite gets lost'',
      req_max_pages = 4, include_image = True, req_child_age = 7,
      use_books_context = False, use_history_context = False\<rparr>
          ''aaaaaaaaaaaaaaaaaaaaaaaa'' ''Ann'')))
     = [(0, JStr ''One.''), (2, JStr ''Three.''), (3, JStr ''Four.'')]
   \<and> image_requests (snd (snd (create_story
          \<lparr>json_loads = (\<lambda>s. if s = ''{\"storyContent\": [{\"pageText\": \"One.\"}, {\"pageText\": \"Two.\"}, {\"pageText\": \"Three.\"}, {\"pageText\": \"Four.\"}]}'' then Some (JObj [(''storyContent'', JArr [JObj [(''pageText'', JStr ''One.'')], JObj [(''pageText'', JStr ''Two.'')], JObj [(''pageText'', JStr ''Three.'')], JObj [(''pageText'', JStr ''Four.'')]])]) else None),
      similarity_search = (\<lambda>q k. Inr []), split_text = (\<lambda>t. [t]),
      add_documents = (\<lambda>ds. None),
      story_llm = (\<lambda>st. Inr ''{\"storyContent\": [{\"pageText\": \"One.\"}, {\"pageText\": \"Two.\"}, {\"pageText\": \"Three.\"}, {\"pageText\": \"Four.\"}]}''),
      question_chat = (\<lambda>t w. Inl (UpstreamError ''no completion'')),
      feedback_chat = (\<lambda>qs w. Inl (UpstreamError ''no completion'')),
      generate_image = (\<lambda>t a s. Some ''https://images.example/picture.png''), copy_image = (\<lambda>u. None),
      validate_int = (\<lambda>j. case j of JNum n \<Rightarrow> Some n | _ \<Rightarrow> None)\<rparr>
          ''cccccccccccccccccccccccc''
          \<lparr>stories = [], assignments = [],
      feedback_docs = [], audios = []\<rparr>
          \<lparr>req_story_title = ''The kite'', req_story_description = ''A kite gets lost'',
      req_max_pages = 4, include_image = False, req_child_age = 7,
      use_books_context = False, use_history_context = False\<rparr>
          ''aaaaaaaaaaaaaaaaaaaaaaaa'' ''Ann'')))
     = []
   \<and> image_requests (snd (snd (create_story
          \<lparr>json_loads = (\<lambda>s. if s = ''{\"storyContent\": [{\"pageText\": \"One.\"}, \"Two.\"]}'' then Some (JObj [(''storyContent'', JArr [JObj [(''pageText'', JStr ''One.'')], JStr ''Two.''])]) else None),
      similarity_search = (\<lambda>q k. Inr []), split_text = (\<lambda>t. [t]),
      add_documents = (\<lambda>ds. None),
      story_llm = (\<lambda>st. Inr ''{\"storyContent\": [{\"pageText\": \"One.\"}, \"Two.\"]}''),
      question_chat = (\<lambda>t w. Inl (UpstreamError ''no completion'')),
      feedback_chat = (\<lambda>qs w. Inl (UpstreamError ''no completion'')),
      generate_image = (\<lambda>t a s. Some ''https://images.example/picture.png''), copy_image = (\<lambda>u. None),
      validate_int = (\<lambda>j. case j of JNum n \<Rightarrow> Some n | _ \<Rightarrow> None)\<rparr>
          ''cccccccccccccccccccccccc''
          \<lparr>stories = [], assignments = [],
      feedback_docs = [], audios = []\<rparr>
          \<lparr>req_story_title = ''The kite'', req_story_description = ''A kite gets lost'',
      req_max_pages = 4, include_image = True, req_child_age = 7,
      use_books_context = False, use_history_context = False\<rparr>
          ''aaaaaaaaaaaaaaaaaaaaaaaa'' ''Ann'')))
     = []
   \<and> fst (create_story
          \<lparr>json_loads = (\<lambda>s. if s = ''{\"storyContent\": [{\"pageText\": \"One.\"}, \"Two.\"]}'' then Some (JObj [(''storyContent'', JArr [JObj [(''pageText'', JStr ''One.'')], JStr ''Two.''])]) else None),
      similarity_search = (\<lambda>q k. Inr []), split_text = (\<lambda>t. [t]),
      add_documents = (\<lambda>ds. None),
      story_llm = (\<lambda>st. Inr ''{\"storyContent\": [{\"pageText\": \"One.\"}, \"Two.\"]}''),
      question_chat = (\<lambda>t w. Inl (UpstreamError ''no completion'')),
      feedback_chat = (\<lambda>qs w. Inl (UpstreamError ''no completion'')),
      generate_image = (\<lambda>t a s. Some ''https://images.example/picture.png''), copy_image = (\<lambda>u. None),
      validate_int = (\<lambda>j. case j of JNum n \<Rightarrow> Some n | _ \<Rightarrow> None)\<rparr>
          ''cccccccccccccccccccccccc''
          \<lparr>stories = [], assignments = [],
      feedback_docs = [], audios = []\<rparr>
          \<lparr>req_story_title = ''The kite'', req_story_description = ''A kite gets lost'',
      req_max_pages = 4, include_image = True, req_child_age = 7,
      use_books_context = False, use_history_context = False\<rparr>
          ''aaaaaaaaaaaaaaaaaaaaaaaa'' ''Ann'')
     = Inl (Failed ''Failed to create story'' AttributeError)"
proof -
  let ?cap = "\<lparr>json_loads = (\<lambda>s. if s = ''{\"storyContent\": [{\"pageText\": \"One.\"}, {\"pageText\": \"Two.\"}, {\"pageText\": \"Three.\"}, {\"pageText\": \"Four.\"}]}'' then Some (JObj [(''storyContent'', JArr [JObj [(''pageText'', JStr ''One.'')], JObj [(''pageText'', JStr ''Two.'')], JObj [(''pageText'', JStr ''Three.'')], JObj [(''pageText'', JStr ''Four.'')]])]) else None),
      similarity_search = (\<lambda>q k. Inr []), split_text = (\<lambda>t. [t]),
      add_documents = (\<lambda>ds. None),
      story_llm = (\<lambda>st. Inr ''{\"storyContent\": [{\"pageText\": \"One.\"}, {\"pageText\": \"Two.\"}, {\"pageText\": \"Three.\"}, {\"pageText\": \"Four.\"}]}''),
      question_chat = (\<lambda>t w. Inl (UpstreamError ''no completion'')),
      feedback_chat = (\<lambda>qs w. Inl (UpstreamError ''no completion'')),
      generate_image = (\<lambda>t a s. Some ''https://images.example/picture.png''), copy_image = (\<lambda>u. None),
      validate_int = (\<lambda>j. case j of JNum n \<Rightarrow> Some n | _ \<Rightarrow> None)\<rparr>"
  let ?capm = "\<lparr>json_loads = (\<lambda>s. if s = ''{\"storyContent\": [{\"pageText\": \"One.\"}, \"Two.\"]}'' then Some (JObj [(''storyContent'', JArr [JObj [(''pageText'', JStr ''One.'')], JStr ''Two.''])]) else None),
      similarity_search = (\<lambda>q k. Inr []), split_text = (\<lambda>t. [t]),
      add_documents = (\<lambda>ds. None),
      story_llm = (\<lambda>st. Inr ''{\"storyContent\": [{\"pageText\": \"One.\"}, \"Two.\"]}''),
      question_chat = (\<lambda>t w. Inl (UpstreamError ''no completion'')),
      feedback_chat = (\<lambda>qs w. Inl (UpstreamError ''no completion'')),
      generate_image = (\<lambda>t a s. Some ''https://images.example/picture.png''), copy_image = (\<lambda>u. None),
      validate_int = (\<lambda>j. case j of JNum n \<Rightarrow> Some n | _ \<Rightarrow> None)\<rparr>"
  let ?req = "\<lparr>req_story_title = ''The kite'', req_story_description = ''A kite gets lost'',
      req_max_pages = 4, include_image = True, req_child_age = 7,
      use_books_context = False, use_history_context = False\<rparr>"
  let ?noimg = "\<lparr>req_story_title = ''The kite'', req_story_description = ''A kite gets lost'',
      req_max_pages = 4, include_image = False, req_child_age = 7,
      use_books_context = False, use_history_context = False\<rparr>"
  let ?db = "\<lparr>stories = [], assignments = [],
      feedback_docs = [], audios = []\<rparr>"
  let ?pages = "[JObj [(''pageText'', JStr ''One.'')], JObj [(''pageText'', JStr ''Two.'')], JObj [(''pageText'', JStr ''Three.'')], JObj [(''pageText'', JStr ''Four.'')]]"
  let ?pagesm = "[JObj [(''pageText'', JStr ''One.'')], JStr ''Two.'']"
  have hyp: "include_image ?req
      \<and> fst (run_story_generation (json_loads ?cap) (similarity_search ?cap) (story_llm ?cap)
              (req_story_title ?req) (req_story_description ?req)
              (req_child_age ?req) (req_max_pages ?req) ''aaaaaaaaaaaaaaaaaaaaaaaa''
              (use_books_context ?req) (use_history_context ?req))
          = Inr (JObj [(''storyContent'', JArr [JObj [(''pageText'', JStr ''One.'')], JObj [(''pageText'', JStr ''Two.'')], JObj [(''pageText'', JStr ''Three.'')], JObj [(''pageText'', JStr ''Four.'')]])])
      \<and> story_content_field (JObj [(''storyContent'', JArr [JObj [(''pageText'', JStr ''One.'')], JObj [(''pageText'', JStr ''Two.'')], JObj [(''pageText'', JStr ''Three.'')], JObj [(''pageText'', JStr ''Four.'')]])]) = Inr ?pages
      \<and> (\<forall>p \<in> set ?pages. \<exists>kvs. p = JObj kvs)"
    by (simp add: run_story_generation_def retrieve_context_def
        generate_story_content_def parse_story_json_def clean_markdown_def fence_json_def
        fence_def starts_with_def validate_structure_def Let_def story_content_field_def)
  have hypm: "include_image ?req
      \<and> fst (run_story_generation (json_loads ?capm) (similarity_search ?capm) (story_llm ?capm)
              (req_story_title ?req) (req_story_description ?req)
              (req_child_age ?req) (req_max_pages ?req) ''aaaaaaaaaaaaaaaaaaaaaaaa''
              (use_books_context ?req) (use_history_context ?req))
          = Inr (JObj [(''storyContent'', JArr [JObj [(''pageText'', JStr ''One.'')], JStr ''Two.''])])
      \<and> story_content_field (JObj [(''storyContent'', JArr [JObj [(''pageText'', JStr ''One.'')], JStr ''Two.''])]) = Inr ?pagesm
      \<and> (\<exists>p \<in> set ?pagesm. \<forall>kvs. p \<noteq> JObj kvs)"
    by (simp add: run_story_generation_def retrieve_context_def
        generate_story_content_def parse_story_json_def clean_markdown_def fence_json_def
        fence_def starts_with_def validate_structure_def Let_def story_content_field_def)
  have sel: "map (\<lambda>i. (i, projr (get_page_text (?pages ! i))))
              (filter (\<lambda>i. i mod 3 \<noteq> 1) [0..<length ?pages])
      = [(0, JStr ''One.''), (2, JStr ''Three.''), (3, JStr ''Four.'')]"
    by (simp add: upt_rec get_page_text_def)
  note inst = image_requests_every_selected_page
    [where story_data = ?req and cap = ?cap and user_id = "''aaaaaaaaaaaaaaaaaaaaaaaa''"
       and generated_story = "JObj [(''storyContent'', JArr [JObj [(''pageText'', JStr ''One.'')], JObj [(''pageText'', JStr ''Two.'')], JObj [(''pageText'', JStr ''Three.'')], JObj [(''pageText'', JStr ''Four.'')]])]" and pages = ?pages
       and new_id = "''cccccccccccccccccccccccc''" and db = ?db and author_name = "''Ann''"]
  note instm = image_requests_every_selected_page
    [where story_data = ?req and cap = ?capm and user_id = "''aaaaaaaaaaaaaaaaaaaaaaaa''"
       and generated_story = "JObj [(''storyContent'', JArr [JObj [(''pageText'', JStr ''One.'')], JStr ''Two.''])]" and pages = ?pagesm
       and new_id = "''cccccccccccccccccccccccc''" and db = ?db and author_name = "''Ann''"]
  note instn = image_requests_every_selected_page
    [where story_data = ?noimg and cap = ?cap and user_id = "''aaaaaaaaaaaaaaaaaaaaaaaa''"
       and new_id = "''cccccccccccccccccccccccc''" and db = ?db and author_name = "''Ann''"]
  from inst [THEN conjunct1, THEN mp, OF hyp]
  have a: "image_requests (snd (snd (create_story ?cap ''cccccccccccccccccccccccc'' ?db ?req ''aaaaaaaaaaaaaaaaaaaaaaaa'' ''Ann'')))
      = [(0, JStr ''One.''), (2, JStr ''Three.''), (3, JStr ''Four.'')]"
    unfolding sel .
  have off: "\<not> include_image ?noimg" by simp
  from instn [THEN conjunct2, THEN conjunct2, THEN mp, OF off]
  have b: "image_requests (snd (snd (create_story ?cap ''cccccccccccccccccccccccc'' ?db ?noimg ''aaaaaaaaaaaaaaaaaaaaaaaa'' ''Ann''))) = []" .
  note m = instm [THEN conjunct2, THEN conjunct1, THEN mp, OF hypm]
  from m [THEN conjunct1]
  have c: "image_requests (snd (snd (create_story ?capm ''cccccccccccccccccccccccc'' ?db ?req ''aaaaaaaaaaaaaaaaaaaaaaaa'' ''Ann''))) = []" .
  from m [THEN conjunct2, THEN conjunct1]
  have d: "fst (create_story ?capm ''cccccccccccccccccccccccc'' ?db ?req ''aaaaaaaaaaaaaaaaaaaaaaaa'' ''Ann'')
      = Inl (Failed ''Failed to create story'' AttributeError)" .
  show ?thesis
    by (intro conjI) (rule a, rule b, rule c, rule d)
qed

section \<open>Feedback: merging the submitted answers\<close>






section \<open>Reading assessment: the score\<close>

lemma edit_distance_same: "edit_distance ws ws = 0"
  by (induction ws) simp_all

lemma float_rounding_nonneg: "float_rounding fl \<Longrightarrow> 0 \<le> x \<Longrightarrow> 0 \<le> fl x"
  unfolding float_rounding_def by metis

lemma float_rounding_count:
  assumes "float_rounding fl" and "0 < n"
  shows "1 \<le> fl (of_nat n)"
proof -
  from assms(2) have "(1::rat) \<le> of_nat n" by simp
  with assms(1) have "fl 1 \<le> fl (of_nat n)"
    unfolding float_rounding_def by blast
  with assms(1) show ?thesis
    unfolding float_rounding_def by simp
qed

lemma error_rate_nonneg:
  assumes "float_rounding fl" and "0 < n"
  shows "0 \<le> fl (fl (of_nat d) / fl (of_nat n))"
proof -
  have "0 \<le> fl (of_nat d)"
    using float_rounding_nonneg [OF assms(1)] by simp
  moreover have "0 < fl (of_nat n)"
    using float_rounding_count [OF assms] by simp
  ultimately have "0 \<le> fl (of_nat d) / fl (of_nat n)" by simp
  then show ?thesis by (rule float_rounding_nonneg [OF assms(1)])
qed

lemma score_of_bounds:
  assumes "float_rounding fl" and "0 \<le> e"
  shows "0 \<le> score_of fl e \<and> score_of fl e \<le> 100"
proof -
  from assms(2) have "0 \<le> 100 * e" by simp
  then have "0 \<le> fl (100 * e)" by (rule float_rounding_nonneg [OF assms(1)])
  then have "100 - fl (100 * e) \<le> 100" by simp
  with assms(1) have "fl (100 - fl (100 * e)) \<le> fl 100"
    unfolding float_rounding_def by blast
  with assms(1) have "fl (100 - fl (100 * e)) \<le> 100"
    unfolding float_rounding_def by simp
  then show ?thesis by (simp add: score_of_def)
qed

lemma score_of_zero: "float_rounding fl \<Longrightarrow> score_of fl 0 = 100"
  by (simp add: score_of_def float_rounding_def)

lemma find_saved_audio:
  "find (\<lambda>a. audio_id a = key) xs = Some old \<Longrightarrow> audio_id new = key \<Longrightarrow>
   find (\<lambda>a. audio_id a = key) (map (\<lambda>a. if audio_id a = audio_id new then new else a) xs)
     = Some new"
  by (induction xs) (auto split: if_splits)

text \<open>
  Claim C1, as stated, fails at the empty reference text: \<open>process_audio\<close> then
  raises "Story content not found for audio" and computes no score, although the
  enhanced transcript (here empty too) equals the reference text. The rounding plays no
  part here; it is taken exact.
\<close>

theorem process_audio_empty_reference:
  "process_audio (\<lambda>x. x) (\<lambda>url. Inr []) (\<lambda>t s. Inr [])
     \<lparr>stories = [], assignments = [],
      feedback_docs = [], audios = [\<lparr>audio_id = ''eeeeeeeeeeeeeeeeeeeeeeee'', file_path = ''https://audio.example/one.mp3'',
        file_name = ''reading.mp3'', score = None, transcript = None,
        whole_story = '''', audio_sid = Some ''111111111111111111111111''\<rparr>]\<rparr>
     ''eeeeeeeeeeeeeeeeeeeeeeee''
   = (Inl (Failed ''Failed to process audio'' (PyException ''Story content not found for audio'')),
      \<lparr>stories = [], assignments = [],
      feedback_docs = [], audios = [\<lparr>audio_id = ''eeeeeeeeeeeeeeeeeeeeeeee'', file_path = ''https://audio.example/one.mp3'',
        file_name = ''reading.mp3'', score = None, transcript = None,
        whole_story = '''', audio_sid = Some ''111111111111111111111111''\<rparr>]\<rparr>)"
  by (simp add: process_audio_def ObjectId_def is_hex_def hex_lower_def)

text \<open>
  Claim C1, amended. For a stored audio found under the given id: when its reference
  text is empty, \<open>process_audio\<close> raises "Story content not found for audio", changes
  nothing and computes no score. When its reference text holds at least one word and the
  transcription returns a transcript, \<open>process_audio\<close> returns and stores
  \<open>score = max(0, 100 - (100 * error_rate))\<close> computed in float arithmetic (product,
  then difference, each rounded), where \<open>error_rate\<close> is the word error rate between
  the reference text and the enhanced transcript: the Levenshtein distance of the two
  whitespace-tokenized word sequences over the number of reference words, as floats.
  The score lies between 0 and 100 whatever the transcript, and is exactly 100 when the
  enhanced transcript equals the reference text. The enhanced transcript is the
  correcting completion's answer, or the raw transcript when that completion fails.
  Rounding can make the score differ from the exact value of
  \<open>100 * (1 - error_rate)\<close>. Here the float arithmetic is any rounding that is
  monotone and leaves 0, 1 and 100 unchanged.
\<close>

theorem process_audio_score:
  "ObjectId aid = Inr key \<and> find (\<lambda>a. audio_id a = key) (audios db) = Some audio \<longrightarrow>
     (whole_story audio = [] \<longrightarrow>
        process_audio fl transcriber chat db aid
          = (Inl (Failed ''Failed to process audio''
                   (PyException ''Story content not found for audio'')), db))
   \<and> (float_rounding fl \<and> split_words (whole_story audio) \<noteq> []
        \<and> transcriber (file_path audio) = Inr raw \<longrightarrow>
        (\<exists>enhanced error_rate sc db'.
            enhanced = enhance_transcript chat raw (whole_story audio)
          \<and> error_rate
              = fl (fl (of_nat (edit_distance (split_words (whole_story audio))
                                  (split_words enhanced)))
                    / fl (of_nat (length (split_words (whole_story audio)))))
          \<and> wer fl (whole_story audio) enhanced = Some error_rate
          \<and> sc = max 0 (fl (100 - fl (100 * error_rate)))
          \<and> process_audio fl transcriber chat db aid
              = (Inr \<lparr>r_transcript = raw, r_enhanced_transcript = enhanced, r_score = sc\<rparr>,
                 db')
          \<and> find (\<lambda>a. audio_id a = key) (audios db')
              = Some (audio\<lparr>transcript := Some raw, score := Some sc\<rparr>)
          \<and> 0 \<le> sc \<and> sc \<le> 100
          \<and> (enhanced = whole_story audio \<longrightarrow> sc = 100)))"
proof (intro impI conjI)
  assume found: "ObjectId aid = Inr key \<and> find (\<lambda>a. audio_id a = key) (audios db) = Some audio"
    and empty: "whole_story audio = []"
  then show "process_audio fl transcriber chat db aid
          = (Inl (Failed ''Failed to process audio''
                   (PyException ''Story content not found for audio'')), db)"
    by (simp add: process_audio_def)
next
  assume found: "ObjectId aid = Inr key \<and> find (\<lambda>a. audio_id a = key) (audios db) = Some audio"
    and h: "float_rounding fl \<and> split_words (whole_story audio) \<noteq> []
        \<and> transcriber (file_path audio) = Inr raw"
  from h have fl: "float_rounding fl" and words: "split_words (whole_story audio) \<noteq> []"
    and tr: "transcriber (file_path audio) = Inr raw" by simp_all
  from found have oid: "ObjectId aid = Inr key"
    and fnd: "find (\<lambda>a. audio_id a = key) (audios db) = Some audio" by simp_all
  define enhanced where "enhanced = enhance_transcript chat raw (whole_story audio)"
  define error_rate where
    "error_rate = fl (fl (of_nat (edit_distance (split_words (whole_story audio))
                                  (split_words enhanced)))
                    / fl (of_nat (length (split_words (whole_story audio)))))"
  define sc where "sc = score_of fl error_rate"
  define audio1 where "audio1 = audio\<lparr>transcript := Some raw\<rparr>"
  define audio2 where "audio2 = audio1\<lparr>score := Some sc\<rparr>"
  define db' where "db' = save_audio (save_audio db audio1) audio2"
  from fnd have key: "audio_id audio = key"
    by (auto dest: find_Some_iff [THEN iffD1])
  from words have nonempty: "whole_story audio \<noteq> []"
    by (auto simp: split_words_def)
  have w: "wer fl (whole_story audio) enhanced = Some error_rate"
    using words by (simp add: wer_def error_rate_def Let_def)
  have run: "process_audio fl transcriber chat db aid
        = (Inr \<lparr>r_transcript = raw, r_enhanced_transcript = enhanced, r_score = sc\<rparr>, db')"
    using oid fnd tr nonempty w
    by (simp add: process_audio_def transcribe_audio_def Let_def enhanced_def [symmetric]
          audio1_def audio2_def db'_def sc_def)
  have id1: "audio_id audio1 = key"
    by (simp add: audio1_def key)
  have id2: "audio_id audio2 = key"
    by (simp add: audio2_def id1)
  have s1: "find (\<lambda>a. audio_id a = key) (audios (save_audio db audio1)) = Some audio1"
    using find_saved_audio [OF fnd id1] by (simp add: save_audio_def)
  have stored: "find (\<lambda>a. audio_id a = key) (audios db') = Some audio2"
    using find_saved_audio [OF s1 id2] by (simp add: save_audio_def db'_def)
  have len: "0 < length (split_words (whole_story audio))"
    using words by simp
  have pos: "0 \<le> error_rate"
    unfolding error_rate_def by (rule error_rate_nonneg [OF fl len])
  have same: "enhanced = whole_story audio \<longrightarrow> sc = 100"
  proof
    assume "enhanced = whole_story audio"
    then have "error_rate = fl (fl 0 / fl (of_nat (length (split_words (whole_story audio)))))"
      by (simp add: error_rate_def edit_distance_same)
    with fl have "error_rate = 0"
      by (simp add: float_rounding_def)
    then show "sc = 100"
      by (simp add: sc_def score_of_zero [OF fl])
  qed
  have "enhanced = enhance_transcript chat raw (whole_story audio)
          \<and> error_rate
              = fl (fl (of_nat (edit_distance (split_words (whole_story audio))
                                  (split_words enhanced)))
                    / fl (of_nat (length (split_words (whole_story audio)))))
          \<and> wer fl (whole_story audio) enhanced = Some error_rate
          \<and> sc = max 0 (fl (100 - fl (100 * error_rate)))
          \<and> process_audio fl transcriber chat db aid
              = (Inr \<lparr>r_transcript = raw, r_enhanced_transcript = enhanced, r_score = sc\<rparr>,
                 db')
          \<and> find (\<lambda>a. audio_id a = key) (audios db')
              = Some (audio\<lparr>transcript := Some raw, score := Some sc\<rparr>)
          \<and> 0 \<le> sc \<and> sc \<le> 100
          \<and> (enhanced = whole_story audio \<longrightarrow> sc = 100)"
    using run stored score_of_bounds [OF fl pos] same w
    by (simp add: enhanced_def [symmetric] error_rate_def [symmetric] sc_def [symmetric]
          audio2_def audio1_def)
       (simp add: sc_def score_of_def)
  then show "\<exists>enhanced error_rate sc db'.
            enhanced = enhance_transcript chat raw (whole_story audio)
          \<and> error_rate
              = fl (fl (of_nat (edit_distance (split_words (whole_story audio))
                                  (split_words enhanced)))
                    / fl (of_nat (length (split_words (whole_story audio)))))
          \<and> wer fl (whole_story audio) enhanced = Some error_rate
          \<and> sc = max 0 (fl (100 - fl (100 * error_rate)))
          \<and> process_audio fl transcriber chat db aid
              = (Inr \<lparr>r_transcript = raw, r_enhanced_transcript = enhanced, r_score = sc\<rparr>,
                 db')
          \<and> find (\<lambda>a. audio_id a = key) (audios db')
              = Some (audio\<lparr>transcript := Some raw, score := Some sc\<rparr>)
          \<and> 0 \<le> sc \<and> sc \<le> 100
          \<and> (enhanced = whole_story audio \<longrightarrow> sc = 100)"
    by blast
qed

text \<open>
  The theorem with a rounding to multiples of 1/1024, at a store of three audios. The
  spec's scenario, reference "The quick brown fox." read as "The quick red fox." with the
  enhancement failing: one substitution in four words, score 75. An enhancement that
  returns the reference text: score 100. An enhancement that returns "The quick fox.":
  one deletion in four words, score 75. The reference "Go" read as "Go go go and go":
  four insertions on one reference word, score clamped to 0. The audio with the empty
  reference text: the exception, and the store unchanged. The reference "One two three"
  read as "One two tree": the error rate 1/3 is rounded to 341/1024 and the score is
  17075/256, not the exact 200/3.
\<close>

theorem process_audio_score_witness:
  "fst (process_audio (\<lambda>x. of_int (round (x * 1024)) / 1024)
          (\<lambda>url. if url = ''https://audio.example/one.mp3'' then Inr ''The quick red fox.''
            else if url = ''https://audio.example/four.mp3'' then Inr ''One two tree''
            else Inr ''Go go go and go'')
          (\<lambda>t s. Inl (UpstreamError ''no completion''))
          \<lparr>stories = [], assignments = [],
      feedback_docs = [], audios = [\<lparr>audio_id = ''eeeeeeeeeeeeeeeeeeeeeeee'', file_path = ''https://audio.example/one.mp3'',
        file_name = ''reading.mp3'', score = None, transcript = None,
        whole_story = ''The quick brown fox.'', audio_sid = Some ''111111111111111111111111''\<rparr>,
       \<lparr>audio_id = ''ffffffffffffffffffffffff'', file_path = ''https://audio.example/two.mp3'',
        file_name = ''reading.mp3'', score = None, transcript = None,
        whole_story = ''Go'', audio_sid = Some ''111111111111111111111111''\<rparr>,
       \<lparr>audio_id = ''999999999999999999999999'', file_path = ''https://audio.example/three.mp3'',
        file_name = ''reading.mp3'', score = None, transcript = None,
        whole_story = '''', audio_sid = Some ''111111111111111111111111''\<rparr>,
       \<lparr>audio_id = ''888888888888888888888888'', file_path = ''https://audio.example/four.mp3'',
        file_name = ''reading.mp3'', score = None, transcript = None,
        whole_story = ''One two three'', audio_sid = Some ''111111111111111111111111''\<rparr>]\<rparr>
          ''eeeeeeeeeeeeeeeeeeeeeeee'')
     = Inr \<lparr>r_transcript = ''The quick red fox.'', r_enhanced_transcript = ''The quick red fox.'', r_score = 75\<rparr>
   \<and> fst (process_audio (\<lambda>x. of_int (round (x * 1024)) / 1024)
          (\<lambda>url. if url = ''https://audio.example/one.mp3'' then Inr ''The quick red fox.''
            else if url = ''https://audio.example/four.mp3'' then Inr ''One two tree''
            else Inr ''Go go go and go'')
          (\<lambda>t s. Inr s)
          \<lparr>stories = [], assignments = [],
      feedback_docs = [], audios = [\<lparr>audio_id = ''eeeeeeeeeeeeeeeeeeeeeeee'', file_path = ''https://audio.example/one.mp3'',
        file_name = ''reading.mp3'', score = None, transcript = None,
        whole_story = ''The quick brown fox.'', audio_sid = Some ''111111111111111111111111''\<rparr>,
       \<lparr>audio_id = ''ffffffffffffffffffffffff'', file_path = ''https://audio.example/two.mp3'',
        file_name = ''reading.mp3'', score = None, transcript = None,
        whole_story = ''Go'', audio_sid = Some ''111111111111111111111111''\<rparr>,
       \<lparr>audio_id = ''999999999999999999999999'', file_path = ''https://audio.example/three.mp3'',
        file_name = ''reading.mp3'', score = None, transcript = None,
        whole_story = '''', audio_sid = Some ''111111111111111111111111''\<rparr>,
       \<lparr>audio_id = ''888888888888888888888888'', file_path = ''https://audio.example/four.mp3'',
        file_name = ''reading.mp3'', score = None, transcript = None,
        whole_story = ''One two three'', audio_sid = Some ''111111111111111111111111''\<rparr>]\<rparr>
          ''eeeeeeeeeeeeeeeeeeeeeeee'')
     = Inr \<lparr>r_transcript = ''The quick red fox.'', r_enhanced_transcript = ''The quick brown fox.'', r_score = 100\<rparr>
   \<and> fst (process_audio (\<lambda>x. of_int (round (x * 1024)) / 1024)
          (\<lambda>url. if url = ''https://audio.example/one.mp3'' then Inr ''The quick red fox.''
            else if url = ''https://audio.example/four.mp3'' then Inr ''One two tree''
            else Inr ''Go go go and go'')
          (\<lambda>t s. Inl (UpstreamError ''no completion''))
          \<lparr>stories = [], assignments = [],
      feedback_docs = [], audios = [\<lparr>audio_id = ''eeeeeeeeeeeeeeeeeeeeeeee'', file_path = ''https://audio.example/one.mp3'',
        file_name = ''reading.mp3'', score = None, transcript = None,
        whole_story = ''The quick brown fox.'', audio_sid = Some ''111111111111111111111111''\<rparr>,
       \<lparr>audio_id = ''ffffffffffffffffffffffff'', file_path = ''https://audio.example/two.mp3'',
        file_name = ''reading.mp3'', score = None, transcript = None,
        whole_story = ''Go'', audio_sid = Some ''111111111111111111111111''\<rparr>,
       \<lparr>audio_id = ''999999999999999999999999'', file_path = ''https://audio.example/three.mp3'',
        file_name = ''reading.mp3'', score = None, transcript = None,
        whole_story = '''', audio_sid = Some ''111111111111111111111111''\<rparr>,
       \<lparr>audio_id = ''888888888888888888888888'', file_path = ''https://audio.example/four.mp3'',
        file_name = ''reading.mp3'', score = None, transcript = None,
        whole_story = ''One two three'', audio_sid = Some ''111111111111111111111111''\<rparr>]\<rparr>
          ''ffffffffffffffffffffffff'')
     = Inr \<lparr>r_transcript = ''Go go go and go'', r_enhanced_transcript = ''Go go go and go'',
            r_score = 0\<rparr>
   \<and> process_audio (\<lambda>x. of_int (round (x * 1024)) / 1024)
          (\<lambda>url. if url = ''https://audio.example/one.mp3'' then Inr ''The quick red fox.''
            else if url = ''https://audio.example/four.mp3'' then Inr ''One two tree''
            else Inr ''Go go go and go'')
          (\<lambda>t s. Inl (UpstreamError ''no completion''))
          \<lparr>stories = [], assignments = [],
      feedback_docs = [], audios = [\<lparr>audio_id = ''eeeeeeeeeeeeeeeeeeeeeeee'', file_path = ''https://audio.example/one.mp3'',
        file_name = ''reading.mp3'', score = None, transcript = None,
        whole_story = ''The quick brown fox.'', audio_sid = Some ''111111111111111111111111''\<rparr>,
       \<lparr>audio_id = ''ffffffffffffffffffffffff'', file_path = ''https://audio.example/two.mp3'',
        file_name = ''reading.mp3'', score = None, transcript = None,
        whole_story = ''Go'', audio_sid = Some ''111111111111111111111111''\<rparr>,
       \<lparr>audio_id = ''999999999999999999999999'', file_path = ''https://audio.example/three.mp3'',
        file_name = ''reading.mp3'', score = None, transcript = None,
        whole_story = '''', audio_sid = Some ''111111111111111111111111''\<rparr>,
       \<lparr>audio_id = ''888888888888888888888888'', file_path = ''https://audio.example/four.mp3'',
        file_name = ''reading.mp3'', score = None, transcript = None,
        whole_story = ''One two three'', audio_sid = Some ''111111111111111111111111''\<rparr>]\<rparr>
          ''999999999999999999999999''
     = (Inl (Failed ''Failed to process audio'' (PyException ''Story content not found for audio'')),
        \<lparr>stories = [], assignments = [],
      feedback_docs = [], audios = [\<lparr>audio_id = ''eeeeeeeeeeeeeeeeeeeeeeee'', file_path = ''https://audio.example/one.mp3'',
        file_name = ''reading.mp3'', score = None, transcript = None,
        whole_story = ''The quick brown fox.'', audio_sid = Some ''111111111111111111111111''\<rparr>,
       \<lparr>audio_id = ''ffffffffffffffffffffffff'', file_path = ''https://audio.example/two.mp3'',
        file_name = ''reading.mp3'', score = None, transcript = None,
        whole_story = ''Go'', audio_sid = Some ''111111111111111111111111''\<rparr>,
       \<lparr>audio_id = ''999999999999999999999999'', file_path = ''https://audio.example/three.mp3'',
        file_name = ''reading.mp3'', score = None, transcript = None,
        whole_story = '''', audio_sid = Some ''111111111111111111111111''\<rparr>,
       \<lparr>audio_id = ''888888888888888888888888'', file_path = ''https://audio.example/four.mp3'',
        file_name = ''reading.mp3'', score = None, transcript = None,
        whole_story = ''One two three'', audio_sid = Some ''111111111111111111111111''\<rparr>]\<rparr>)
   \<and> fst (process_audio (\<lambda>x. of_int (round (x * 1024)) / 1024)
          (\<lambda>url. if url = ''https://audio.example/one.mp3'' then Inr ''The quick red fox.''
            else if url = ''https://audio.example/four.mp3'' then Inr ''One two tree''
            else Inr ''Go go go and go'')
          (\<lambda>t s. Inl (UpstreamError ''no completion''))
          \<lparr>stories = [], assignments = [],
      feedback_docs = [], audios = [\<lparr>audio_id = ''eeeeeeeeeeeeeeeeeeeeeeee'', file_path = ''https://audio.example/one.mp3'',
        file_name = ''reading.mp3'', score = None, transcript = None,
        whole_story = ''The quick brown fox.'', audio_sid = Some ''111111111111111111111111''\<rparr>,
       \<lparr>audio_id = ''ffffffffffffffffffffffff'', file_path = ''https://audio.example/two.mp3'',
        file_name = ''reading.mp3'', score = None, transcript = None,
        whole_story = ''Go'', audio_sid = Some ''111111111111111111111111''\<rparr>,
       \<lparr>audio_id = ''999999999999999999999999'', file_path = ''https://audio.example/three.mp3'',
        file_name = ''reading.mp3'', score = None, transcript = None,
        whole_story = '''', audio_sid = Some ''111111111111111111111111''\<rparr>,
       \<lparr>audio_id = ''888888888888888888888888'', file_path = ''https://audio.example/four.mp3'',
        file_name = ''reading.mp3'', score = None, transcript = None,
        whole_story = ''One two three'', audio_sid = Some ''111111111111111111111111''\<rparr>]\<rparr>
          ''888888888888888888888888'')
     = Inr \<lparr>r_transcript = ''One two tree'', r_enhanced_transcript = ''One two tree'',
            r_score = 17075 / 256\<rparr>"
proof -
  let ?fl = "(\<lambda>x. of_int (round (x * 1024)) / 1024) :: rat \<Rightarrow> rat"
  let ?tr = "(\<lambda>url. if url = ''https://audio.example/one.mp3'' then Inr ''The quick red fox.''
            else if url = ''https://audio.example/four.mp3'' then Inr ''One two tree''
            else Inr ''Go go go and go'') :: string \<Rightarrow> error + string"
  let ?fail = "(\<lambda>t s. Inl (UpstreamError ''no completion'')) :: string \<Rightarrow> string \<Rightarrow> error + string"
  let ?same = "(\<lambda>t s. Inr s) :: string \<Rightarrow> string \<Rightarrow> error + string"
  let ?a1 = "\<lparr>audio_id = ''eeeeeeeeeeeeeeeeeeeeeeee'', file_path = ''https://audio.example/one.mp3'',
        file_name = ''reading.mp3'', score = None, transcript = None,
        whole_story = ''The quick brown fox.'', audio_sid = Some ''111111111111111111111111''\<rparr>"
  let ?a2 = "\<lparr>audio_id = ''ffffffffffffffffffffffff'', file_path = ''https://audio.example/two.mp3'',
        file_name = ''reading.mp3'', score = None, transcript = None,
        whole_story = ''Go'', audio_sid = Some ''111111111111111111111111''\<rparr>"
  let ?a3 = "\<lparr>audio_id = ''999999999999999999999999'', file_path = ''https://audio.example/three.mp3'',
        file_name = ''reading.mp3'', score = None, transcript = None,
        whole_story = '''', audio_sid = Some ''111111111111111111111111''\<rparr>"
  let ?a4 = "\<lparr>audio_id = ''888888888888888888888888'', file_path = ''https://audio.example/four.mp3'',
        file_name = ''reading.mp3'', score = None, transcript = None,
        whole_story = ''One two three'', audio_sid = Some ''111111111111111111111111''\<rparr>"
  let ?db = "\<lparr>stories = [], assignments = [],
      feedback_docs = [], audios = [\<lparr>audio_id = ''eeeeeeeeeeeeeeeeeeeeeeee'', file_path = ''https://audio.example/one.mp3'',
        file_name = ''reading.mp3'', score = None, transcript = None,
        whole_story = ''The quick brown fox.'', audio_sid = Some ''111111111111111111111111''\<rparr>,
       \<lparr>audio_id = ''ffffffffffffffffffffffff'', file_path = ''https://audio.example/two.mp3'',
        file_name = ''reading.mp3'', score = None, transcript = None,
        whole_story = ''Go'', audio_sid = Some ''111111111111111111111111''\<rparr>,
       \<lparr>audio_id = ''999999999999999999999999'', file_path = ''https://audio.example/three.mp3'',
        file_name = ''reading.mp3'', score = None, transcript = None,
        whole_story = '''', audio_sid = Some ''111111111111111111111111''\<rparr>,
       \<lparr>audio_id = ''888888888888888888888888'', file_path = ''https://audio.example/four.mp3'',
        file_name = ''reading.mp3'', score = None, transcript = None,
        whole_story = ''One two three'', audio_sid = Some ''111111111111111111111111''\<rparr>]\<rparr>"
  have mono: "\<forall>x y. x \<le> y \<longrightarrow> ?fl x \<le> ?fl y"
    by (simp add: round_mono divide_right_mono)
  then have fl: "float_rounding ?fl"
    by (simp add: float_rounding_def)
  have k1: "ObjectId ''eeeeeeeeeeeeeeeeeeeeeeee'' = Inr ''eeeeeeeeeeeeeeeeeeeeeeee''"
    and k2: "ObjectId ''ffffffffffffffffffffffff'' = Inr ''ffffffffffffffffffffffff''"
    and k3: "ObjectId ''999999999999999999999999'' = Inr ''999999999999999999999999''"
    and k4: "ObjectId ''888888888888888888888888'' = Inr ''888888888888888888888888''"
    by (simp_all add: ObjectId_def is_hex_def hex_lower_def)
  have f1: "find (\<lambda>a. audio_id a = ''eeeeeeeeeeeeeeeeeeeeeeee'') (audios ?db) = Some ?a1"
    and f2: "find (\<lambda>a. audio_id a = ''ffffffffffffffffffffffff'') (audios ?db) = Some ?a2"
    and f3: "find (\<lambda>a. audio_id a = ''999999999999999999999999'') (audios ?db) = Some ?a3"
    and f4: "find (\<lambda>a. audio_id a = ''888888888888888888888888'') (audios ?db) = Some ?a4"
    by simp_all
  have r1: "split_words ''The quick brown fox.'' = [''The'', ''quick'', ''brown'', ''fox.'']"
    and h1: "split_words ''The quick red fox.'' = [''The'', ''quick'', ''red'', ''fox.'']"
    and r2: "split_words ''Go'' = [''Go'']"
    and h2: "split_words ''Go go go and go'' = [''Go'', ''go'', ''go'', ''and'', ''go'']"
    and r4: "split_words ''One two three'' = [''One'', ''two'', ''three'']"
    and h4: "split_words ''One two tree'' = [''One'', ''two'', ''tree'']"
    by (simp_all add: split_words_def py_isspace_def)
  have w1: "split_words (whole_story ?a1) \<noteq> []"
    and w2: "split_words (whole_story ?a2) \<noteq> []"
    and w4: "split_words (whole_story ?a4) \<noteq> []"
    by (simp_all add: r1 r2 r4)
  have t1: "?tr (file_path ?a1) = Inr ''The quick red fox.''"
    and t2: "?tr (file_path ?a2) = Inr ''Go go go and go''"
    and t4: "?tr (file_path ?a4) = Inr ''One two tree''"
    by simp_all
  have d1: "edit_distance [''The'', ''quick'', ''brown'', ''fox.''] [''The'', ''quick'', ''red'', ''fox.''] = 1"
    and d2: "edit_distance [''Go''] [''Go'', ''go'', ''go'', ''and'', ''go''] = 4"
    and d4: "edit_distance [''One'', ''two'', ''three''] [''One'', ''two'', ''tree''] = 1"
    by simp_all
  have e1: "?fl (?fl (of_nat 1) / ?fl (of_nat 4)) = 1 / 4"
    and e2: "?fl (?fl (of_nat 4) / ?fl (of_nat 1)) = 4"
    and s1: "max 0 (?fl (100 - ?fl (100 * (1 / 4)))) = 75"
    and s2: "max 0 (?fl (100 - ?fl (100 * 4))) = 0"
    by simp_all
  note inst1 = process_audio_score
    [where fl = ?fl and transcriber = ?tr and chat = ?fail and aid = "''eeeeeeeeeeeeeeeeeeeeeeee''"
       and key = "''eeeeeeeeeeeeeeeeeeeeeeee''" and db = ?db and audio = ?a1 and raw = "''The quick red fox.''"]
  note inst2 = process_audio_score
    [where fl = ?fl and transcriber = ?tr and chat = ?same and aid = "''eeeeeeeeeeeeeeeeeeeeeeee''"
       and key = "''eeeeeeeeeeeeeeeeeeeeeeee''" and db = ?db and audio = ?a1 and raw = "''The quick red fox.''"]
  note inst3 = process_audio_score
    [where fl = ?fl and transcriber = ?tr and chat = ?fail and aid = "''ffffffffffffffffffffffff''"
       and key = "''ffffffffffffffffffffffff''" and db = ?db and audio = ?a2 and raw = "''Go go go and go''"]
  note inst5 = process_audio_score
    [where fl = ?fl and transcriber = ?tr and chat = ?fail and aid = "''888888888888888888888888''"
       and key = "''888888888888888888888888''" and db = ?db and audio = ?a4 and raw = "''One two tree''"]
  note inst4 = process_audio_score
    [where fl = ?fl and transcriber = ?tr and chat = ?fail and aid = "''999999999999999999999999''"
       and key = "''999999999999999999999999''" and db = ?db and audio = ?a3]
  from inst1 [THEN mp, OF conjI [OF k1 f1], THEN conjunct2, THEN mp,
      OF conjI [OF fl conjI [OF w1 t1]]]
  obtain en1 er1 sc1 db1 where
    en1: "en1 = enhance_transcript ?fail ''The quick red fox.'' (whole_story ?a1)"
    and er1: "er1 = ?fl (?fl (of_nat (edit_distance (split_words (whole_story ?a1))
                                  (split_words en1)))
                    / ?fl (of_nat (length (split_words (whole_story ?a1)))))"
    and sc1: "sc1 = max 0 (?fl (100 - ?fl (100 * er1)))"
    and run1: "process_audio ?fl ?tr ?fail ?db ''eeeeeeeeeeeeeeeeeeeeeeee''
        = (Inr \<lparr>r_transcript = ''The quick red fox.'', r_enhanced_transcript = en1, r_score = sc1\<rparr>, db1)"
    by blast
  have en1': "en1 = ''The quick red fox.''"
    using en1 by (simp add: enhance_transcript_def)
  have er1': "er1 = 1 / 4"
    unfolding er1 en1' by (simp add: r1 h1 d1)
  have sc1': "sc1 = 75"
    unfolding sc1 er1' by simp
  have a: "fst (process_audio ?fl ?tr ?fail ?db ''eeeeeeeeeeeeeeeeeeeeeeee'')
      = Inr \<lparr>r_transcript = ''The quick red fox.'', r_enhanced_transcript = ''The quick red fox.'', r_score = 75\<rparr>"
    unfolding run1 en1' sc1' by simp
  from inst2 [THEN mp, OF conjI [OF k1 f1], THEN conjunct2, THEN mp,
      OF conjI [OF fl conjI [OF w1 t1]]]
  obtain en2 sc2 db2 where
    en2: "en2 = enhance_transcript ?same ''The quick red fox.'' (whole_story ?a1)"
    and same2: "en2 = whole_story ?a1 \<longrightarrow> sc2 = 100"
    and run2: "process_audio ?fl ?tr ?same ?db ''eeeeeeeeeeeeeeeeeeeeeeee''
        = (Inr \<lparr>r_transcript = ''The quick red fox.'', r_enhanced_transcript = en2, r_score = sc2\<rparr>, db2)"
    by blast
  have en2': "en2 = ''The quick brown fox.''"
    using en2 by (simp add: enhance_transcript_def)
  have sc2': "sc2 = 100"
    using same2 en2' by simp
  have b: "fst (process_audio ?fl ?tr ?same ?db ''eeeeeeeeeeeeeeeeeeeeeeee'')
      = Inr \<lparr>r_transcript = ''The quick red fox.'', r_enhanced_transcript = ''The quick brown fox.'', r_score = 100\<rparr>"
    unfolding run2 en2' sc2' by simp
  from inst3 [THEN mp, OF conjI [OF k2 f2], THEN conjunct2, THEN mp,
      OF conjI [OF fl conjI [OF w2 t2]]]
  obtain en3 er3 sc3 db3 where
    en3: "en3 = enhance_transcript ?fail ''Go go go and go'' (whole_story ?a2)"
    and er3: "er3 = ?fl (?fl (of_nat (edit_distance (split_words (whole_story ?a2))
                                  (split_words en3)))
                    / ?fl (of_nat (length (split_words (whole_story ?a2)))))"
    and sc3: "sc3 = max 0 (?fl (100 - ?fl (100 * er3)))"
    and run3: "process_audio ?fl ?tr ?fail ?db ''ffffffffffffffffffffffff''
        = (Inr \<lparr>r_transcript = ''Go go go and go'', r_enhanced_transcript = en3,
                r_score = sc3\<rparr>, db3)"
    by blast
  have en3': "en3 = ''Go go go and go''"
    using en3 by (simp add: enhance_transcript_def)
  have er3': "er3 = 4"
    unfolding er3 en3' by (simp add: r2 h2 d2)
  have sc3': "sc3 = 0"
    unfolding sc3 er3' by simp
  have c: "fst (process_audio ?fl ?tr ?fail ?db ''ffffffffffffffffffffffff'')
      = Inr \<lparr>r_transcript = ''Go go go and go'', r_enhanced_transcript = ''Go go go and go'',
            r_score = 0\<rparr>"
    unfolding run3 en3' sc3' by simp
  have e: "whole_story ?a3 = []" by simp
  from inst4 [THEN mp, OF conjI [OF k3 f3], THEN conjunct1, THEN mp, OF e]
  have d: "process_audio ?fl ?tr ?fail ?db ''999999999999999999999999''
      = (Inl (Failed ''Failed to process audio'' (PyException ''Story content not found for audio'')),
         ?db)" .
  from inst5 [THEN mp, OF conjI [OF k4 f4], THEN conjunct2, THEN mp,
      OF conjI [OF fl conjI [OF w4 t4]]]
  obtain en5 er5 sc5 db5 where
    en5: "en5 = enhance_transcript ?fail ''One two tree'' (whole_story ?a4)"
    and er5: "er5 = ?fl (?fl (of_nat (edit_distance (split_words (whole_story ?a4))
                                  (split_words en5)))
                    / ?fl (of_nat (length (split_words (whole_story ?a4)))))"
    and sc5: "sc5 = max 0 (?fl (100 - ?fl (100 * er5)))"
    and run5: "process_audio ?fl ?tr ?fail ?db ''888888888888888888888888''
        = (Inr \<lparr>r_transcript = ''One two tree'', r_enhanced_transcript = en5,
                r_score = sc5\<rparr>, db5)"
    by blast
  have en5': "en5 = ''One two tree''"
    using en5 by (simp add: enhance_transcript_def)
  have third: "round (1024 / 3 :: rat) = 341"
    by (rule round_unique') simp
  have er5': "er5 = 341 / 1024"
    unfolding er5 en5' by (simp add: r4 h4 d4 third)
  have sc5': "sc5 = 17075 / 256"
    unfolding sc5 er5' by simp
  have g: "fst (process_audio ?fl ?tr ?fail ?db ''888888888888888888888888'')
      = Inr \<lparr>r_transcript = ''One two tree'', r_enhanced_transcript = ''One two tree'',
            r_score = 17075 / 256\<rparr>"
    unfolding run5 en5' sc5' by simp
  from a b c d g show ?thesis by blast
qed

end
